theory Spec2Isabelle
  imports Main
begin

section \<open>Python strings and string formatting\<close>

text \<open>
  A Python \<open>str\<close> is a sequence of Unicode code points and \<open>len\<close> counts code points,
  so a string is modelled as the list of its code points. A nullable database column
  arrives in Python as \<open>None\<close> or a \<open>str\<close>, modelled as \<open>ustr option\<close>.
\<close>

type_synonym ustr = "nat list"

definition ascii :: "string \<Rightarrow> ustr" where
  "ascii s = map of_char s"

definition space :: nat where
  "space = 32"

text \<open>The slice \<open>s[i:j]\<close> for \<open>0 \<le> i \<le> j\<close>; Python clips it to the string.\<close>

definition slice :: "nat \<Rightarrow> nat \<Rightarrow> ustr \<Rightarrow> ustr" where
  "slice i j s = take (j - i) (drop i s)"

text \<open>\<open>x or d\<close> on a nullable string: \<open>None\<close> and the empty string are falsy.\<close>

definition py_or :: "ustr option \<Rightarrow> ustr \<Rightarrow> ustr" where
  "py_or x d = (case x of None \<Rightarrow> d | Some s \<Rightarrow> if s = [] then d else s)"

text \<open>
  The format specifications \<open>{s:<w}\<close>, \<open>{s:>w}\<close> and \<open>{s:^w}\<close>: pad with spaces to
  width \<open>w\<close>, never truncate. Centring puts the smaller half of the padding on the left.
\<close>

definition fmt_left :: "nat \<Rightarrow> ustr \<Rightarrow> ustr" where
  "fmt_left w s = s @ replicate (w - length s) space"

definition fmt_right :: "nat \<Rightarrow> ustr \<Rightarrow> ustr" where
  "fmt_right w s = replicate (w - length s) space @ s"

definition fmt_center :: "nat \<Rightarrow> ustr \<Rightarrow> ustr" where
  "fmt_center w s =
     (let pad = w - length s; l = pad div 2
      in replicate l space @ s @ replicate (pad - l) space)"

text \<open>\<open>str(n)\<close> for an integer: decimal digits, with a minus sign when negative.\<close>

fun str_nat :: "nat \<Rightarrow> ustr" where
  "str_nat n = (if n < 10 then [48 + n] else str_nat (n div 10) @ [48 + n mod 10])"

definition str_int :: "int \<Rightarrow> ustr" where
  "str_int i = (if i < 0 then 45 # str_nat (nat (- i)) else str_nat (nat i))"

section \<open>Fixed text of the reports\<close>

text \<open>The sentinel \<open>mi-settei\<close> ("not set"), code points U+672A U+8A2D U+5B9A.\<close>

definition misettei :: ustr where
  "misettei = [26410, 35373, 23450]"

text \<open>The sentinel \<open>fumei\<close> ("unknown"), code points U+4E0D U+660E.\<close>

definition fumei :: ustr where
  "fumei = [19981, 26126]"

definition colon :: ustr where
  "colon = ascii '':''"

section \<open>Visit time\<close>

text \<open>
  \<open>check_today_visits.py\<close> line 41 and 72, a conditional expression:
  \<open>f"{uketime[:2]}:{uketime[2:4]}:{uketime[4:6]}" if uketime and len(uketime) >= 6
  else uketime or "..."\<close>.
\<close>

definition time_str :: "ustr option \<Rightarrow> ustr" where
  "time_str uketime =
     (case uketime of
        None \<Rightarrow> py_or uketime misettei
      | Some t \<Rightarrow>
          if t \<noteq> [] \<and> 6 \<le> length t
          then slice 0 2 t @ colon @ slice 2 4 t @ colon @ slice 4 6 t
          else py_or uketime misettei)"

text \<open>
  \<open>test_orca_odbc.py\<close> lines 418 to 421, the same computation as an
  \<open>if\<close>/\<open>else\<close> statement in \<open>show_todays_visits\<close>.
\<close>

definition visit_time_str :: "ustr option \<Rightarrow> ustr" where
  "visit_time_str uketime =
     (if (case uketime of None \<Rightarrow> False | Some t \<Rightarrow> t \<noteq> [] \<and> 6 \<le> length t)
      then (case uketime of
              None \<Rightarrow> []
            | Some t \<Rightarrow> slice 0 2 t @ colon @ slice 2 4 t @ colon @ slice 4 6 t)
      else py_or uketime misettei)"

section \<open>Department names\<close>

text \<open>
  The dictionary \<open>dept_map\<close> of \<open>show_todays_visits\<close> (lines 428 to 441 and again
  472 to 476, the same twelve entries): codes \<open>01\<close> to \<open>12\<close> with their display names,
  \<open>naika\<close> (internal medicine, U+5185 U+79D1) for \<open>01\<close> and \<open>geka\<close> (surgery,
  U+5916 U+79D1) for \<open>02\<close>.
\<close>

definition naika :: ustr where
  "naika = [20869, 31185]"

definition geka :: ustr where
  "geka = [22806, 31185]"

definition dept_map :: "(ustr \<times> ustr) list" where
  "dept_map =
     [(ascii ''01'', naika),
      (ascii ''02'', geka),
      (ascii ''03'', [23567, 20816, 31185]),
      (ascii ''04'', [29987, 23142, 20154, 31185]),
      (ascii ''05'', [30524, 31185]),
      (ascii ''06'', [32819, 40763, 31185]),
      (ascii ''07'', [30382, 33178, 31185]),
      (ascii ''08'', [27852, 23615, 22120, 31185]),
      (ascii ''09'', [25972, 24418, 22806, 31185]),
      (ascii ''10'', [33075, 31070, 32076, 22806, 31185]),
      (ascii ''11'', [21628, 21560, 22120, 31185]),
      (ascii ''12'', [24490, 29872, 22120, 31185])]"

text \<open>
  \<open>d.get(k, default)\<close> where the key may be \<open>None\<close>: \<open>None\<close> is hashable and is not a
  key of the dictionary, so the default is returned.
\<close>

definition dict_get :: "(ustr \<times> ustr) list \<Rightarrow> ustr option \<Rightarrow> ustr \<Rightarrow> ustr" where
  "dict_get d k dflt =
     (case k of
        None \<Rightarrow> dflt
      | Some c \<Rightarrow> (case map_of d c of None \<Rightarrow> dflt | Some v \<Rightarrow> v))"

text \<open>Line 442, the department shown in the table of visits.\<close>

definition dept_name :: "ustr option \<Rightarrow> ustr" where
  "dept_name sryka = dict_get dept_map sryka (py_or sryka misettei)"

text \<open>Line 477, the department shown in the count per department.\<close>

definition stat_dept_name :: "ustr option \<Rightarrow> ustr" where
  "stat_dept_name dept = dict_get dept_map dept (py_or dept fumei)"

section \<open>Columns computed by the patient queries\<close>

text \<open>
  The select lists of \<open>list_patients\<close> (lines 191 to 206) and \<open>search_patients\<close>
  (lines 299 to 310) compute their display columns in SQL. \<open>SUBSTRING(s, start, n)\<close>
  counts from 1; a \<open>CASE\<close> whose condition is not true takes its \<open>ELSE\<close>, so a NULL
  column takes the \<open>ELSE\<close> of each of them. The birthday is compared as a plain string.
\<close>

definition sql_substring :: "ustr \<Rightarrow> nat \<Rightarrow> nat \<Rightarrow> ustr" where
  "sql_substring s start n = take n (drop (start - 1) s)"

definition nen :: ustr where
  "nen = [24180]"

definition gatsu :: ustr where
  "gatsu = [26376]"

definition nichi :: ustr where
  "nichi = [26085]"

text \<open>The sentinel \<open>seinengappi fumei\<close> ("date of birth unknown").\<close>

definition birth_unknown :: ustr where
  "birth_unknown = [29983, 24180, 26376, 26085, 19981, 26126]"

definition birth_date :: "ustr option \<Rightarrow> ustr" where
  "birth_date birthday =
     (case birthday of
        None \<Rightarrow> birth_unknown
      | Some b \<Rightarrow>
          if b \<noteq> []
          then sql_substring b 1 4 @ nen @ sql_substring b 5 2 @ gatsu
               @ sql_substring b 7 2 @ nichi
          else birth_unknown)"

definition gender :: "ustr option \<Rightarrow> ustr" where
  "gender sex =
     (if sex = Some (ascii ''1'') then [30007, 24615]
      else if sex = Some (ascii ''2'') then [22899, 24615]
      else fumei)"

definition status :: "ustr option \<Rightarrow> ustr" where
  "status deathkbn =
     (case deathkbn of
        None \<Rightarrow> [29983, 23384]
      | Some k \<Rightarrow> if k \<noteq> ascii '' '' then [27515, 20129] else [29983, 23384])"

section \<open>Truncation of long fields\<close>

definition ellipsis :: ustr where
  "ellipsis = ascii ''...''"

text \<open>\<open>list_patients\<close>, lines 234 to 237: name and phonetic name, shown in columns of 20.\<close>

definition lp_truncate :: "ustr \<Rightarrow> ustr" where
  "lp_truncate s = (if length s > 18 then slice 0 15 s @ ellipsis else s)"

text \<open>
  \<open>search_patients\<close>, lines 340 to 345: name, phonetic name and telephone, shown in
  columns of 15.
\<close>

definition sp_truncate :: "ustr \<Rightarrow> ustr" where
  "sp_truncate s = (if length s > 13 then slice 0 10 s @ ellipsis else s)"

text \<open>
  \<open>show_todays_visits\<close>, lines 445 to 448: the name, shown in a column of 20, and the
  phonetic name, shown in a column of 18.
\<close>

definition tv_truncate_name :: "ustr \<Rightarrow> ustr" where
  "tv_truncate_name s = (if length s > 18 then slice 0 15 s @ ellipsis else s)"

definition tv_truncate_kana :: "ustr \<Rightarrow> ustr" where
  "tv_truncate_kana s = (if length s > 16 then slice 0 13 s @ ellipsis else s)"

section \<open>Exceptions and observable effects\<close>

text \<open>
  The exceptions the scripts distinguish in their handlers. \<open>pyodbc.Error\<close> and
  \<open>ImportError\<close> are subclasses of \<open>Exception\<close>; \<open>KeyboardInterrupt\<close> is not, so an
  \<open>except Exception\<close> clause does not catch it. Each carries the text \<open>str(e)\<close>.
\<close>

datatype exn =
    PyodbcError ustr
  | ImportError ustr
  | OtherException ustr
  | KeyboardInterrupt

fun is_pyodbc_error :: "exn \<Rightarrow> bool" where
  "is_pyodbc_error (PyodbcError m) = True"
| "is_pyodbc_error e = False"

fun is_exception :: "exn \<Rightarrow> bool" where
  "is_exception KeyboardInterrupt = False"
| "is_exception e = True"

fun exn_str :: "exn \<Rightarrow> ustr" where
  "exn_str (PyodbcError m) = m"
| "exn_str (ImportError m) = m"
| "exn_str (OtherException m) = m"
| "exn_str KeyboardInterrupt = []"

text \<open>
  What a run does that can be observed: a \<open>print\<close> of a string, the prompt written by
  \<open>input\<close>, and a call of \<open>pyodbc.connect\<close> with its connection string. A run is the
  list of its effects in order, with the value it returns or the exception it raises;
  the effects made before an exception stay made.
\<close>

datatype event = Print ustr | Prompt ustr | Connect ustr

type_synonym 'a run = "event list \<times> (exn + 'a)"

definition bind :: "'a run \<Rightarrow> ('a \<Rightarrow> 'b run) \<Rightarrow> 'b run" where
  "bind m f =
     (case m of
        (out, Inl e) \<Rightarrow> (out, Inl e)
      | (out, Inr a) \<Rightarrow> (case f a of (out', r) \<Rightarrow> (out @ out', r)))"

definition prints :: "ustr list \<Rightarrow> unit run" where
  "prints ls = (map Print ls, Inr ())"

text \<open>\<open>try: m except ...: h\<close>, where \<open>h e = None\<close> when no clause matches \<open>e\<close>.\<close>

definition try_except :: "'a run \<Rightarrow> (exn \<Rightarrow> 'a run option) \<Rightarrow> 'a run" where
  "try_except m h =
     (case m of
        (out, Inr a) \<Rightarrow> (out, Inr a)
      | (out, Inl e) \<Rightarrow>
          (case h e of
             None \<Rightarrow> (out, Inl e)
           | Some k \<Rightarrow> (case k of (out', r) \<Rightarrow> (out @ out', r))))"

text \<open>\<open>p in s\<close> for strings: \<open>p\<close> occurs in \<open>s\<close> as a contiguous substring.\<close>

fun contains :: "ustr \<Rightarrow> ustr \<Rightarrow> bool" where
  "contains [] p = (p = [])"
| "contains (x # xs) p = (take (length p) (x # xs) = p \<or> contains xs p)"

text \<open>\<open>sep.join(xs)\<close>.\<close>

fun join :: "ustr \<Rightarrow> ustr list \<Rightarrow> ustr" where
  "join sep [] = []"
| "join sep [x] = x"
| "join sep (x # y # ys) = x @ sep @ join sep (y # ys)"

section \<open>The connection troubleshooting tool\<close>

text \<open>
  \<open>connection_troubleshoot.py\<close>. The database server is outside the program: it is a
  parameter \<open>server_reply\<close> giving, for a connection string, what lines 39 to 47 (connect,
  query the version, close) do with it: return the version text or raise.
\<close>

type_synonym server = "ustr \<Rightarrow> exn + ustr"

datatype conn_result = ConnSuccess ustr ustr | ConnFailure

fun success :: "conn_result \<Rightarrow> bool" where
  "success (ConnSuccess m v) = True"
| "success ConnFailure = False"

definition ssl_modes :: "(ustr \<times> ustr) list" where
  "ssl_modes =
     [((ascii ''disable''), (ascii ''No SSL encryption'')),
      ((ascii ''allow''), (ascii ''SSL if server prefers it'')),
      ((ascii ''prefer''), (ascii ''SSL preferred but optional'')),
      ((ascii ''require''), (ascii ''SSL required''))]"

definition connection_string :: "ustr \<Rightarrow> ustr \<Rightarrow> ustr \<Rightarrow> ustr \<Rightarrow> ustr \<Rightarrow> ustr \<Rightarrow> ustr" where
  "connection_string server port database user password ssl_mode =
     (ascii ''DRIVER={PostgreSQL Unicode};'')
     @ (ascii ''SERVER='') @ server @ (ascii '';'')
     @ (ascii ''PORT='') @ port @ (ascii '';'')
     @ (ascii ''DATABASE='') @ database @ (ascii '';'')
     @ (ascii ''UID='') @ user @ (ascii '';'')
     @ (ascii ''PWD='') @ password @ (ascii '';'')
     @ (ascii ''SSLMode='') @ ssl_mode @ (ascii '';'')"

text \<open>Lines 63 to 73: the guidance printed for a driver error, chosen by its text.\<close>

definition analyze_error :: "ustr \<Rightarrow> ustr \<Rightarrow> ustr list" where
  "analyze_error error_msg database =
     (if contains error_msg (ascii ''pg_hba.conf entry'') then
        (if contains error_msg (ascii ''100.89.18.15'') then
           [(ascii ''  '' @ [8594] @ ascii '' Authentication issue: Your IP (100.89.18.15) is not allowed'')]
           @ (if contains error_msg (ascii ''SSL encryption'') then
                [(ascii ''  '' @ [8594] @ ascii '' Server requires SSL but your IP is not in pg_hba.conf for SSL connections'')]
              else if contains error_msg (ascii ''no encryption'') then
                [(ascii ''  '' @ [8594] @ ascii '' Server allows non-SSL but your IP is not in pg_hba.conf'')]
              else [])
         else [])
      else if contains error_msg (ascii ''authentication failed'') then
        [(ascii ''  '' @ [8594] @ ascii '' Wrong username/password'')]
      else if contains error_msg (ascii ''database'') \<and> contains error_msg (ascii ''does not exist'') then
        [(ascii ''  '' @ [8594] @ ascii '' Database '' @ [39]) @ database @ ([39] @ ascii '' does not exist'')]
      else [])"

text \<open>
  The loop of lines 24 to 73 over the modes still to try. A success returns from the
  function; a driver error is reported and the loop goes on; any other exception leaves
  the \<open>try\<close>, which has no clause for it. After the last mode, line 75 returns failure.
\<close>

fun try_ssl_modes ::
  "server \<Rightarrow> ustr \<Rightarrow> ustr \<Rightarrow> ustr \<Rightarrow> ustr \<Rightarrow> ustr \<Rightarrow> (ustr \<times> ustr) list \<Rightarrow> conn_result run" where
  "try_ssl_modes server_reply server port database user password [] = ([], Inr ConnFailure)"
| "try_ssl_modes server_reply server port database user password ((ssl_mode, description) # rest) =
     (let cs = connection_string server port database user password ssl_mode;
          attempt =
            [Print (([10] @ ascii ''Trying SSL Mode: '') @ ssl_mode @ (ascii '' ('') @ description @ (ascii '')'')),
             Print ((ascii ''Connection string: '') @ cs),
             Connect cs]
      in case server_reply cs of
           Inr version \<Rightarrow>
             (attempt @
              [Print (([10003] @ ascii '' SUCCESS with SSL mode: '') @ ssl_mode),
               Print ((ascii ''  PostgreSQL Version: '') @ version)],
              Inr (ConnSuccess ssl_mode version))
         | Inl e \<Rightarrow>
             if is_pyodbc_error e then
               bind (attempt @
                     [Print (([10007] @ ascii '' FAILED with SSL mode: '') @ ssl_mode),
                      Print ((ascii ''  Error: '') @ exn_str e)]
                     @ map Print (analyze_error (exn_str e) database), Inr ())
                    (\<lambda>u. try_ssl_modes server_reply server port database user password rest)
             else (attempt, Inl e))"

definition test_connection_with_ssl_modes ::
  "server \<Rightarrow> ustr \<Rightarrow> ustr \<Rightarrow> ustr \<Rightarrow> ustr \<Rightarrow> ustr \<Rightarrow> conn_result run" where
  "test_connection_with_ssl_modes server_reply server port database user password =
     bind (prints
             [([10] @ ascii ''=== Testing connection to '') @ database @ (ascii ''@'') @ server @ (ascii '' as '') @ user @ (ascii '' ===''),
              (ascii ''Your client IP appears to be: 100.89.18.15'')])
          (\<lambda>u. try_ssl_modes server_reply server port database user password ssl_modes)"

text \<open>\<open>generate_pg_hba_entries\<close>, lines 77 to 98; \<open>entries\<close> is its list of lines.\<close>

definition hostssl_line :: "ustr \<Rightarrow> ustr \<Rightarrow> ustr \<Rightarrow> ustr" where
  "hostssl_line db user client_ip =
     (ascii ''hostssl    '') @ fmt_left 12 db @ (ascii '' '') @ fmt_left 12 user @ (ascii '' '') @ client_ip @ (ascii ''/32        md5'')"

definition host_line :: "ustr \<Rightarrow> ustr \<Rightarrow> ustr \<Rightarrow> ustr" where
  "host_line db user client_ip =
     (ascii ''host       '') @ fmt_left 12 db @ (ascii '' '') @ fmt_left 12 user @ (ascii '' '') @ client_ip @ (ascii ''/32        md5'')"

definition entries :: "ustr list \<Rightarrow> ustr list \<Rightarrow> ustr \<Rightarrow> ustr list" where
  "entries databases users client_ip =
     [(ascii ''# Add these lines to pg_hba.conf on the PostgreSQL server''),
      (ascii ''# (Replace /32 with appropriate subnet if needed)''),
      []]
     @ concat (map (\<lambda>db. concat (map (\<lambda>user.
         [hostssl_line db user client_ip, host_line db user client_ip]) users)) databases)
     @ [[],
        (ascii ''# After adding these lines:''),
        (ascii ''# 1. Save the pg_hba.conf file''),
        (ascii ''# 2. Restart PostgreSQL or run: SELECT pg_reload_conf();''),
        (ascii ''# 3. Test the connection again'')]"

definition generate_pg_hba_entries :: "ustr list \<Rightarrow> ustr list \<Rightarrow> ustr \<Rightarrow> ustr" where
  "generate_pg_hba_entries databases users client_ip = join [10] (entries databases users client_ip)"

definition default_client_ip :: ustr where
  "default_client_ip = (ascii ''100.89.18.15'')"

record config =
  database :: ustr
  user :: ustr
  password :: ustr

definition test_configs :: "config list" where
  "test_configs =
     [\<lparr>database = (ascii ''orca''), user = (ascii ''orca''), password = (ascii ''orca'')\<rparr>,
      \<lparr>database = (ascii ''receipt''), user = (ascii ''receipt''), password = (ascii ''receipt'')\<rparr>,
      \<lparr>database = (ascii ''weborca''), user = (ascii ''weborca''), password = (ascii ''weborca'')\<rparr>,
      \<lparr>database = (ascii ''postgres''), user = (ascii ''postgres''), password = []\<rparr>]"

definition main_server :: ustr where
  "main_server = (ascii ''100.126.66.97'')"

definition main_port :: ustr where
  "main_port = (ascii ''5432'')"

text \<open>The loop of lines 117 to 126, collecting the configurations that connected.\<close>

fun test_all_configs :: "server \<Rightarrow> config list \<Rightarrow> config list \<Rightarrow> config list run" where
  "test_all_configs server_reply [] successful_connections = ([], Inr successful_connections)"
| "test_all_configs server_reply (c # cs) successful_connections =
     bind (test_connection_with_ssl_modes server_reply main_server main_port
             (database c) (user c) (password c))
          (\<lambda>result. test_all_configs server_reply cs
             (if success result then successful_connections @ [c] else successful_connections))"

definition rule60 :: ustr where
  "rule60 = replicate 60 61"

text \<open>Lines 132 to 135, and lines 137 to 163: the two forms of the summary.\<close>

definition summary_success :: "config list \<Rightarrow> ustr list" where
  "summary_success successful_connections =
     [([10003] @ ascii '' Successfully connected to '') @ str_nat (length successful_connections) @ (ascii '' database(s)'')]
     @ map (\<lambda>conn. (ascii ''  - '') @ database conn @ (ascii '' as '') @ user conn) successful_connections"

definition alternative_solutions :: "ustr list" where
  "alternative_solutions =
     [[10] @ rule60,
      (ascii ''ALTERNATIVE SOLUTIONS''),
      rule60,
      (ascii ''1. VPN/Tunnel: Connect through a VPN that routes through an allowed IP''),
      (ascii ''2. SSH Tunnel: Create an SSH tunnel to the database server''),
      (ascii ''   Example: ssh -L 5432:localhost:5432 user@100.126.66.97''),
      (ascii ''   Then connect to localhost:5432 instead''),
      (ascii ''3. Proxy: Use a database proxy server located in an allowed network''),
      ([10] @ ascii ''4. Request firewall/network changes to allow your IP:''),
      (ascii ''   Your IP: 100.89.18.15''),
      (ascii ''   Target: 100.126.66.97:5432'')]"

definition pg_hba_config :: ustr where
  "pg_hba_config =
     generate_pg_hba_entries (map database test_configs) (map user test_configs) default_client_ip"

definition summary_failure :: "ustr list" where
  "summary_failure =
     [([10007] @ ascii '' No successful connections''),
      ([10] @ ascii ''ROOT CAUSE:''),
      (ascii ''The PostgreSQL server'' @ [39] @ ascii ''s pg_hba.conf file does not allow''),
      (ascii ''connections from your IP address (100.89.18.15).''),
      [10] @ rule60,
      (ascii ''SOLUTION FOR DATABASE ADMINISTRATOR''),
      rule60,
      pg_hba_config]
     @ alternative_solutions"

definition summary_header :: "ustr list" where
  "summary_header = [[10] @ rule60, (ascii ''TROUBLESHOOTING SUMMARY''), rule60]"

definition main :: "server \<Rightarrow> unit run" where
  "main server_reply =
     bind (prints [(ascii ''PostgreSQL Connection Troubleshooting Tool''), rule60])
       (\<lambda>u. bind (test_all_configs server_reply test_configs [])
         (\<lambda>successful_connections.
            prints (summary_header
                    @ (if successful_connections \<noteq> []
                       then summary_success successful_connections
                       else summary_failure))))"

text \<open>
  Lines 165 to 173, the entry point, with the exit status of the process. When the
  module \<open>pyodbc\<close> is missing the \<open>import\<close> of line 7 raises before the \<open>try\<close> is
  entered; the interpreter reports the uncaught exception on the error stream and exits with
  status 1.
\<close>

definition troubleshoot_script :: "bool \<Rightarrow> server \<Rightarrow> event list \<times> nat" where
  "troubleshoot_script pyodbc_installed server_reply =
     (if \<not> pyodbc_installed then ([], 1)
      else case main server_reply of
             (out, Inr u) \<Rightarrow> (out, 0)
           | (out, Inl e) \<Rightarrow>
               if e = KeyboardInterrupt
               then (out @ [Print ([10] @ ascii ''Troubleshooting interrupted by user.'')], 0)
               else (out @ [Print ((ascii ''Unexpected error: '') @ exn_str e)], 1))"

section \<open>Reading a run\<close>

text \<open>The connection strings passed to \<open>pyodbc.connect\<close> during a run, in order.\<close>

fun connects :: "event list \<Rightarrow> ustr list" where
  "connects [] = []"
| "connects (Connect cs # es) = cs # connects es"
| "connects (Print s # es) = connects es"
| "connects (Prompt s # es) = connects es"

text \<open>The server refuses a connection string with a driver error.\<close>

definition driver_failure :: "server \<Rightarrow> ustr \<Rightarrow> bool" where
  "driver_failure server_reply cs =
     (case server_reply cs of Inl e \<Rightarrow> is_pyodbc_error e | Inr v \<Rightarrow> False)"

definition mode_names :: "ustr list" where
  "mode_names = [ascii ''disable'', ascii ''allow'', ascii ''prefer'', ascii ''require'']"

text \<open>Every mode of a credential set, and every credential set, fails with a driver error.\<close>

definition all_modes_fail :: "server \<Rightarrow> config \<Rightarrow> bool" where
  "all_modes_fail server_reply c =
     list_all (\<lambda>m. driver_failure server_reply
        (connection_string main_server main_port (database c) (user c) (password c) m)) mode_names"

definition all_fail :: "server \<Rightarrow> bool" where
  "all_fail server_reply = list_all (all_modes_fail server_reply) test_configs"

text \<open>A printed line that starts with the comment sign \<open>#\<close>.\<close>

fun starts_hash :: "event \<Rightarrow> bool" where
  "starts_hash (Print (c # s)) = (c = 35)"
| "starts_hash e = False"

section \<open>The database seen by the report script\<close>

text \<open>
  \<open>test_orca_odbc.py\<close>. A row of the patient table \<open>tbl_ptinf\<close> with the columns the
  queries read, and a row returned by the visit query of \<open>show_todays_visits\<close> (lines
  383 to 392). A column that may be NULL arrives as \<open>None\<close>.
\<close>

datatype ptinf =
  Ptinf (ptid: int) (name: "ustr option") (kananame: "ustr option") (sex: "ustr option")
        (birthday: "ustr option") (deathkbn: "ustr option") (creymd: "ustr option")
        (home_tel1: "ustr option") (home_adrs: "ustr option")

datatype visit =
  Visit (ukeymd: "ustr option") (uketime: "ustr option") (visit_ptid: int)
        (visit_name: "ustr option") (sryka: "ustr option") (full_name: "ustr option")
        (visit_kananame: "ustr option") (visit_sex: "ustr option")
        (visit_birthday: "ustr option")

text \<open>What \<open>test_connection\<close> reads from a connection (lines 36 to 49).\<close>

datatype conn_info =
  ConnInfo (info_version: ustr) (info_database: ustr) (info_user: ustr) (info_encoding: ustr)

text \<open>
  The world outside the script: for each call of the driver or of \<open>input\<close>, the value
  it returns or the exception it raises.
  \<^item> \<open>connect_reply\<close>: \<open>pyodbc.connect\<close> and \<open>connection.cursor()\<close> of the report routines;
  \<^item> \<open>probe_reply\<close>: \<open>pyodbc.connect\<close> and the four queries of \<open>test_connection\<close>;
  \<^item> \<open>drivers_reply\<close>: \<open>pyodbc.drivers()\<close>;
  \<^item> \<open>patients_reply\<close>, \<open>search_reply\<close> (by search pattern), \<open>visits_reply\<close> and
    \<open>dept_stats_reply\<close> (by date): \<open>execute\<close> and \<open>fetchall\<close> of the queries, giving the
    table rows the query selects, in its order;
  \<^item> \<open>stats_reply\<close>, \<open>today_reply\<close>, \<open>overview_reply\<close>, \<open>visit_count_reply\<close>:
    \<open>execute\<close> and \<open>fetchone\<close> of the counting queries and of the current date;
  \<^item> \<open>close_reply\<close>: \<open>cursor.close()\<close> and \<open>connection.close()\<close>;
  \<^item> \<open>input_reply\<close>: \<open>input\<close>, by its prompt.
\<close>

record world =
  connect_reply :: "ustr \<Rightarrow> exn option"
  probe_reply :: "ustr \<Rightarrow> exn + conn_info"
  drivers_reply :: "exn + ustr list"
  patients_reply :: "exn + ptinf list"
  stats_reply :: "exn + (int \<times> int \<times> int \<times> int) option"
  search_reply :: "ustr \<Rightarrow> exn + ptinf list"
  today_reply :: "exn + ustr"
  visits_reply :: "ustr \<Rightarrow> exn + visit list"
  dept_stats_reply :: "ustr \<Rightarrow> exn + (ustr option \<times> int) list"
  overview_reply :: "exn + (int \<times> int \<times> int) option"
  visit_count_reply :: "ustr \<Rightarrow> exn + int"
  close_reply :: "exn option"
  input_reply :: "ustr \<Rightarrow> exn + ustr"

definition ask :: "exn + 'a \<Rightarrow> 'a run" where
  "ask reply = ([], reply)"

definition may_raise :: "exn option \<Rightarrow> unit run" where
  "may_raise reply = ([], case reply of None \<Rightarrow> Inr () | Some e \<Rightarrow> Inl e)"

definition connect :: "world \<Rightarrow> ustr \<Rightarrow> unit run" where
  "connect w cs = ([Connect cs], case connect_reply w cs of None \<Rightarrow> Inr () | Some e \<Rightarrow> Inl e)"

definition input :: "world \<Rightarrow> ustr \<Rightarrow> ustr run" where
  "input w prompt = ([Prompt prompt], input_reply w prompt)"

text \<open>
  The two clauses \<open>except pyodbc.Error as e\<close> and \<open>except Exception as e\<close> that end
  the report routines, each printing its prefix and the error.
\<close>

definition report_errors :: "ustr \<Rightarrow> ustr \<Rightarrow> exn \<Rightarrow> unit run option" where
  "report_errors driver_prefix other_prefix e =
     (if is_pyodbc_error e then Some (prints [driver_prefix @ exn_str e])
      else if is_exception e then Some (prints [other_prefix @ exn_str e])
      else None)"

definition db_error_prefix :: ustr where
  "db_error_prefix = ([10007] @ ascii '' '' @ [12487, 12540, 12479, 12505, 12540, 12473, 25509, 32154, 12456, 12521, 12540] @ ascii '': '')"

definition unexpected_prefix :: ustr where
  "unexpected_prefix = ([10007] @ ascii '' '' @ [20104, 26399, 12375, 12394, 12356, 12456, 12521, 12540] @ ascii '': '')"

text \<open>\<open>str.strip()\<close>: the characters for which \<open>str.isspace\<close> holds are removed at both ends.\<close>

definition isspace :: "nat \<Rightarrow> bool" where
  "isspace c = (c \<in> set [9, 10, 11, 12, 13, 28, 29, 30, 31, 32, 133, 160, 5760, 8192, 8193,
     8194, 8195, 8196, 8197, 8198, 8199, 8200, 8201, 8202, 8232, 8233, 8239, 8287, 12288])"

definition strip :: "ustr \<Rightarrow> ustr" where
  "strip s = rev (dropWhile isspace (rev (dropWhile isspace s)))"

definition local_orca :: ustr where
  "local_orca =
     (ascii ''DRIVER={PostgreSQL Unicode};'') @ (ascii ''SERVER=localhost;'') @ (ascii ''PORT=5432;'')
     @ (ascii ''DATABASE=orca;'') @ (ascii ''UID=orca;'') @ (ascii ''PWD=orca;'')"

definition namae_nashi :: ustr where
  "namae_nashi = [21517, 21069, 12394, 12375]"

definition furigana_nashi :: ustr where
  "furigana_nashi = [12501, 12522, 12460, 12490, 12394, 12375]"

definition bar :: ustr where
  "bar = (ascii '' | '')"

definition mei :: ustr where
  "mei = [21517]"

section \<open>Listing the patients\<close>

text \<open>\<open>list_patients\<close>, lines 167 to 268.\<close>

definition lp_no_data :: ustr where
  "lp_no_data = [24739, 32773, 12487, 12540, 12479, 12364, 35211, 12388, 12363, 12426, 12414, 12379, 12435, 12391, 12375, 12383, 12290]"

definition lp_header :: ustr where
  "lp_header =
     fmt_right 4 (ascii ''ID'') @ bar @ fmt_center 20 [24739, 32773, 21517] @ bar @ fmt_center 20 [12501, 12522, 12460, 12490] @ bar
     @ fmt_center 6 [24615, 21029] @ bar @ fmt_center 12 [29983, 24180, 26376, 26085] @ bar @ fmt_center 6 [29366, 24907]"

definition lp_line :: "ptinf \<Rightarrow> ustr" where
  "lp_line patient =
     fmt_right 4 (str_int (ptid patient)) @ bar
     @ fmt_center 20 (lp_truncate (py_or (name patient) namae_nashi)) @ bar
     @ fmt_center 20 (lp_truncate (py_or (kananame patient) furigana_nashi)) @ bar
     @ fmt_center 6 (gender (sex patient)) @ bar
     @ fmt_center 12 (birth_date (birthday patient)) @ bar
     @ fmt_center 6 (status (deathkbn patient))"

definition lp_stats_lines :: "(int \<times> int \<times> int \<times> int) option \<Rightarrow> ustr list" where
  "lp_stats_lines stats =
     (case stats of
        None \<Rightarrow> []
      | Some (total_patients, male_count, female_count, deceased_count) \<Rightarrow>
          [([32207, 24739, 32773, 25968] @ ascii '': '') @ str_int total_patients @ mei,
           ([30007, 24615] @ ascii '': '') @ str_int male_count @ mei,
           ([22899, 24615] @ ascii '': '') @ str_int female_count @ mei,
           ([27515, 20129] @ ascii '': '') @ str_int deceased_count @ mei])"

definition list_patients :: "world \<Rightarrow> unit run" where
  "list_patients w =
     bind (prints [([10] @ ascii ''=== Patient List ==='')])
       (\<lambda>u. try_except
          (bind (connect w local_orca)
            (\<lambda>u. bind (ask (patients_reply w))
              (\<lambda>patients.
                 if patients = [] then prints [lp_no_data]
                 else
                   bind (prints
                          ([([30331, 37682, 24739, 32773, 25968] @ ascii '': '') @ str_nat (length patients) @ mei @ [10],
                            replicate 80 61, lp_header, replicate 80 61]
                           @ map lp_line patients
                           @ [replicate 80 61, ([10] @ ascii ''=== '' @ [32113, 35336, 24773, 22577] @ ascii '' ==='')]))
                     (\<lambda>u. bind (ask (stats_reply w))
                       (\<lambda>stats. bind (prints (lp_stats_lines stats))
                         (\<lambda>u. may_raise (close_reply w)))))))
          (report_errors db_error_prefix unexpected_prefix))"

section \<open>Searching the patients\<close>

text \<open>\<open>search_patients\<close>, lines 271 to 357. The call of \<open>input\<close> is outside the \<open>try\<close>.\<close>

definition sp_prompt :: ustr where
  "sp_prompt = ([24739, 32773, 21517, 12414, 12383, 12399, 12501, 12522, 12460, 12490, 12434, 20837, 21147, 12375, 12390, 12367, 12384, 12373, 12356] @ ascii '': '')"

definition sp_no_match :: "ustr \<Rightarrow> ustr" where
  "sp_no_match search_term = [12300] @ search_term @ [12301, 12395, 19968, 33268, 12377, 12427, 24739, 32773, 12364, 35211, 12388, 12363, 12426, 12414, 12379, 12435, 12391, 12375, 12383, 12290]"

definition sp_header :: ustr where
  "sp_header =
     fmt_right 4 (ascii ''ID'') @ bar @ fmt_center 15 [24739, 32773, 21517] @ bar @ fmt_center 15 [12501, 12522, 12460, 12490] @ bar
     @ fmt_center 6 [24615, 21029] @ bar @ fmt_center 12 [29983, 24180, 26376, 26085] @ bar @ fmt_center 15 [38651, 35441, 30058, 21495]"

definition sp_line :: "ptinf \<Rightarrow> ustr" where
  "sp_line patient =
     fmt_right 4 (str_int (ptid patient)) @ bar
     @ fmt_center 15 (sp_truncate (py_or (name patient) namae_nashi)) @ bar
     @ fmt_center 15 (sp_truncate (py_or (kananame patient) furigana_nashi)) @ bar
     @ fmt_center 6 (gender (sex patient)) @ bar
     @ fmt_center 12 (birth_date (birthday patient)) @ bar
     @ fmt_center 15 (sp_truncate (py_or (home_tel1 patient) [26410, 30331, 37682]))"

definition search_patients :: "world \<Rightarrow> unit run" where
  "search_patients w =
     bind (prints [([10] @ ascii ''=== '' @ [24739, 32773, 26908, 32034] @ ascii '' ==='')])
       (\<lambda>u. bind (input w sp_prompt)
         (\<lambda>answer.
            let search_term = strip answer in
            if search_term = [] then prints [[26908, 32034, 35486, 12434, 20837, 21147, 12375, 12390, 12367, 12384, 12373, 12356, 12290]]
            else
              try_except
                (bind (connect w local_orca)
                  (\<lambda>u. bind (ask (search_reply w ((ascii ''%'') @ search_term @ (ascii ''%''))))
                    (\<lambda>results.
                       bind (if results = [] then prints [sp_no_match search_term]
                             else prints
                                    ([([26908, 32034, 32080, 26524] @ ascii '': '') @ str_nat (length results) @ [20214] @ [10],
                                      replicate 100 61, sp_header, replicate 100 61]
                                     @ map sp_line results
                                     @ [replicate 100 61]))
                         (\<lambda>u. may_raise (close_reply w)))))
                (report_errors db_error_prefix unexpected_prefix)))"

section \<open>Today's visits\<close>

text \<open>\<open>show_todays_visits\<close>, lines 360 to 486.\<close>

definition tv_date :: "ustr \<Rightarrow> ustr" where
  "tv_date today =
     [26412, 26085, 65288] @ slice 0 4 today @ nen @ slice 4 6 today @ gatsu @ slice 6 8 today @ nichi"

definition tv_no_visits :: "ustr \<Rightarrow> ustr" where
  "tv_no_visits today = tv_date today @ [65289, 12398, 26469, 38498, 24739, 32773, 12399, 12356, 12414, 12379, 12435, 12290]"

definition tv_header :: ustr where
  "tv_header =
     fmt_center 12 [26469, 38498, 26178, 21051] @ bar @ fmt_center 8 ([24739, 32773] @ ascii ''ID'') @ bar @ fmt_center 20 [24739, 32773, 21517] @ bar
     @ fmt_center 18 [12501, 12522, 12460, 12490] @ bar @ fmt_center 8 [35386, 30274, 31185]"

text \<open>
  Lines 415 to 450. \<open>name or full_name or "..."\<close> takes the first of the two names that
  is neither \<open>None\<close> nor empty.
\<close>

definition tv_line :: "visit \<Rightarrow> ustr" where
  "tv_line v =
     fmt_center 12 (visit_time_str (uketime v)) @ bar
     @ fmt_center 8 (str_int (visit_ptid v)) @ bar
     @ fmt_center 20 (tv_truncate_name
         (py_or (visit_name v) (py_or (full_name v) namae_nashi))) @ bar
     @ fmt_center 18 (tv_truncate_kana (py_or (visit_kananame v) furigana_nashi)) @ bar
     @ fmt_center 8 (dept_name (sryka v))"

text \<open>Lines 471 to 478, one line of the count per department.\<close>

definition tv_stat_line :: "ustr option \<times> int \<Rightarrow> ustr" where
  "tv_stat_line row =
     (case row of (dept, visit_count) \<Rightarrow> stat_dept_name dept @ (ascii '': '') @ str_int visit_count @ mei)"

definition show_todays_visits :: "world \<Rightarrow> unit run" where
  "show_todays_visits w =
     bind (prints [([10] @ ascii ''=== '' @ [26412, 26085, 12398, 26469, 38498, 24739, 32773] @ ascii '' ==='')])
       (\<lambda>u. try_except
          (bind (connect w local_orca)
            (\<lambda>u. bind (ask (today_reply w))
              (\<lambda>today. bind (ask (visits_reply w today))
                (\<lambda>visits.
                   if visits = [] then prints [tv_no_visits today]
                   else
                     bind (prints
                            ([tv_date today @ ([65289, 12398, 26469, 38498, 24739, 32773, 25968] @ ascii '': '') @ str_nat (length visits) @ mei @ [10],
                              replicate 90 61, tv_header, replicate 90 61]
                             @ map tv_line visits
                             @ [replicate 90 61, ([10] @ ascii ''=== '' @ [35386, 30274, 31185, 21029, 32113, 35336] @ ascii '' ==='')]))
                       (\<lambda>u. bind (ask (dept_stats_reply w today))
                         (\<lambda>dept_stats. bind (prints (map tv_stat_line dept_stats))
                           (\<lambda>u. may_raise (close_reply w))))))))
          (report_errors db_error_prefix unexpected_prefix))"

section \<open>Testing a connection\<close>

text \<open>
  \<open>test_connection\<close>, lines 14 to 77: the dictionary of results, or \<open>None\<close> when the
  connection failed. Only whether the result is \<open>None\<close> is used by the callers.
\<close>

definition test_connection :: "world \<Rightarrow> ustr \<Rightarrow> ustr \<Rightarrow> conn_info option run" where
  "test_connection w cs driver_name =
     try_except
       (bind (prints [([10] @ ascii ''=== Testing '') @ driver_name @ (ascii '' Driver ===''),
                      (ascii ''Connection string: '') @ cs])
         (\<lambda>u. bind ([Connect cs], probe_reply w cs)
           (\<lambda>info. bind (prints [([10003] @ ascii '' Connection successful!''),
                                   (ascii ''  Database: '') @ info_database info,
                                   (ascii ''  User: '') @ info_user info,
                                   (ascii ''  PostgreSQL Version: '') @ info_version info,
                                   (ascii ''  Encoding: '') @ info_encoding info])
             (\<lambda>u. bind (may_raise (close_reply w))
               (\<lambda>u. ([], Inr (Some info)))))))
       (\<lambda>e. if is_pyodbc_error e
            then Some (bind (prints [([10007] @ ascii '' Connection failed: '') @ exn_str e]) (\<lambda>u. ([], Inr None)))
            else if is_exception e
            then Some (bind (prints [([10007] @ ascii '' Unexpected error: '') @ exn_str e]) (\<lambda>u. ([], Inr None)))
            else None)"

text \<open>\<open>list_available_drivers\<close>, lines 80 to 86, numbering the drivers from 1.\<close>

definition list_available_drivers :: "world \<Rightarrow> ustr list run" where
  "list_available_drivers w =
     bind (prints [(ascii ''=== Available ODBC Drivers ==='')])
       (\<lambda>u. bind (ask (drivers_reply w))
         (\<lambda>drivers.
            bind (prints (map (\<lambda>(i, driver). str_nat i @ (ascii ''. '') @ driver)
                            (zip [1 ..< Suc (length drivers)] drivers)))
              (\<lambda>u. ([], Inr drivers))))"

definition odbc_string :: "ustr \<Rightarrow> ustr \<Rightarrow> ustr \<Rightarrow> ustr \<Rightarrow> ustr \<Rightarrow> ustr \<Rightarrow> ustr" where
  "odbc_string driver server port db uid pwd =
     (ascii ''DRIVER={'') @ driver @ (ascii ''};'')
     @ (ascii ''SERVER='') @ server @ (ascii '';'')
     @ (ascii ''PORT='') @ port @ (ascii '';'')
     @ (ascii ''DATABASE='') @ db @ (ascii '';'')
     @ (ascii ''UID='') @ uid @ (ascii '';'')
     @ (ascii ''PWD='') @ pwd @ (ascii '';'')"

definition alternative_params :: "(ustr \<times> ustr \<times> ustr) list" where
  "alternative_params =
     [((ascii ''receipt''), (ascii ''receipt''), (ascii ''receipt'')),
      ((ascii ''weborca''), (ascii ''weborca''), (ascii ''weborca'')),
      ((ascii ''postgres''), (ascii ''postgres''), [])]"

text \<open>The loop of lines 142 to 156, left by \<open>break\<close> at the first connection that works.\<close>

fun try_alternatives :: "world \<Rightarrow> (ustr \<times> ustr \<times> ustr) list \<Rightarrow> unit run" where
  "try_alternatives w [] = ([], Inr ())"
| "try_alternatives w ((db, uid, pwd) # rest) =
     bind (prints [([10] @ ascii ''Trying database: '') @ db @ (ascii '', user: '') @ uid])
       (\<lambda>u. bind (test_connection w
                     (odbc_string (ascii ''PostgreSQL ANSI'') (ascii ''localhost'') (ascii ''5432'') db uid pwd)
                     ((ascii ''PostgreSQL ANSI ('') @ db @ (ascii '')'')))
         (\<lambda>result. if result \<noteq> None then ([], Inr ()) else try_alternatives w rest))"

text \<open>\<open>test_orca_database\<close>, lines 89 to 164.\<close>

definition test_orca_database :: "world \<Rightarrow> unit run" where
  "test_orca_database w =
     bind (prints [(ascii ''Web ORCA PostgreSQL ODBC Connection Test''), replicate 50 61])
       (\<lambda>u. bind (list_available_drivers w)
         (\<lambda>drivers. bind (test_connection w
                            (odbc_string (ascii ''PostgreSQL ANSI'') (ascii ''localhost'') (ascii ''5432'') (ascii ''orca'') (ascii ''orca'') (ascii ''orca''))
                            (ascii ''PostgreSQL ANSI''))
           (\<lambda>result_ansi.
              bind (if result_ansi = None
                    then bind (test_connection w
                                 (odbc_string (ascii ''PostgreSQL Unicode'') (ascii ''localhost'') (ascii ''5432'') (ascii ''orca'') (ascii ''orca'') (ascii ''orca''))
                                 (ascii ''PostgreSQL Unicode''))
                           (\<lambda>result_unicode.
                              if result_unicode = None
                              then bind (prints [([10] @ ascii ''=== Trying Alternative Connection Parameters ==='')])
                                     (\<lambda>u. try_alternatives w alternative_params)
                              else ([], Inr ()))
                    else ([], Inr ()))
                (\<lambda>u. prints
                   [([10] @ ascii ''=== Connection Test Summary ===''),
                    (ascii ''If all connections failed, check:''),
                    (ascii ''1. PostgreSQL is running and accepting connections''),
                    (ascii ''2. Database name, username, and password are correct''),
                    (ascii ''3. User has proper permissions to access the database''),
                    (ascii ''4. ODBC drivers are properly installed''),
                    (ascii ''5. Firewall settings allow database connections'')]))))"

text \<open>
  \<open>test_specific_connection\<close>, lines 489 to 521. \<open>input(...) or d\<close> is \<open>d\<close> when the
  answer is empty.
\<close>

definition test_specific_connection :: "world \<Rightarrow> unit run" where
  "test_specific_connection w =
     bind (prints [([10] @ ascii ''=== Custom Connection Test ==='')])
       (\<lambda>u. bind (input w (ascii ''Enter server (default: localhost): ''))
       (\<lambda>server_answer. bind (input w (ascii ''Enter port (default: 5432): ''))
       (\<lambda>port_answer. bind (input w (ascii ''Enter database name: ''))
       (\<lambda>db. bind (input w (ascii ''Enter username: ''))
       (\<lambda>username. bind (input w (ascii ''Enter password: ''))
       (\<lambda>pwd.
          if db = [] \<or> username = []
          then prints [(ascii ''Database name and username are required!'')]
          else
            bind (prints [([10] @ ascii ''Available PostgreSQL drivers:''),
                          (ascii ''1. PostgreSQL ANSI''),
                          (ascii ''2. PostgreSQL Unicode'')])
              (\<lambda>u. bind (input w (ascii ''Choose driver (1 or 2, default: 1): ''))
                (\<lambda>choice_answer.
                   let choice = py_or (Some choice_answer) (ascii ''1'');
                       driver = (if choice = (ascii ''1'') then (ascii ''PostgreSQL ANSI'')
                                 else (ascii ''PostgreSQL Unicode''))
                   in bind (test_connection w
                              (odbc_string driver
                                 (py_or (Some server_answer) (ascii ''localhost''))
                                 (py_or (Some port_answer) (ascii ''5432''))
                                 db username pwd)
                              driver)
                        (\<lambda>result. ([], Inr ()))))))))))"

section \<open>The entry point of the report script\<close>

text \<open>
  Lines 551 to 612, the mode without an option: the connection test, then an overview of
  the patient data inside a \<open>try\<close> of its own, which catches every \<open>Exception\<close>.
\<close>

definition overview_usage :: "ustr \<Rightarrow> ustr list" where
  "overview_usage argv0 =
     [([10, 24739, 32773, 19968, 35239, 12434, 34920, 31034, 12377, 12427, 12395, 12399] @ ascii '': python3 '') @ argv0 @ (ascii '' --patients''),
      ([24739, 32773, 12434, 26908, 32034, 12377, 12427, 12395, 12399] @ ascii '': python3 '') @ argv0 @ (ascii '' --search''),
      ([26412, 26085, 12398, 26469, 38498, 24739, 32773, 12434, 34920, 31034, 12377, 12427, 12395, 12399] @ ascii '': python3 '') @ argv0 @ (ascii '' --today'')]"

definition overview :: "world \<Rightarrow> ustr \<Rightarrow> unit run" where
  "overview w argv0 =
     try_except
       (bind (connect w local_orca)
         (\<lambda>u. bind (ask (overview_reply w))
           (\<lambda>stats.
              bind (case stats of
                      None \<Rightarrow> prints [[24739, 32773, 12487, 12540, 12479, 12364, 30331, 37682, 12373, 12428, 12390, 12356, 12414, 12379, 12435, 12290]]
                    | Some (total_patients, male_count, female_count) \<Rightarrow>
                        if total_patients > 0
                        then bind (prints
                                    [([10] @ ascii ''=== '' @ [24739, 32773, 12487, 12540, 12479, 27010, 35201] @ ascii '' ===''),
                                     ([30331, 37682, 24739, 32773, 25968] @ ascii '': '') @ str_int total_patients @ mei,
                                     ([30007, 24615] @ ascii '': '') @ str_int male_count @ mei
                                       @ (ascii '', '' @ [22899, 24615] @ ascii '': '') @ str_int female_count @ mei])
                               (\<lambda>u. bind (ask (today_reply w))
                                 (\<lambda>today. bind (ask (visit_count_reply w today))
                                   (\<lambda>today_visits.
                                      prints ([([26412, 26085, 12398, 26469, 38498, 24739, 32773, 25968] @ ascii '': '') @ str_int today_visits @ mei]
                                              @ overview_usage argv0))))
                        else prints [[24739, 32773, 12487, 12540, 12479, 12364, 30331, 37682, 12373, 12428, 12390, 12356, 12414, 12379, 12435, 12290]])
                (\<lambda>u. may_raise (close_reply w)))))
       (\<lambda>e. if is_exception e
            then Some (prints [([24739, 32773, 12487, 12540, 12479, 12398, 21462, 24471, 12395, 22833, 25943, 12375, 12414, 12375, 12383] @ ascii '': '') @ exn_str e])
            else None)"

definition default_mode :: "world \<Rightarrow> ustr \<Rightarrow> unit run" where
  "default_mode w argv0 =
     bind (test_orca_database w)
       (\<lambda>u. bind (prints [[10] @ replicate 50 61, ([24739, 32773, 12487, 12540, 12479, 12398, 27010, 35201, 12434, 34920, 31034, 12375, 12390, 12356, 12414, 12377] @ ascii ''...'')])
         (\<lambda>u. overview w argv0))"

definition help_text :: "ustr list" where
  "help_text =
     [(ascii ''Web ORCA PostgreSQL ODBC Connection Test Script''),
      ([10] @ ascii ''Usage:''),
      (ascii ''  python3 test_orca_odbc.py                - Test ODBC connection''),
      (ascii ''  python3 test_orca_odbc.py --patients     - List all patients''),
      (ascii ''  python3 test_orca_odbc.py --search       - Search patients by name''),
      (ascii ''  python3 test_orca_odbc.py --today        - Show today'' @ [39] @ ascii ''s visits''),
      (ascii ''  python3 test_orca_odbc.py --interactive  - Custom connection test''),
      (ascii ''  python3 test_orca_odbc.py --help         - Show this help'')]"

text \<open>
  Lines 529 to 612, the choice of the mode: \<open>argv0\<close> is \<open>sys.argv[0]\<close> and \<open>args\<close> the
  arguments after it.
\<close>

definition dispatch :: "world \<Rightarrow> ustr \<Rightarrow> ustr list \<Rightarrow> unit run" where
  "dispatch w argv0 args =
     (case args of
        [] \<Rightarrow> default_mode w argv0
      | option # others \<Rightarrow>
          if option = (ascii ''--interactive'') then test_specific_connection w
          else if option = (ascii ''--patients'') then list_patients w
          else if option = (ascii ''--search'') then search_patients w
          else if option = (ascii ''--today'') then show_todays_visits w
          else if option = (ascii ''--help'') then prints help_text
          else prints [(ascii ''Unknown option: '') @ option, (ascii ''Use --help to see available options.'')])"

text \<open>
  Lines 524 to 623 with the exit status of the process. The clauses are tried in the
  order \<open>ImportError\<close>, \<open>KeyboardInterrupt\<close>, \<open>Exception\<close>. When the module \<open>pyodbc\<close> is
  missing, the \<open>import\<close> of line 9 raises before the \<open>try\<close> is entered, and the
  interpreter ends the process with status 1.
\<close>

definition orca_script :: "bool \<Rightarrow> world \<Rightarrow> ustr \<Rightarrow> ustr list \<Rightarrow> event list \<times> nat" where
  "orca_script pyodbc_installed w argv0 args =
     (if \<not> pyodbc_installed then ([], 1)
      else case dispatch w argv0 args of
             (out, Inr u) \<Rightarrow> (out, 0)
           | (out, Inl e) \<Rightarrow>
               (case e of
                  ImportError msg \<Rightarrow>
                    (out @ [Print (ascii ''Error: pyodbc module is not installed.''),
                            Print (ascii ''Please install it using: pip install pyodbc'')], 1)
                | KeyboardInterrupt \<Rightarrow> (out @ [Print ([10] @ ascii ''Test interrupted by user.'')], 0)
                | PyodbcError msg \<Rightarrow> (out @ [Print ((ascii ''Unexpected error: '') @ exn_str e)], 1)
                | OtherException msg \<Rightarrow> (out @ [Print ((ascii ''Unexpected error: '') @ exn_str e)], 1)))"

section \<open>Example worlds\<close>

text \<open>
  A database that accepts every connection and holds no patient and no visit, with the
  operator answering \<open>Sato\<close> to every prompt.
\<close>

definition empty_world :: world where
  "empty_world =
     \<lparr>connect_reply = (\<lambda>cs. None),
      probe_reply = (\<lambda>cs. Inr (ConnInfo (ascii ''PostgreSQL 14.2'') (ascii ''orca'') (ascii ''orca'') (ascii ''UTF8''))),
      drivers_reply = Inr [(ascii ''PostgreSQL ANSI''), (ascii ''PostgreSQL Unicode'')],
      patients_reply = Inr [],
      stats_reply = Inr (Some (0, 0, 0, 0)),
      search_reply = (\<lambda>pattern. Inr []),
      today_reply = Inr (ascii ''20240115''),
      visits_reply = (\<lambda>today. Inr []),
      dept_stats_reply = (\<lambda>today. Inr []),
      overview_reply = Inr (Some (0, 0, 0)),
      visit_count_reply = (\<lambda>today. Inr 0),
      close_reply = None,
      input_reply = (\<lambda>prompt. Inr (ascii ''Sato''))\<rparr>"

text \<open>The same database with one visit today, of a patient without a department code.\<close>

definition tanaka :: visit where
  "tanaka = Visit (Some (ascii ''20240115'')) (Some (ascii ''093000'')) 7 (Some (ascii ''Tanaka'')) None
              (Some (ascii ''Tanaka Taro'')) (Some ([12479, 12490, 12459] @ ascii '' '' @ [12479, 12525, 12454])) (Some (ascii ''1'')) (Some (ascii ''19850314''))"

definition one_visit_world :: world where
  "one_visit_world =
     empty_world\<lparr>visits_reply := (\<lambda>today. Inr [tanaka]),
                 dept_stats_reply := (\<lambda>today. Inr [(None, 1)])\<rparr>"

text \<open>
  The operator interrupts at the prompt, and the input ends at the prompt (\<open>EOFError\<close>).
\<close>

definition interrupted_world :: world where
  "interrupted_world = empty_world\<lparr>input_reply := (\<lambda>prompt. Inl KeyboardInterrupt)\<rparr>"

definition eof_world :: world where
  "eof_world = empty_world\<lparr>input_reply := (\<lambda>prompt. Inl (OtherException (ascii ''EOF when reading a line'')))\<rparr>"


text \<open>
  Servers for the troubleshooting tool: one that refuses every connection with a driver
  error, one whose first attempt raises another exception, and one where the operator
  interrupts the first attempt.
\<close>

definition refusing_server :: server where
  "refusing_server = (\<lambda>cs. Inl (PyodbcError (ascii ''FATAL: no pg_hba.conf entry for host'')))"

definition broken_server :: server where
  "broken_server = (\<lambda>cs. Inl (OtherException (ascii ''codec cannot decode'')))"

definition interrupted_server :: server where
  "interrupted_server = (\<lambda>cs. Inl KeyboardInterrupt)"



section \<open>Properties\<close>

lemma slices_of_six:
  assumes "6 \<le> length t"
  shows "slice 0 2 t = [t ! 0, t ! 1]"
    and "slice 2 4 t = [t ! 2, t ! 3]"
    and "slice 4 6 t = [t ! 4, t ! 5]"
proof -
  obtain a t1 where t0: "t = a # t1" using assms by (cases t) auto
  obtain b t2 where t1: "t1 = b # t2" using assms t0 by (cases t1) auto
  obtain c t3 where t2: "t2 = c # t3" using assms t0 t1 by (cases t2) auto
  obtain d t4 where t3: "t3 = d # t4" using assms t0 t1 t2 by (cases t3) auto
  obtain e t5 where t4: "t4 = e # t5" using assms t0 t1 t2 t3 by (cases t4) auto
  obtain f r where t5: "t5 = f # r" using assms t0 t1 t2 t3 t4 by (cases t5) auto
  have t: "t = a # b # c # d # e # f # r"
    by (simp add: t0 t1 t2 t3 t4 t5)
  show "slice 0 2 t = [t ! 0, t ! 1]" by (simp add: t slice_def)
  show "slice 2 4 t = [t ! 2, t ! 3]" by (simp add: t slice_def)
  show "slice 4 6 t = [t ! 4, t ! 5]" by (simp add: t slice_def)
qed

subsection \<open>Visit time\<close>

text \<open>
  Claim C4. A visit time of at least six characters is shown as its first two characters,
  a colon (code point 58), characters three and four, a colon, characters five and six.
  A null or empty time is shown as the sentinel of the three code points U+672A U+8A2D
  U+5B9A (26410, 35373, 23450). A non-empty time of fewer than six characters is shown
  as it is. This holds for the expression of \<open>check_today_visits.py\<close> and for the
  statement of \<open>show_todays_visits\<close>.
\<close>

theorem time_str_format:
  fixes t s :: ustr
  assumes "6 \<le> length t" and "s \<noteq> []" and "length s < 6"
  shows "time_str (Some t) = [t ! 0, t ! 1, 58, t ! 2, t ! 3, 58, t ! 4, t ! 5]
       \<and> visit_time_str (Some t) = [t ! 0, t ! 1, 58, t ! 2, t ! 3, 58, t ! 4, t ! 5]
       \<and> time_str None = [26410, 35373, 23450] \<and> visit_time_str None = [26410, 35373, 23450]
       \<and> time_str (Some []) = [26410, 35373, 23450] \<and> visit_time_str (Some []) = [26410, 35373, 23450]
       \<and> time_str (Some s) = s \<and> visit_time_str (Some s) = s"
proof -
  from assms(1) have ne: "t \<noteq> []" by auto
  have long: "time_str (Some t) = [t ! 0, t ! 1, 58, t ! 2, t ! 3, 58, t ! 4, t ! 5]"
    using assms(1) ne by (simp add: time_str_def slices_of_six colon_def ascii_def)
  have vlong: "visit_time_str (Some t) = [t ! 0, t ! 1, 58, t ! 2, t ! 3, 58, t ! 4, t ! 5]"
    using assms(1) ne by (simp add: visit_time_str_def slices_of_six colon_def ascii_def)
  have null: "time_str None = [26410, 35373, 23450] \<and> visit_time_str None = [26410, 35373, 23450]"
    by (simp add: time_str_def visit_time_str_def py_or_def misettei_def)
  have empty: "time_str (Some []) = [26410, 35373, 23450] \<and> visit_time_str (Some []) = [26410, 35373, 23450]"
    by (simp add: time_str_def visit_time_str_def py_or_def misettei_def)
  have short: "time_str (Some s) = s \<and> visit_time_str (Some s) = s"
    using assms(2,3) by (simp add: time_str_def visit_time_str_def py_or_def)
  from long vlong null empty short show ?thesis by blast
qed

text \<open>
  The time \<open>093000\<close> is shown as \<open>09:30:00\<close> and the time \<open>0930\<close> as \<open>0930\<close>, written
  as code points.
\<close>

theorem time_str_format_witness:
  "time_str (Some [48, 57, 51, 48, 48, 48]) = [48, 57, 58, 51, 48, 58, 48, 48]
   \<and> visit_time_str (Some [48, 57, 51, 48, 48, 48]) = [48, 57, 58, 51, 48, 58, 48, 48]
   \<and> time_str (Some [48, 57, 51, 48]) = [48, 57, 51, 48]
   \<and> visit_time_str (Some [48, 57, 51, 48]) = [48, 57, 51, 48]
   \<and> time_str None = [26410, 35373, 23450] \<and> visit_time_str (Some []) = [26410, 35373, 23450]"
proof -
  have h1: "6 \<le> length ([48, 57, 51, 48, 48, 48] :: ustr)" by simp
  have h2: "([48, 57, 51, 48] :: ustr) \<noteq> []" by simp
  have h3: "length ([48, 57, 51, 48] :: ustr) < 6" by simp
  from time_str_format [OF h1 h2 h3] show ?thesis by simp
qed

subsection \<open>Department names\<close>

lemma map_of_dept_map_unmapped:
  "c \<notin> fst ` set dept_map \<Longrightarrow> map_of dept_map c = None"
  by (simp add: map_of_eq_None_iff)

text \<open>
  Claim C5. In the table of today's visits, code \<open>01\<close> (code points 48, 49) is shown as
  the name U+5185 U+79D1 (20869, 31185, internal medicine) and code \<open>02\<close> as the name
  U+5916 U+79D1 (22806, 31185, surgery); a non-empty code \<open>c\<close> that is not a key of the
  table is shown as the code itself; a null or empty code is shown as the sentinel
  U+672A U+8A2D U+5B9A (26410, 35373, 23450). The sentinel is what an unmapped code shows
  only for the code that is the sentinel text itself, so for a department code, which
  has two characters, the two always differ. The table is the twelve entries \<open>01\<close> to
  \<open>12\<close> of the source.
\<close>

theorem dept_name_display:
  fixes c :: ustr
  assumes "c \<noteq> []" and "c \<notin> fst ` set dept_map"
  shows "dept_name (Some [48, 49]) = [20869, 31185]
       \<and> dept_name (Some [48, 50]) = [22806, 31185]
       \<and> dept_name (Some c) = c
       \<and> dept_name None = [26410, 35373, 23450]
       \<and> dept_name (Some []) = [26410, 35373, 23450]
       \<and> (dept_name (Some c) = dept_name None) = (c = [26410, 35373, 23450])
       \<and> (length c = 2 \<longrightarrow> dept_name (Some c) \<noteq> dept_name None
                              \<and> dept_name (Some c) \<noteq> dept_name (Some []))
       \<and> dept_map =
           [([48, 49], [20869, 31185]), ([48, 50], [22806, 31185]), ([48, 51], [23567, 20816, 31185]), ([48, 52], [29987, 23142, 20154, 31185]),
            ([48, 53], [30524, 31185]), ([48, 54], [32819, 40763, 31185]), ([48, 55], [30382, 33178, 31185]), ([48, 56], [27852, 23615, 22120, 31185]),
            ([48, 57], [25972, 24418, 22806, 31185]), ([49, 48], [33075, 31070, 32076, 22806, 31185]), ([49, 49], [21628, 21560, 22120, 31185]),
            ([49, 50], [24490, 29872, 22120, 31185])]"
proof -
  have k1: "dept_name (Some [48, 49]) = [20869, 31185]"
    by (simp add: dept_name_def dict_get_def dept_map_def ascii_def naika_def)
  have k2: "dept_name (Some [48, 50]) = [22806, 31185]"
    by (simp add: dept_name_def dict_get_def dept_map_def ascii_def geka_def)
  have raw: "dept_name (Some c) = c"
    using assms by (simp add: dept_name_def dict_get_def map_of_dept_map_unmapped py_or_def)
  have null: "dept_name None = [26410, 35373, 23450]"
    by (simp add: dept_name_def dict_get_def py_or_def misettei_def)
  have empty: "dept_name (Some []) = [26410, 35373, 23450]"
    by (simp add: dept_name_def dict_get_def dept_map_def ascii_def py_or_def misettei_def)
  have same: "(dept_name (Some c) = dept_name None) = (c = [26410, 35373, 23450])"
    by (simp only: raw null)
  have two: "length c = 2 \<longrightarrow> c \<noteq> [26410, 35373, 23450]"
    by auto
  have diff: "length c = 2 \<longrightarrow> dept_name (Some c) \<noteq> dept_name None
                              \<and> dept_name (Some c) \<noteq> dept_name (Some [])"
    using two by (simp only: raw null empty) simp
  have table: "dept_map =
           [([48, 49], [20869, 31185]), ([48, 50], [22806, 31185]), ([48, 51], [23567, 20816, 31185]), ([48, 52], [29987, 23142, 20154, 31185]),
            ([48, 53], [30524, 31185]), ([48, 54], [32819, 40763, 31185]), ([48, 55], [30382, 33178, 31185]), ([48, 56], [27852, 23615, 22120, 31185]),
            ([48, 57], [25972, 24418, 22806, 31185]), ([49, 48], [33075, 31070, 32076, 22806, 31185]), ([49, 49], [21628, 21560, 22120, 31185]),
            ([49, 50], [24490, 29872, 22120, 31185])]"
    by (simp add: dept_map_def ascii_def naika_def geka_def)
  from k1 k2 raw null empty same diff table show ?thesis by blast
qed

text \<open>
  The code \<open>99\<close> (57, 57) is not in the table: it is shown as \<open>99\<close>, which is not what
  a missing code shows.
\<close>

theorem dept_name_display_witness:
  "dept_name (Some [57, 57]) = [57, 57]
   \<and> dept_name (Some [57, 57]) \<noteq> dept_name None
   \<and> dept_name None = [26410, 35373, 23450]
   \<and> dept_name (Some [48, 49]) = [20869, 31185]
   \<and> dept_name (Some [48, 50]) = [22806, 31185]"
proof -
  have h1: "([57, 57] :: ustr) \<noteq> []" by simp
  have h2: "([57, 57] :: ustr) \<notin> fst ` set dept_map" by (simp add: dept_map_def ascii_def)
  have h3: "length ([57, 57] :: ustr) = 2" by simp
  from dept_name_display [OF h1 h2] h3 show ?thesis by blast
qed

subsection \<open>Birth date\<close>

lemma list_of_length_eight:
  assumes "length b = 8"
  obtains a0 a1 a2 a3 a4 a5 a6 a7 where "b = [a0, a1, a2, a3, a4, a5, a6, a7]"
proof -
  from assms have "\<exists>a0 a1 a2 a3 a4 a5 a6 a7. b = [a0, a1, a2, a3, a4, a5, a6, a7]"
    by (auto simp: numeral_eq_Suc length_Suc_conv)
  then show thesis using that by blast
qed

text \<open>
  Claim C6. For a birthday of exactly eight characters the query's birth-date column is
  the first four, the year mark U+5E74 (24180), the fifth and sixth, the month mark
  U+6708 (26376), the seventh and eighth, the day mark U+65E5 (26085); for a NULL or
  empty birthday it is the sentinel of the six code points U+751F U+5E74 U+6708 U+65E5
  U+4E0D U+660E (29983, 24180, 26376, 26085, 19981, 26126).
\<close>

theorem birth_date_format:
  fixes b :: ustr
  assumes "length b = 8"
  shows "birth_date (Some b) =
           [b ! 0, b ! 1, b ! 2, b ! 3, 24180, b ! 4, b ! 5, 26376, b ! 6, b ! 7, 26085]
       \<and> birth_date None = [29983, 24180, 26376, 26085, 19981, 26126]
       \<and> birth_date (Some []) = [29983, 24180, 26376, 26085, 19981, 26126]"
proof -
  from assms obtain a0 a1 a2 a3 a4 a5 a6 a7 where b: "b = [a0, a1, a2, a3, a4, a5, a6, a7]"
    by (rule list_of_length_eight)
  have "birth_date (Some b) =
           [b ! 0, b ! 1, b ! 2, b ! 3, 24180, b ! 4, b ! 5, 26376, b ! 6, b ! 7, 26085]"
    by (simp add: b birth_date_def sql_substring_def nen_def gatsu_def nichi_def)
  moreover have "birth_date None = [29983, 24180, 26376, 26085, 19981, 26126]"
    by (simp add: birth_date_def birth_unknown_def)
  moreover have "birth_date (Some []) = [29983, 24180, 26376, 26085, 19981, 26126]"
    by (simp add: birth_date_def birth_unknown_def)
  ultimately show ?thesis by blast
qed

text \<open>The birthday \<open>19850314\<close> is shown as \<open>1985\<close>, year mark, \<open>03\<close>, month mark, \<open>14\<close>, day mark.\<close>

theorem birth_date_format_witness:
  "birth_date (Some [49, 57, 56, 53, 48, 51, 49, 52]) = [49, 57, 56, 53, 24180, 48, 51, 26376, 49, 52, 26085]
   \<and> birth_date None = [29983, 24180, 26376, 26085, 19981, 26126]
   \<and> birth_date (Some []) = [29983, 24180, 26376, 26085, 19981, 26126]"
proof -
  have h: "length ([49, 57, 56, 53, 48, 51, 49, 52] :: ustr) = 8" by simp
  from birth_date_format [OF h] show ?thesis by simp
qed

subsection \<open>Truncation\<close>




subsection \<open>The SSL modes of one credential set\<close>

lemma connects_append: "connects (xs @ ys) = connects xs @ connects ys"
  by (induction xs rule: connects.induct) auto

lemma connects_map_Print: "connects (map Print ls) = []"
  by (induction ls) auto

lemma fst_bind_unit: "fst (bind (out, Inr a) f) = out @ fst (f a)"
  by (simp add: bind_def split: prod.splits)

lemma snd_bind_unit: "snd (bind (out, Inr a) f) = snd (f a)"
  by (simp add: bind_def split: prod.splits)

lemma try_ssl_modes_run:
  fixes srv :: server and s p d u pw :: ustr
  defines "f \<equiv> (\<lambda>md. driver_failure srv (connection_string s p d u pw (fst md)))"
  shows "connects (fst (try_ssl_modes srv s p d u pw ms))
           = map (\<lambda>md. connection_string s p d u pw (fst md)) (takeWhile f ms @ take 1 (dropWhile f ms))
       \<and> snd (try_ssl_modes srv s p d u pw ms)
           = (case dropWhile f ms of
                [] \<Rightarrow> Inr ConnFailure
              | md # r \<Rightarrow> (case srv (connection_string s p d u pw (fst md)) of
                             Inr v \<Rightarrow> Inr (ConnSuccess (fst md) v)
                           | Inl e \<Rightarrow> Inl e))"
proof (induction ms)
  case Nil
  show ?case by simp
next
  case (Cons md ms)
  obtain m ds where md: "md = (m, ds)" by (cases md)
  show ?case
  proof (cases "srv (connection_string s p d u pw m)")
    case (Inr v)
    then show ?thesis
      by (simp add: md f_def driver_failure_def connects_append Let_def)
  next
    case (Inl e)
    show ?thesis
    proof (cases "is_pyodbc_error e")
      case True
      with Inl Cons show ?thesis
        by (simp add: md f_def driver_failure_def connects_append Let_def
            fst_bind_unit snd_bind_unit connects_map_Print)
    next
      case False
      with Inl show ?thesis
        by (simp add: md f_def driver_failure_def connects_append Let_def)
    qed
  qed
qed

lemma connection_string_inj:
  "connection_string s p d u pw m = connection_string s p d u pw m' \<Longrightarrow> m = m'"
  by (simp add: connection_string_def)


lemma map_fst_ssl_modes: "map fst ssl_modes = mode_names"
  by (simp add: ssl_modes_def mode_names_def ascii_def)

lemma distinct_mode_names: "distinct mode_names"
  by (simp add: mode_names_def ascii_def)

lemma ssl_run:
  fixes server_reply :: server and s p d u pw :: ustr
  shows "connects (fst (test_connection_with_ssl_modes server_reply s p d u pw))
           = map (connection_string s p d u pw)
               (takeWhile (\<lambda>m. driver_failure server_reply (connection_string s p d u pw m)) mode_names
                @ take 1 (dropWhile (\<lambda>m. driver_failure server_reply (connection_string s p d u pw m)) mode_names))
       \<and> snd (test_connection_with_ssl_modes server_reply s p d u pw)
           = (case dropWhile (\<lambda>m. driver_failure server_reply (connection_string s p d u pw m)) mode_names of
                [] \<Rightarrow> Inr ConnFailure
              | m # rest \<Rightarrow>
                  (case server_reply (connection_string s p d u pw m) of
                     Inr version \<Rightarrow> Inr (ConnSuccess m version)
                   | Inl e \<Rightarrow> Inl e))"
proof -
  let ?cs = "connection_string s p d u pw"
  let ?P = "\<lambda>m. driver_failure server_reply (?cs m)"
  let ?f = "\<lambda>md. driver_failure server_reply (?cs (fst md))"
  let ?run = "test_connection_with_ssl_modes server_reply s p d u pw"
  let ?loop = "try_ssl_modes server_reply s p d u pw ssl_modes"
  have f: "?f = ?P \<circ> fst" by (simp add: fun_eq_iff)
  have tw: "map fst (takeWhile ?f ssl_modes) = takeWhile ?P mode_names"
    unfolding f by (simp add: takeWhile_map map_fst_ssl_modes [symmetric])
  have dw: "map fst (dropWhile ?f ssl_modes) = dropWhile ?P mode_names"
    unfolding f by (simp add: dropWhile_map map_fst_ssl_modes [symmetric])
  have run_fst: "connects (fst ?run) = connects (fst ?loop)"
    by (simp add: test_connection_with_ssl_modes_def prints_def fst_bind_unit
        connects_append connects_map_Print)
  have run_snd: "snd ?run = snd ?loop"
    by (simp add: test_connection_with_ssl_modes_def prints_def snd_bind_unit)
  from try_ssl_modes_run [of server_reply s p d u pw ssl_modes]
  have l1: "connects (fst ?loop) = map (\<lambda>md. ?cs (fst md)) (takeWhile ?f ssl_modes @ take 1 (dropWhile ?f ssl_modes))"
    and l2: "snd ?loop = (case dropWhile ?f ssl_modes of
                [] \<Rightarrow> Inr ConnFailure
              | md # r \<Rightarrow> (case server_reply (?cs (fst md)) of
                             Inr v \<Rightarrow> Inr (ConnSuccess (fst md) v)
                           | Inl e \<Rightarrow> Inl e))"
    by blast+
  have "map (\<lambda>md. ?cs (fst md)) (takeWhile ?f ssl_modes @ take 1 (dropWhile ?f ssl_modes))
        = map ?cs (map fst (takeWhile ?f ssl_modes) @ take 1 (map fst (dropWhile ?f ssl_modes)))"
    by (simp add: take_map)
  also have "\<dots> = map ?cs (takeWhile ?P mode_names @ take 1 (dropWhile ?P mode_names))"
    by (simp only: tw dw)
  finally have c1: "connects (fst ?run) = map ?cs (takeWhile ?P mode_names @ take 1 (dropWhile ?P mode_names))"
    using l1 run_fst by simp
  have gen: "(case xs of
                [] \<Rightarrow> Inr ConnFailure
              | md # r \<Rightarrow> (case server_reply (?cs (fst md)) of
                             Inr v \<Rightarrow> Inr (ConnSuccess (fst md) v)
                           | Inl e \<Rightarrow> Inl e))
       = (case map fst xs of
                [] \<Rightarrow> Inr ConnFailure
              | m # r \<Rightarrow> (case server_reply (?cs m) of
                             Inr v \<Rightarrow> Inr (ConnSuccess m v)
                           | Inl e \<Rightarrow> Inl e))" for xs :: "(ustr \<times> ustr) list"
    by (cases xs) simp_all
  have c3: "snd ?run = (case dropWhile ?P mode_names of
                [] \<Rightarrow> Inr ConnFailure
              | m # r \<Rightarrow> (case server_reply (?cs m) of
                             Inr v \<Rightarrow> Inr (ConnSuccess m v)
                           | Inl e \<Rightarrow> Inl e))"
    using l2 run_snd gen [of "dropWhile ?f ssl_modes"] by (simp only: dw)
  from c1 c3 show ?thesis by blast
qed

text \<open>
  Claim C2. For every credential set and every server, the routine passes to
  \<open>pyodbc.connect\<close> the connection strings of the modes disable, allow, prefer, require
  in this order: those of the modes that fail with a driver error, then that of the first
  mode that does not, and nothing after it. No connection string is tried twice. When
  that first mode succeeds the routine returns it with the server's version; when all
  four fail with a driver error it returns failure.
\<close>

theorem ssl_modes_tried_in_order:
  fixes server_reply :: server and s p d u pw :: ustr
  shows "map fst ssl_modes = mode_names
       \<and> connects (fst (test_connection_with_ssl_modes server_reply s p d u pw))
           = map (connection_string s p d u pw)
               (takeWhile (\<lambda>m. driver_failure server_reply (connection_string s p d u pw m)) mode_names
                @ take 1 (dropWhile (\<lambda>m. driver_failure server_reply (connection_string s p d u pw m)) mode_names))
       \<and> distinct (connects (fst (test_connection_with_ssl_modes server_reply s p d u pw)))
       \<and> snd (test_connection_with_ssl_modes server_reply s p d u pw)
           = (case dropWhile (\<lambda>m. driver_failure server_reply (connection_string s p d u pw m)) mode_names of
                [] \<Rightarrow> Inr ConnFailure
              | m # rest \<Rightarrow>
                  (case server_reply (connection_string s p d u pw m) of
                     Inr version \<Rightarrow> Inr (ConnSuccess m version)
                   | Inl e \<Rightarrow> Inl e))"
proof -
  let ?cs = "connection_string s p d u pw"
  let ?P = "\<lambda>m. driver_failure server_reply (?cs m)"
  let ?run = "test_connection_with_ssl_modes server_reply s p d u pw"
  from ssl_run [of server_reply s p d u pw]
  have c1: "connects (fst ?run) = map ?cs (takeWhile ?P mode_names @ take 1 (dropWhile ?P mode_names))"
    and c3: "snd (test_connection_with_ssl_modes server_reply s p d u pw)
           = (case dropWhile (\<lambda>m. driver_failure server_reply (?cs m)) mode_names of
                [] \<Rightarrow> Inr ConnFailure
              | m # rest \<Rightarrow>
                  (case server_reply (?cs m) of
                     Inr version \<Rightarrow> Inr (ConnSuccess m version)
                   | Inl e \<Rightarrow> Inl e))"
    by blast+
  have "takeWhile ?P mode_names @ take 1 (dropWhile ?P mode_names)
        = take (Suc (length (takeWhile ?P mode_names))) mode_names"
  proof -
    have "take (Suc (length (takeWhile ?P mode_names))) (takeWhile ?P mode_names @ dropWhile ?P mode_names)
          = takeWhile ?P mode_names @ take 1 (dropWhile ?P mode_names)"
      by (simp only: take_append) simp
    then show ?thesis by simp
  qed
  then have "distinct (takeWhile ?P mode_names @ take 1 (dropWhile ?P mode_names))"
    using distinct_mode_names by (simp only: distinct_take)
  then have c2: "distinct (connects (fst ?run))"
    unfolding c1 by (simp only: distinct_map) (auto intro!: inj_onI dest: connection_string_inj)
  from map_fst_ssl_modes c1 c2 c3 show ?thesis by blast
qed

subsection \<open>The summary of the troubleshooting tool\<close>

lemma fst_bind: "fst (bind m f) = fst m @ (case snd m of Inl e \<Rightarrow> [] | Inr a \<Rightarrow> fst (f a))"
  by (cases m) (auto simp: bind_def split: sum.splits prod.splits)

lemma snd_bind: "snd (bind m f) = (case snd m of Inl e \<Rightarrow> Inl e | Inr a \<Rightarrow> snd (f a))"
  by (cases m) (auto simp: bind_def split: sum.splits prod.splits)

lemma ssl_run_result:
  fixes server_reply :: server and s p d u pw :: ustr
  shows "snd (test_connection_with_ssl_modes server_reply s p d u pw)
           = (case dropWhile (\<lambda>m. driver_failure server_reply (connection_string s p d u pw m)) mode_names of
                [] \<Rightarrow> Inr ConnFailure
              | m # rest \<Rightarrow>
                  (case server_reply (connection_string s p d u pw m) of
                     Inr version \<Rightarrow> Inr (ConnSuccess m version)
                   | Inl e \<Rightarrow> Inl e))"
  using ssl_run by blast

lemma result_all_modes_fail:
  assumes "all_modes_fail srv c"
  shows "snd (test_connection_with_ssl_modes srv main_server main_port (database c) (user c) (password c))
         = Inr ConnFailure"
proof -
  from assms have dw: "dropWhile (\<lambda>m. driver_failure srv
        (connection_string main_server main_port (database c) (user c) (password c) m)) mode_names = []"
    by (simp add: all_modes_fail_def list_all_iff)
  show ?thesis unfolding ssl_run_result dw by simp
qed

lemma result_not_all_modes_fail:
  assumes "\<not> all_modes_fail srv c"
    and "snd (test_connection_with_ssl_modes srv main_server main_port (database c) (user c) (password c)) = Inr r"
  shows "success r"
proof -
  let ?P = "\<lambda>m. driver_failure srv
        (connection_string main_server main_port (database c) (user c) (password c) m)"
  from assms(1) have "dropWhile ?P mode_names \<noteq> []"
    by (simp add: all_modes_fail_def list_all_iff)
  then obtain m rest where dw: "dropWhile ?P mode_names = m # rest"
    by (cases "dropWhile ?P mode_names") auto
  then have "\<not> ?P m" by (metis hd_dropWhile list.sel(1) list.distinct(1))
  with assms(2) dw show ?thesis
    by (auto simp: ssl_run_result driver_failure_def split: sum.splits)
qed

lemma test_all_configs_result:
  "snd (test_all_configs srv cs acc) = Inr res \<Longrightarrow>
     (res = []) = (acc = [] \<and> list_all (all_modes_fail srv) cs)"
proof (induction cs arbitrary: acc)
  case Nil
  then show ?case by simp
next
  case (Cons c cs)
  let ?t = "test_connection_with_ssl_modes srv main_server main_port (database c) (user c) (password c)"
  from Cons.prems obtain r where r: "snd ?t = Inr r"
    by (cases "snd ?t") (auto simp: snd_bind)
  with Cons.prems have rest: "snd (test_all_configs srv cs (if success r then acc @ [c] else acc)) = Inr res"
    by (simp add: snd_bind)
  show ?case
  proof (cases "all_modes_fail srv c")
    case True
    with r have "r = ConnFailure" by (simp add: result_all_modes_fail)
    with rest Cons.IH [of acc] True show ?thesis by simp
  next
    case False
    from False r have "success r" by (rule result_not_all_modes_fail)
    with rest Cons.IH [of "acc @ [c]"] False show ?thesis by simp
  qed
qed

lemma test_all_configs_all_fail:
  "list_all (all_modes_fail srv) cs \<Longrightarrow> snd (test_all_configs srv cs acc) = Inr acc"
  by (induction cs arbitrary: acc) (auto simp: snd_bind result_all_modes_fail)


lemma no_hash_analyze: "e \<in> set (map Print (analyze_error m d)) \<Longrightarrow> \<not> starts_hash e"
  by (auto simp: analyze_error_def ascii_def split: if_splits)

lemma no_hash_try_ssl_modes:
  "e \<in> set (fst (try_ssl_modes srv s p d u pw ms)) \<Longrightarrow> \<not> starts_hash e"
proof (induction ms)
  case Nil
  then show ?case by simp
next
  case (Cons md ms)
  obtain m ds where md: "md = (m, ds)" by (cases md)
  show ?case
  proof (cases "srv (connection_string s p d u pw m)")
    case (Inr v)
    with Cons.prems show ?thesis
      by (auto simp: md Let_def ascii_def)
  next
    case (Inl x)
    show ?thesis
    proof (cases "is_pyodbc_error x")
      case True
      with Inl Cons.prems have
        "e \<in> {Print ((10 # ascii ''Trying SSL Mode: '') @ m @ ascii '' ('' @ ds @ ascii '')''),
               Print (ascii ''Connection string: '' @ connection_string s p d u pw m),
               Connect (connection_string s p d u pw m),
               Print ((10007 # ascii '' FAILED with SSL mode: '') @ m),
               Print (ascii ''  Error: '' @ exn_str x)}
         \<or> e \<in> set (map Print (analyze_error (exn_str x) d))
         \<or> e \<in> set (fst (try_ssl_modes srv s p d u pw ms))"
        by (auto simp: md Let_def fst_bind)
      then show ?thesis
        using Cons.IH no_hash_analyze by (auto simp: ascii_def)
    next
      case False
      with Inl Cons.prems show ?thesis
        by (auto simp: md Let_def ascii_def)
    qed
  qed
qed

lemma no_hash_test_connection:
  "e \<in> set (fst (test_connection_with_ssl_modes srv s p d u pw)) \<Longrightarrow> \<not> starts_hash e"
  by (auto simp: test_connection_with_ssl_modes_def prints_def fst_bind ascii_def
      dest: no_hash_try_ssl_modes split: sum.splits)

lemma no_hash_test_all_configs:
  "e \<in> set (fst (test_all_configs srv cs acc)) \<Longrightarrow> \<not> starts_hash e"
proof (induction cs arbitrary: acc)
  case Nil
  then show ?case by simp
next
  case (Cons c cs)
  then show ?case
    by (auto simp: fst_bind dest: no_hash_test_connection split: sum.splits)
qed


lemma main_out:
  "fst (main srv) =
     map Print [ascii ''PostgreSQL Connection Troubleshooting Tool'', rule60]
     @ fst (test_all_configs srv test_configs [])
     @ (case snd (test_all_configs srv test_configs []) of
          Inl e \<Rightarrow> []
        | Inr sc \<Rightarrow> map Print (summary_header
                       @ (if sc \<noteq> [] then summary_success sc else summary_failure)))"
  by (simp add: main_def fst_bind snd_bind prints_def split: sum.splits)

lemma starts_hash_pg_hba_config: "starts_hash (Print pg_hba_config)"
  by (simp add: pg_hba_config_def generate_pg_hba_entries_def entries_def ascii_def)

lemma rule60_Cons: "rule60 = 61 # replicate 59 61"
  by (simp add: rule60_def numeral_eq_Suc)

lemma no_hash_summary_success: "e \<in> set (map Print (summary_success sc)) \<Longrightarrow> \<not> starts_hash e"
  by (auto simp: summary_success_def ascii_def)

lemma no_hash_summary_header: "e \<in> set (map Print summary_header) \<Longrightarrow> \<not> starts_hash e"
  by (auto simp: summary_header_def ascii_def rule60_Cons)

lemma no_hash_title:
  "e \<in> set (map Print [ascii ''PostgreSQL Connection Troubleshooting Tool'', rule60])
   \<Longrightarrow> \<not> starts_hash e"
  by (auto simp: ascii_def rule60_Cons)

lemma summary_failure_split:
  "summary_failure = take 7 summary_failure @ pg_hba_config # alternative_solutions"
  by (simp add: summary_failure_def)

lemma set_entries:
  "set (entries dbs us ip) =
     set (entries [] [] ip)
     \<union> (\<Union>d \<in> set dbs. \<Union>u \<in> set us. {hostssl_line d u ip, host_line d u ip})"
  by (auto simp: entries_def)

lemma replicate_numeral_Cons: "replicate (numeral k) x = x # replicate (pred_numeral k) x"
  by (simp add: numeral_eq_Suc)

lemma pg_hba_lines:
  "entries (map database test_configs) (map user test_configs) default_client_ip =
    [[35, 32, 65, 100, 100, 32, 116, 104, 101, 115, 101, 32, 108, 105, 110, 101, 115, 32, 116, 111, 32, 112, 103, 95, 104, 98, 97, 46, 99, 111, 110, 102, 32, 111, 110, 32, 116, 104, 101, 32, 80, 111, 115, 116, 103, 114, 101, 83, 81, 76, 32, 115, 101, 114, 118, 101, 114],
     [35, 32, 40, 82, 101, 112, 108, 97, 99, 101, 32, 47, 51, 50, 32, 119, 105, 116, 104, 32, 97, 112, 112, 114, 111, 112, 114, 105, 97, 116, 101, 32, 115, 117, 98, 110, 101, 116, 32, 105, 102, 32, 110, 101, 101, 100, 101, 100, 41],
     [],
     [104, 111, 115, 116, 115, 115, 108, 32, 32, 32, 32, 111, 114, 99, 97, 32, 32, 32, 32, 32, 32, 32, 32, 32, 111, 114, 99, 97, 32, 32, 32, 32, 32, 32, 32, 32, 32, 49, 48, 48, 46, 56, 57, 46, 49, 56, 46, 49, 53, 47, 51, 50, 32, 32, 32, 32, 32, 32, 32, 32, 109, 100, 53],
     [104, 111, 115, 116, 32, 32, 32, 32, 32, 32, 32, 111, 114, 99, 97, 32, 32, 32, 32, 32, 32, 32, 32, 32, 111, 114, 99, 97, 32, 32, 32, 32, 32, 32, 32, 32, 32, 49, 48, 48, 46, 56, 57, 46, 49, 56, 46, 49, 53, 47, 51, 50, 32, 32, 32, 32, 32, 32, 32, 32, 109, 100, 53],
     [104, 111, 115, 116, 115, 115, 108, 32, 32, 32, 32, 111, 114, 99, 97, 32, 32, 32, 32, 32, 32, 32, 32, 32, 114, 101, 99, 101, 105, 112, 116, 32, 32, 32, 32, 32, 32, 49, 48, 48, 46, 56, 57, 46, 49, 56, 46, 49, 53, 47, 51, 50, 32, 32, 32, 32, 32, 32, 32, 32, 109, 100, 53],
     [104, 111, 115, 116, 32, 32, 32, 32, 32, 32, 32, 111, 114, 99, 97, 32, 32, 32, 32, 32, 32, 32, 32, 32, 114, 101, 99, 101, 105, 112, 116, 32, 32, 32, 32, 32, 32, 49, 48, 48, 46, 56, 57, 46, 49, 56, 46, 49, 53, 47, 51, 50, 32, 32, 32, 32, 32, 32, 32, 32, 109, 100, 53],
     [104, 111, 115, 116, 115, 115, 108, 32, 32, 32, 32, 111, 114, 99, 97, 32, 32, 32, 32, 32, 32, 32, 32, 32, 119, 101, 98, 111, 114, 99, 97, 32, 32, 32, 32, 32, 32, 49, 48, 48, 46, 56, 57, 46, 49, 56, 46, 49, 53, 47, 51, 50, 32, 32, 32, 32, 32, 32, 32, 32, 109, 100, 53],
     [104, 111, 115, 116, 32, 32, 32, 32, 32, 32, 32, 111, 114, 99, 97, 32, 32, 32, 32, 32, 32, 32, 32, 32, 119, 101, 98, 111, 114, 99, 97, 32, 32, 32, 32, 32, 32, 49, 48, 48, 46, 56, 57, 46, 49, 56, 46, 49, 53, 47, 51, 50, 32, 32, 32, 32, 32, 32, 32, 32, 109, 100, 53],
     [104, 111, 115, 116, 115, 115, 108, 32, 32, 32, 32, 111, 114, 99, 97, 32, 32, 32, 32, 32, 32, 32, 32, 32, 112, 111, 115, 116, 103, 114, 101, 115, 32, 32, 32, 32, 32, 49, 48, 48, 46, 56, 57, 46, 49, 56, 46, 49, 53, 47, 51, 50, 32, 32, 32, 32, 32, 32, 32, 32, 109, 100, 53],
     [104, 111, 115, 116, 32, 32, 32, 32, 32, 32, 32, 111, 114, 99, 97, 32, 32, 32, 32, 32, 32, 32, 32, 32, 112, 111, 115, 116, 103, 114, 101, 115, 32, 32, 32, 32, 32, 49, 48, 48, 46, 56, 57, 46, 49, 56, 46, 49, 53, 47, 51, 50, 32, 32, 32, 32, 32, 32, 32, 32, 109, 100, 53],
     [104, 111, 115, 116, 115, 115, 108, 32, 32, 32, 32, 114, 101, 99, 101, 105, 112, 116, 32, 32, 32, 32, 32, 32, 111, 114, 99, 97, 32, 32, 32, 32, 32, 32, 32, 32, 32, 49, 48, 48, 46, 56, 57, 46, 49, 56, 46, 49, 53, 47, 51, 50, 32, 32, 32, 32, 32, 32, 32, 32, 109, 100, 53],
     [104, 111, 115, 116, 32, 32, 32, 32, 32, 32, 32, 114, 101, 99, 101, 105, 112, 116, 32, 32, 32, 32, 32, 32, 111, 114, 99, 97, 32, 32, 32, 32, 32, 32, 32, 32, 32, 49, 48, 48, 46, 56, 57, 46, 49, 56, 46, 49, 53, 47, 51, 50, 32, 32, 32, 32, 32, 32, 32, 32, 109, 100, 53],
     [104, 111, 115, 116, 115, 115, 108, 32, 32, 32, 32, 114, 101, 99, 101, 105, 112, 116, 32, 32, 32, 32, 32, 32, 114, 101, 99, 101, 105, 112, 116, 32, 32, 32, 32, 32, 32, 49, 48, 48, 46, 56, 57, 46, 49, 56, 46, 49, 53, 47, 51, 50, 32, 32, 32, 32, 32, 32, 32, 32, 109, 100, 53],
     [104, 111, 115, 116, 32, 32, 32, 32, 32, 32, 32, 114, 101, 99, 101, 105, 112, 116, 32, 32, 32, 32, 32, 32, 114, 101, 99, 101, 105, 112, 116, 32, 32, 32, 32, 32, 32, 49, 48, 48, 46, 56, 57, 46, 49, 56, 46, 49, 53, 47, 51, 50, 32, 32, 32, 32, 32, 32, 32, 32, 109, 100, 53],
     [104, 111, 115, 116, 115, 115, 108, 32, 32, 32, 32, 114, 101, 99, 101, 105, 112, 116, 32, 32, 32, 32, 32, 32, 119, 101, 98, 111, 114, 99, 97, 32, 32, 32, 32, 32, 32, 49, 48, 48, 46, 56, 57, 46, 49, 56, 46, 49, 53, 47, 51, 50, 32, 32, 32, 32, 32, 32, 32, 32, 109, 100, 53],
     [104, 111, 115, 116, 32, 32, 32, 32, 32, 32, 32, 114, 101, 99, 101, 105, 112, 116, 32, 32, 32, 32, 32, 32, 119, 101, 98, 111, 114, 99, 97, 32, 32, 32, 32, 32, 32, 49, 48, 48, 46, 56, 57, 46, 49, 56, 46, 49, 53, 47, 51, 50, 32, 32, 32, 32, 32, 32, 32, 32, 109, 100, 53],
     [104, 111, 115, 116, 115, 115, 108, 32, 32, 32, 32, 114, 101, 99, 101, 105, 112, 116, 32, 32, 32, 32, 32, 32, 112, 111, 115, 116, 103, 114, 101, 115, 32, 32, 32, 32, 32, 49, 48, 48, 46, 56, 57, 46, 49, 56, 46, 49, 53, 47, 51, 50, 32, 32, 32, 32, 32, 32, 32, 32, 109, 100, 53],
     [104, 111, 115, 116, 32, 32, 32, 32, 32, 32, 32, 114, 101, 99, 101, 105, 112, 116, 32, 32, 32, 32, 32, 32, 112, 111, 115, 116, 103, 114, 101, 115, 32, 32, 32, 32, 32, 49, 48, 48, 46, 56, 57, 46, 49, 56, 46, 49, 53, 47, 51, 50, 32, 32, 32, 32, 32, 32, 32, 32, 109, 100, 53],
     [104, 111, 115, 116, 115, 115, 108, 32, 32, 32, 32, 119, 101, 98, 111, 114, 99, 97, 32, 32, 32, 32, 32, 32, 111, 114, 99, 97, 32, 32, 32, 32, 32, 32, 32, 32, 32, 49, 48, 48, 46, 56, 57, 46, 49, 56, 46, 49, 53, 47, 51, 50, 32, 32, 32, 32, 32, 32, 32, 32, 109, 100, 53],
     [104, 111, 115, 116, 32, 32, 32, 32, 32, 32, 32, 119, 101, 98, 111, 114, 99, 97, 32, 32, 32, 32, 32, 32, 111, 114, 99, 97, 32, 32, 32, 32, 32, 32, 32, 32, 32, 49, 48, 48, 46, 56, 57, 46, 49, 56, 46, 49, 53, 47, 51, 50, 32, 32, 32, 32, 32, 32, 32, 32, 109, 100, 53],
     [104, 111, 115, 116, 115, 115, 108, 32, 32, 32, 32, 119, 101, 98, 111, 114, 99, 97, 32, 32, 32, 32, 32, 32, 114, 101, 99, 101, 105, 112, 116, 32, 32, 32, 32, 32, 32, 49, 48, 48, 46, 56, 57, 46, 49, 56, 46, 49, 53, 47, 51, 50, 32, 32, 32, 32, 32, 32, 32, 32, 109, 100, 53],
     [104, 111, 115, 116, 32, 32, 32, 32, 32, 32, 32, 119, 101, 98, 111, 114, 99, 97, 32, 32, 32, 32, 32, 32, 114, 101, 99, 101, 105, 112, 116, 32, 32, 32, 32, 32, 32, 49, 48, 48, 46, 56, 57, 46, 49, 56, 46, 49, 53, 47, 51, 50, 32, 32, 32, 32, 32, 32, 32, 32, 109, 100, 53],
     [104, 111, 115, 116, 115, 115, 108, 32, 32, 32, 32, 119, 101, 98, 111, 114, 99, 97, 32, 32, 32, 32, 32, 32, 119, 101, 98, 111, 114, 99, 97, 32, 32, 32, 32, 32, 32, 49, 48, 48, 46, 56, 57, 46, 49, 56, 46, 49, 53, 47, 51, 50, 32, 32, 32, 32, 32, 32, 32, 32, 109, 100, 53],
     [104, 111, 115, 116, 32, 32, 32, 32, 32, 32, 32, 119, 101, 98, 111, 114, 99, 97, 32, 32, 32, 32, 32, 32, 119, 101, 98, 111, 114, 99, 97, 32, 32, 32, 32, 32, 32, 49, 48, 48, 46, 56, 57, 46, 49, 56, 46, 49, 53, 47, 51, 50, 32, 32, 32, 32, 32, 32, 32, 32, 109, 100, 53],
     [104, 111, 115, 116, 115, 115, 108, 32, 32, 32, 32, 119, 101, 98, 111, 114, 99, 97, 32, 32, 32, 32, 32, 32, 112, 111, 115, 116, 103, 114, 101, 115, 32, 32, 32, 32, 32, 49, 48, 48, 46, 56, 57, 46, 49, 56, 46, 49, 53, 47, 51, 50, 32, 32, 32, 32, 32, 32, 32, 32, 109, 100, 53],
     [104, 111, 115, 116, 32, 32, 32, 32, 32, 32, 32, 119, 101, 98, 111, 114, 99, 97, 32, 32, 32, 32, 32, 32, 112, 111, 115, 116, 103, 114, 101, 115, 32, 32, 32, 32, 32, 49, 48, 48, 46, 56, 57, 46, 49, 56, 46, 49, 53, 47, 51, 50, 32, 32, 32, 32, 32, 32, 32, 32, 109, 100, 53],
     [104, 111, 115, 116, 115, 115, 108, 32, 32, 32, 32, 112, 111, 115, 116, 103, 114, 101, 115, 32, 32, 32, 32, 32, 111, 114, 99, 97, 32, 32, 32, 32, 32, 32, 32, 32, 32, 49, 48, 48, 46, 56, 57, 46, 49, 56, 46, 49, 53, 47, 51, 50, 32, 32, 32, 32, 32, 32, 32, 32, 109, 100, 53],
     [104, 111, 115, 116, 32, 32, 32, 32, 32, 32, 32, 112, 111, 115, 116, 103, 114, 101, 115, 32, 32, 32, 32, 32, 111, 114, 99, 97, 32, 32, 32, 32, 32, 32, 32, 32, 32, 49, 48, 48, 46, 56, 57, 46, 49, 56, 46, 49, 53, 47, 51, 50, 32, 32, 32, 32, 32, 32, 32, 32, 109, 100, 53],
     [104, 111, 115, 116, 115, 115, 108, 32, 32, 32, 32, 112, 111, 115, 116, 103, 114, 101, 115, 32, 32, 32, 32, 32, 114, 101, 99, 101, 105, 112, 116, 32, 32, 32, 32, 32, 32, 49, 48, 48, 46, 56, 57, 46, 49, 56, 46, 49, 53, 47, 51, 50, 32, 32, 32, 32, 32, 32, 32, 32, 109, 100, 53],
     [104, 111, 115, 116, 32, 32, 32, 32, 32, 32, 32, 112, 111, 115, 116, 103, 114, 101, 115, 32, 32, 32, 32, 32, 114, 101, 99, 101, 105, 112, 116, 32, 32, 32, 32, 32, 32, 49, 48, 48, 46, 56, 57, 46, 49, 56, 46, 49, 53, 47, 51, 50, 32, 32, 32, 32, 32, 32, 32, 32, 109, 100, 53],
     [104, 111, 115, 116, 115, 115, 108, 32, 32, 32, 32, 112, 111, 115, 116, 103, 114, 101, 115, 32, 32, 32, 32, 32, 119, 101, 98, 111, 114, 99, 97, 32, 32, 32, 32, 32, 32, 49, 48, 48, 46, 56, 57, 46, 49, 56, 46, 49, 53, 47, 51, 50, 32, 32, 32, 32, 32, 32, 32, 32, 109, 100, 53],
     [104, 111, 115, 116, 32, 32, 32, 32, 32, 32, 32, 112, 111, 115, 116, 103, 114, 101, 115, 32, 32, 32, 32, 32, 119, 101, 98, 111, 114, 99, 97, 32, 32, 32, 32, 32, 32, 49, 48, 48, 46, 56, 57, 46, 49, 56, 46, 49, 53, 47, 51, 50, 32, 32, 32, 32, 32, 32, 32, 32, 109, 100, 53],
     [104, 111, 115, 116, 115, 115, 108, 32, 32, 32, 32, 112, 111, 115, 116, 103, 114, 101, 115, 32, 32, 32, 32, 32, 112, 111, 115, 116, 103, 114, 101, 115, 32, 32, 32, 32, 32, 49, 48, 48, 46, 56, 57, 46, 49, 56, 46, 49, 53, 47, 51, 50, 32, 32, 32, 32, 32, 32, 32, 32, 109, 100, 53],
     [104, 111, 115, 116, 32, 32, 32, 32, 32, 32, 32, 112, 111, 115, 116, 103, 114, 101, 115, 32, 32, 32, 32, 32, 112, 111, 115, 116, 103, 114, 101, 115, 32, 32, 32, 32, 32, 49, 48, 48, 46, 56, 57, 46, 49, 56, 46, 49, 53, 47, 51, 50, 32, 32, 32, 32, 32, 32, 32, 32, 109, 100, 53],
     [],
     [35, 32, 65, 102, 116, 101, 114, 32, 97, 100, 100, 105, 110, 103, 32, 116, 104, 101, 115, 101, 32, 108, 105, 110, 101, 115, 58],
     [35, 32, 49, 46, 32, 83, 97, 118, 101, 32, 116, 104, 101, 32, 112, 103, 95, 104, 98, 97, 46, 99, 111, 110, 102, 32, 102, 105, 108, 101],
     [35, 32, 50, 46, 32, 82, 101, 115, 116, 97, 114, 116, 32, 80, 111, 115, 116, 103, 114, 101, 83, 81, 76, 32, 111, 114, 32, 114, 117, 110, 58, 32, 83, 69, 76, 69, 67, 84, 32, 112, 103, 95, 114, 101, 108, 111, 97, 100, 95, 99, 111, 110, 102, 40, 41, 59],
     [35, 32, 51, 46, 32, 84, 101, 115, 116, 32, 116, 104, 101, 32, 99, 111, 110, 110, 101, 99, 116, 105, 111, 110, 32, 97, 103, 97, 105, 110]]"
  by (simp add: entries_def test_configs_def default_client_ip_def hostssl_line_def
      host_line_def fmt_left_def space_def ascii_def replicate_numeral_Cons)

lemma pg_hba_text:
  "pg_hba_config =
     [35, 32, 65, 100, 100, 32, 116, 104, 101, 115, 101, 32, 108, 105, 110, 101, 115, 32, 116,
     111, 32, 112, 103, 95, 104, 98, 97, 46, 99, 111, 110, 102, 32, 111, 110, 32, 116, 104, 101,
     32, 80, 111, 115, 116, 103, 114, 101, 83, 81, 76, 32, 115, 101, 114, 118, 101, 114, 10, 35,
     32, 40, 82, 101, 112, 108, 97, 99, 101, 32, 47, 51, 50, 32, 119, 105, 116, 104, 32, 97, 112,
     112, 114, 111, 112, 114, 105, 97, 116, 101, 32, 115, 117, 98, 110, 101, 116, 32, 105, 102,
     32, 110, 101, 101, 100, 101, 100, 41, 10, 10, 104, 111, 115, 116, 115, 115, 108, 32, 32, 32,
     32, 111, 114, 99, 97, 32, 32, 32, 32, 32, 32, 32, 32, 32, 111, 114, 99, 97, 32, 32, 32, 32,
     32, 32, 32, 32, 32, 49, 48, 48, 46, 56, 57, 46, 49, 56, 46, 49, 53, 47, 51, 50, 32, 32, 32,
     32, 32, 32, 32, 32, 109, 100, 53, 10, 104, 111, 115, 116, 32, 32, 32, 32, 32, 32, 32, 111,
     114, 99, 97, 32, 32, 32, 32, 32, 32, 32, 32, 32, 111, 114, 99, 97, 32, 32, 32, 32, 32, 32,
     32, 32, 32, 49, 48, 48, 46, 56, 57, 46, 49, 56, 46, 49, 53, 47, 51, 50, 32, 32, 32, 32, 32,
     32, 32, 32, 109, 100, 53, 10, 104, 111, 115, 116, 115, 115, 108, 32, 32, 32, 32, 111, 114,
     99, 97, 32, 32, 32, 32, 32, 32, 32, 32, 32, 114, 101, 99, 101, 105, 112, 116, 32, 32, 32,
     32, 32, 32, 49, 48, 48, 46, 56, 57, 46, 49, 56, 46, 49, 53, 47, 51, 50, 32, 32, 32, 32, 32,
     32, 32, 32, 109, 100, 53, 10, 104, 111, 115, 116, 32, 32, 32, 32, 32, 32, 32, 111, 114, 99,
     97, 32, 32, 32, 32, 32, 32, 32, 32, 32, 114, 101, 99, 101, 105, 112, 116, 32, 32, 32, 32,
     32, 32, 49, 48, 48, 46, 56, 57, 46, 49, 56, 46, 49, 53, 47, 51, 50, 32, 32, 32, 32, 32, 32,
     32, 32, 109, 100, 53, 10, 104, 111, 115, 116, 115, 115, 108, 32, 32, 32, 32, 111, 114, 99,
     97, 32, 32, 32, 32, 32, 32, 32, 32, 32, 119, 101, 98, 111, 114, 99, 97, 32, 32, 32, 32, 32,
     32, 49, 48, 48, 46, 56, 57, 46, 49, 56, 46, 49, 53, 47, 51, 50, 32, 32, 32, 32, 32, 32, 32,
     32, 109, 100, 53, 10, 104, 111, 115, 116, 32, 32, 32, 32, 32, 32, 32, 111, 114, 99, 97, 32,
     32, 32, 32, 32, 32, 32, 32, 32, 119, 101, 98, 111, 114, 99, 97, 32, 32, 32, 32, 32, 32, 49,
     48, 48, 46, 56, 57, 46, 49, 56, 46, 49, 53, 47, 51, 50, 32, 32, 32, 32, 32, 32, 32, 32, 109,
     100, 53, 10, 104, 111, 115, 116, 115, 115, 108, 32, 32, 32, 32, 111, 114, 99, 97, 32, 32,
     32, 32, 32, 32, 32, 32, 32, 112, 111, 115, 116, 103, 114, 101, 115, 32, 32, 32, 32, 32, 49,
     48, 48, 46, 56, 57, 46, 49, 56, 46, 49, 53, 47, 51, 50, 32, 32, 32, 32, 32, 32, 32, 32, 109,
     100, 53, 10, 104, 111, 115, 116, 32, 32, 32, 32, 32, 32, 32, 111, 114, 99, 97, 32, 32, 32,
     32, 32, 32, 32, 32, 32, 112, 111, 115, 116, 103, 114, 101, 115, 32, 32, 32, 32, 32, 49, 48,
     48, 46, 56, 57, 46, 49, 56, 46, 49, 53, 47, 51, 50, 32, 32, 32, 32, 32, 32, 32, 32, 109,
     100, 53, 10, 104, 111, 115, 116, 115, 115, 108, 32, 32, 32, 32, 114, 101, 99, 101, 105, 112,
     116, 32, 32, 32, 32, 32, 32, 111, 114, 99, 97, 32, 32, 32, 32, 32, 32, 32, 32, 32, 49, 48,
     48, 46, 56, 57, 46, 49, 56, 46, 49, 53, 47, 51, 50, 32, 32, 32, 32, 32, 32, 32, 32, 109,
     100, 53, 10, 104, 111, 115, 116, 32, 32, 32, 32, 32, 32, 32, 114, 101, 99, 101, 105, 112,
     116, 32, 32, 32, 32, 32, 32, 111, 114, 99, 97, 32, 32, 32, 32, 32, 32, 32, 32, 32, 49, 48,
     48, 46, 56, 57, 46, 49, 56, 46, 49, 53, 47, 51, 50, 32, 32, 32, 32, 32, 32, 32, 32, 109,
     100, 53, 10, 104, 111, 115, 116, 115, 115, 108, 32, 32, 32, 32, 114, 101, 99, 101, 105, 112,
     116, 32, 32, 32, 32, 32, 32, 114, 101, 99, 101, 105, 112, 116, 32, 32, 32, 32, 32, 32, 49,
     48, 48, 46, 56, 57, 46, 49, 56, 46, 49, 53, 47, 51, 50, 32, 32, 32, 32, 32, 32, 32, 32, 109,
     100, 53, 10, 104, 111, 115, 116, 32, 32, 32, 32, 32, 32, 32, 114, 101, 99, 101, 105, 112,
     116, 32, 32, 32, 32, 32, 32, 114, 101, 99, 101, 105, 112, 116, 32, 32, 32, 32, 32, 32, 49,
     48, 48, 46, 56, 57, 46, 49, 56, 46, 49, 53, 47, 51, 50, 32, 32, 32, 32, 32, 32, 32, 32, 109,
     100, 53, 10, 104, 111, 115, 116, 115, 115, 108, 32, 32, 32, 32, 114, 101, 99, 101, 105, 112,
     116, 32, 32, 32, 32, 32, 32, 119, 101, 98, 111, 114, 99, 97, 32, 32, 32, 32, 32, 32, 49, 48,
     48, 46, 56, 57, 46, 49, 56, 46, 49, 53, 47, 51, 50, 32, 32, 32, 32, 32, 32, 32, 32, 109,
     100, 53, 10, 104, 111, 115, 116, 32, 32, 32, 32, 32, 32, 32, 114, 101, 99, 101, 105, 112,
     116, 32, 32, 32, 32, 32, 32, 119, 101, 98, 111, 114, 99, 97, 32, 32, 32, 32, 32, 32, 49, 48,
     48, 46, 56, 57, 46, 49, 56, 46, 49, 53, 47, 51, 50, 32, 32, 32, 32, 32, 32, 32, 32, 109,
     100, 53, 10, 104, 111, 115, 116, 115, 115, 108, 32, 32, 32, 32, 114, 101, 99, 101, 105, 112,
     116, 32, 32, 32, 32, 32, 32, 112, 111, 115, 116, 103, 114, 101, 115, 32, 32, 32, 32, 32, 49,
     48, 48, 46, 56, 57, 46, 49, 56, 46, 49, 53, 47, 51, 50, 32, 32, 32, 32, 32, 32, 32, 32, 109,
     100, 53, 10, 104, 111, 115, 116, 32, 32, 32, 32, 32, 32, 32, 114, 101, 99, 101, 105, 112,
     116, 32, 32, 32, 32, 32, 32, 112, 111, 115, 116, 103, 114, 101, 115, 32, 32, 32, 32, 32, 49,
     48, 48, 46, 56, 57, 46, 49, 56, 46, 49, 53, 47, 51, 50, 32, 32, 32, 32, 32, 32, 32, 32, 109,
     100, 53, 10, 104, 111, 115, 116, 115, 115, 108, 32, 32, 32, 32, 119, 101, 98, 111, 114, 99,
     97, 32, 32, 32, 32, 32, 32, 111, 114, 99, 97, 32, 32, 32, 32, 32, 32, 32, 32, 32, 49, 48,
     48, 46, 56, 57, 46, 49, 56, 46, 49, 53, 47, 51, 50, 32, 32, 32, 32, 32, 32, 32, 32, 109,
     100, 53, 10, 104, 111, 115, 116, 32, 32, 32, 32, 32, 32, 32, 119, 101, 98, 111, 114, 99, 97,
     32, 32, 32, 32, 32, 32, 111, 114, 99, 97, 32, 32, 32, 32, 32, 32, 32, 32, 32, 49, 48, 48,
     46, 56, 57, 46, 49, 56, 46, 49, 53, 47, 51, 50, 32, 32, 32, 32, 32, 32, 32, 32, 109, 100,
     53, 10, 104, 111, 115, 116, 115, 115, 108, 32, 32, 32, 32, 119, 101, 98, 111, 114, 99, 97,
     32, 32, 32, 32, 32, 32, 114, 101, 99, 101, 105, 112, 116, 32, 32, 32, 32, 32, 32, 49, 48,
     48, 46, 56, 57, 46, 49, 56, 46, 49, 53, 47, 51, 50, 32, 32, 32, 32, 32, 32, 32, 32, 109,
     100, 53, 10, 104, 111, 115, 116, 32, 32, 32, 32, 32, 32, 32, 119, 101, 98, 111, 114, 99, 97,
     32, 32, 32, 32, 32, 32, 114, 101, 99, 101, 105, 112, 116, 32, 32, 32, 32, 32, 32, 49, 48,
     48, 46, 56, 57, 46, 49, 56, 46, 49, 53, 47, 51, 50, 32, 32, 32, 32, 32, 32, 32, 32, 109,
     100, 53, 10, 104, 111, 115, 116, 115, 115, 108, 32, 32, 32, 32, 119, 101, 98, 111, 114, 99,
     97, 32, 32, 32, 32, 32, 32, 119, 101, 98, 111, 114, 99, 97, 32, 32, 32, 32, 32, 32, 49, 48,
     48, 46, 56, 57, 46, 49, 56, 46, 49, 53, 47, 51, 50, 32, 32, 32, 32, 32, 32, 32, 32, 109,
     100, 53, 10, 104, 111, 115, 116, 32, 32, 32, 32, 32, 32, 32, 119, 101, 98, 111, 114, 99, 97,
     32, 32, 32, 32, 32, 32, 119, 101, 98, 111, 114, 99, 97, 32, 32, 32, 32, 32, 32, 49, 48, 48,
     46, 56, 57, 46, 49, 56, 46, 49, 53, 47, 51, 50, 32, 32, 32, 32, 32, 32, 32, 32, 109, 100,
     53, 10, 104, 111, 115, 116, 115, 115, 108, 32, 32, 32, 32, 119, 101, 98, 111, 114, 99, 97,
     32, 32, 32, 32, 32, 32, 112, 111, 115, 116, 103, 114, 101, 115, 32, 32, 32, 32, 32, 49, 48,
     48, 46, 56, 57, 46, 49, 56, 46, 49, 53, 47, 51, 50, 32, 32, 32, 32, 32, 32, 32, 32, 109,
     100, 53, 10, 104, 111, 115, 116, 32, 32, 32, 32, 32, 32, 32, 119, 101, 98, 111, 114, 99, 97,
     32, 32, 32, 32, 32, 32, 112, 111, 115, 116, 103, 114, 101, 115, 32, 32, 32, 32, 32, 49, 48,
     48, 46, 56, 57, 46, 49, 56, 46, 49, 53, 47, 51, 50, 32, 32, 32, 32, 32, 32, 32, 32, 109,
     100, 53, 10, 104, 111, 115, 116, 115, 115, 108, 32, 32, 32, 32, 112, 111, 115, 116, 103,
     114, 101, 115, 32, 32, 32, 32, 32, 111, 114, 99, 97, 32, 32, 32, 32, 32, 32, 32, 32, 32, 49,
     48, 48, 46, 56, 57, 46, 49, 56, 46, 49, 53, 47, 51, 50, 32, 32, 32, 32, 32, 32, 32, 32, 109,
     100, 53, 10, 104, 111, 115, 116, 32, 32, 32, 32, 32, 32, 32, 112, 111, 115, 116, 103, 114,
     101, 115, 32, 32, 32, 32, 32, 111, 114, 99, 97, 32, 32, 32, 32, 32, 32, 32, 32, 32, 49, 48,
     48, 46, 56, 57, 46, 49, 56, 46, 49, 53, 47, 51, 50, 32, 32, 32, 32, 32, 32, 32, 32, 109,
     100, 53, 10, 104, 111, 115, 116, 115, 115, 108, 32, 32, 32, 32, 112, 111, 115, 116, 103,
     114, 101, 115, 32, 32, 32, 32, 32, 114, 101, 99, 101, 105, 112, 116, 32, 32, 32, 32, 32, 32,
     49, 48, 48, 46, 56, 57, 46, 49, 56, 46, 49, 53, 47, 51, 50, 32, 32, 32, 32, 32, 32, 32, 32,
     109, 100, 53, 10, 104, 111, 115, 116, 32, 32, 32, 32, 32, 32, 32, 112, 111, 115, 116, 103,
     114, 101, 115, 32, 32, 32, 32, 32, 114, 101, 99, 101, 105, 112, 116, 32, 32, 32, 32, 32, 32,
     49, 48, 48, 46, 56, 57, 46, 49, 56, 46, 49, 53, 47, 51, 50, 32, 32, 32, 32, 32, 32, 32, 32,
     109, 100, 53, 10, 104, 111, 115, 116, 115, 115, 108, 32, 32, 32, 32, 112, 111, 115, 116,
     103, 114, 101, 115, 32, 32, 32, 32, 32, 119, 101, 98, 111, 114, 99, 97, 32, 32, 32, 32, 32,
     32, 49, 48, 48, 46, 56, 57, 46, 49, 56, 46, 49, 53, 47, 51, 50, 32, 32, 32, 32, 32, 32, 32,
     32, 109, 100, 53, 10, 104, 111, 115, 116, 32, 32, 32, 32, 32, 32, 32, 112, 111, 115, 116,
     103, 114, 101, 115, 32, 32, 32, 32, 32, 119, 101, 98, 111, 114, 99, 97, 32, 32, 32, 32, 32,
     32, 49, 48, 48, 46, 56, 57, 46, 49, 56, 46, 49, 53, 47, 51, 50, 32, 32, 32, 32, 32, 32, 32,
     32, 109, 100, 53, 10, 104, 111, 115, 116, 115, 115, 108, 32, 32, 32, 32, 112, 111, 115, 116,
     103, 114, 101, 115, 32, 32, 32, 32, 32, 112, 111, 115, 116, 103, 114, 101, 115, 32, 32, 32,
     32, 32, 49, 48, 48, 46, 56, 57, 46, 49, 56, 46, 49, 53, 47, 51, 50, 32, 32, 32, 32, 32, 32,
     32, 32, 109, 100, 53, 10, 104, 111, 115, 116, 32, 32, 32, 32, 32, 32, 32, 112, 111, 115,
     116, 103, 114, 101, 115, 32, 32, 32, 32, 32, 112, 111, 115, 116, 103, 114, 101, 115, 32, 32,
     32, 32, 32, 49, 48, 48, 46, 56, 57, 46, 49, 56, 46, 49, 53, 47, 51, 50, 32, 32, 32, 32, 32,
     32, 32, 32, 109, 100, 53, 10, 10, 35, 32, 65, 102, 116, 101, 114, 32, 97, 100, 100, 105,
     110, 103, 32, 116, 104, 101, 115, 101, 32, 108, 105, 110, 101, 115, 58, 10, 35, 32, 49, 46,
     32, 83, 97, 118, 101, 32, 116, 104, 101, 32, 112, 103, 95, 104, 98, 97, 46, 99, 111, 110,
     102, 32, 102, 105, 108, 101, 10, 35, 32, 50, 46, 32, 82, 101, 115, 116, 97, 114, 116, 32,
     80, 111, 115, 116, 103, 114, 101, 83, 81, 76, 32, 111, 114, 32, 114, 117, 110, 58, 32, 83,
     69, 76, 69, 67, 84, 32, 112, 103, 95, 114, 101, 108, 111, 97, 100, 95, 99, 111, 110, 102,
     40, 41, 59, 10, 35, 32, 51, 46, 32, 84, 101, 115, 116, 32, 116, 104, 101, 32, 99, 111, 110,
     110, 101, 99, 116, 105, 111, 110, 32, 97, 103, 97, 105, 110]"
  unfolding pg_hba_config_def generate_pg_hba_entries_def pg_hba_lines
  by simp

lemma alternative_solutions_text:
  "alternative_solutions =
    [[10, 61, 61, 61, 61, 61, 61, 61, 61, 61, 61, 61, 61, 61, 61, 61, 61, 61, 61, 61, 61, 61, 61,
      61, 61, 61, 61, 61, 61, 61, 61, 61, 61, 61, 61, 61, 61, 61, 61, 61, 61, 61, 61, 61, 61, 61,
      61, 61, 61, 61, 61, 61, 61, 61, 61, 61, 61, 61, 61, 61, 61],
     [65, 76, 84, 69, 82, 78, 65, 84, 73, 86, 69, 32, 83, 79, 76, 85, 84, 73, 79, 78, 83],
     [61, 61, 61, 61, 61, 61, 61, 61, 61, 61, 61, 61, 61, 61, 61, 61, 61, 61, 61, 61, 61, 61, 61,
      61, 61, 61, 61, 61, 61, 61, 61, 61, 61, 61, 61, 61, 61, 61, 61, 61, 61, 61, 61, 61, 61, 61,
      61, 61, 61, 61, 61, 61, 61, 61, 61, 61, 61, 61, 61, 61],
     [49, 46, 32, 86, 80, 78, 47, 84, 117, 110, 110, 101, 108, 58, 32, 67, 111, 110, 110, 101,
      99, 116, 32, 116, 104, 114, 111, 117, 103, 104, 32, 97, 32, 86, 80, 78, 32, 116, 104, 97,
      116, 32, 114, 111, 117, 116, 101, 115, 32, 116, 104, 114, 111, 117, 103, 104, 32, 97, 110,
      32, 97, 108, 108, 111, 119, 101, 100, 32, 73, 80],
     [50, 46, 32, 83, 83, 72, 32, 84, 117, 110, 110, 101, 108, 58, 32, 67, 114, 101, 97, 116,
      101, 32, 97, 110, 32, 83, 83, 72, 32, 116, 117, 110, 110, 101, 108, 32, 116, 111, 32, 116,
      104, 101, 32, 100, 97, 116, 97, 98, 97, 115, 101, 32, 115, 101, 114, 118, 101, 114],
     [32, 32, 32, 69, 120, 97, 109, 112, 108, 101, 58, 32, 115, 115, 104, 32, 45, 76, 32, 53, 52,
      51, 50, 58, 108, 111, 99, 97, 108, 104, 111, 115, 116, 58, 53, 52, 51, 50, 32, 117, 115,
      101, 114, 64, 49, 48, 48, 46, 49, 50, 54, 46, 54, 54, 46, 57, 55],
     [32, 32, 32, 84, 104, 101, 110, 32, 99, 111, 110, 110, 101, 99, 116, 32, 116, 111, 32, 108,
      111, 99, 97, 108, 104, 111, 115, 116, 58, 53, 52, 51, 50, 32, 105, 110, 115, 116, 101, 97,
      100],
     [51, 46, 32, 80, 114, 111, 120, 121, 58, 32, 85, 115, 101, 32, 97, 32, 100, 97, 116, 97, 98,
      97, 115, 101, 32, 112, 114, 111, 120, 121, 32, 115, 101, 114, 118, 101, 114, 32, 108, 111,
      99, 97, 116, 101, 100, 32, 105, 110, 32, 97, 110, 32, 97, 108, 108, 111, 119, 101, 100, 32,
      110, 101, 116, 119, 111, 114, 107],
     [10, 52, 46, 32, 82, 101, 113, 117, 101, 115, 116, 32, 102, 105, 114, 101, 119, 97, 108,
      108, 47, 110, 101, 116, 119, 111, 114, 107, 32, 99, 104, 97, 110, 103, 101, 115, 32, 116,
      111, 32, 97, 108, 108, 111, 119, 32, 121, 111, 117, 114, 32, 73, 80, 58],
     [32, 32, 32, 89, 111, 117, 114, 32, 73, 80, 58, 32, 49, 48, 48, 46, 56, 57, 46, 49, 56, 46,
      49, 53],
     [32, 32, 32, 84, 97, 114, 103, 101, 116, 58, 32, 49, 48, 48, 46, 49, 50, 54, 46, 54, 54, 46,
      57, 55, 58, 53, 52, 51, 50]]"
  by (simp add: alternative_solutions_def rule60_def ascii_def replicate_numeral_Cons)

lemma comment_lines_text:
  "entries [] [] ip =
    [[35, 32, 65, 100, 100, 32, 116, 104, 101, 115, 101, 32, 108, 105, 110, 101, 115, 32, 116, 111, 32, 112, 103, 95, 104, 98, 97, 46, 99, 111, 110, 102, 32, 111, 110, 32, 116, 104, 101, 32, 80, 111, 115, 116, 103, 114, 101, 83, 81, 76, 32, 115, 101, 114, 118, 101, 114],
     [35, 32, 40, 82, 101, 112, 108, 97, 99, 101, 32, 47, 51, 50, 32, 119, 105, 116, 104, 32, 97, 112, 112, 114, 111, 112, 114, 105, 97, 116, 101, 32, 115, 117, 98, 110, 101, 116, 32, 105, 102, 32, 110, 101, 101, 100, 101, 100, 41],
     [],
     [],
     [35, 32, 65, 102, 116, 101, 114, 32, 97, 100, 100, 105, 110, 103, 32, 116, 104, 101, 115, 101, 32, 108, 105, 110, 101, 115, 58],
     [35, 32, 49, 46, 32, 83, 97, 118, 101, 32, 116, 104, 101, 32, 112, 103, 95, 104, 98, 97, 46, 99, 111, 110, 102, 32, 102, 105, 108, 101],
     [35, 32, 50, 46, 32, 82, 101, 115, 116, 97, 114, 116, 32, 80, 111, 115, 116, 103, 114, 101, 83, 81, 76, 32, 111, 114, 32, 114, 117, 110, 58, 32, 83, 69, 76, 69, 67, 84, 32, 112, 103, 95, 114, 101, 108, 111, 97, 100, 95, 99, 111, 110, 102, 40, 41, 59],
     [35, 32, 51, 46, 32, 84, 101, 115, 116, 32, 116, 104, 101, 32, 99, 111, 110, 110, 101, 99, 116, 105, 111, 110, 32, 97, 103, 97, 105, 110]]"
  by (simp add: entries_def ascii_def)

lemma rule_lines_text:
  "hostssl_line d u [49, 48, 48, 46, 56, 57, 46, 49, 56, 46, 49, 53]
     = [104, 111, 115, 116, 115, 115, 108, 32, 32, 32, 32] @ d @ replicate (12 - length d) 32 @ [32] @ u
       @ replicate (12 - length u) 32 @ [32, 49, 48, 48, 46, 56, 57, 46, 49, 56, 46, 49, 53, 47, 51, 50, 32, 32, 32, 32, 32, 32, 32, 32, 109, 100, 53]
   \<and> host_line d u [49, 48, 48, 46, 56, 57, 46, 49, 56, 46, 49, 53]
     = [104, 111, 115, 116, 32, 32, 32, 32, 32, 32, 32] @ d @ replicate (12 - length d) 32 @ [32] @ u
       @ replicate (12 - length u) 32 @ [32, 49, 48, 48, 46, 56, 57, 46, 49, 56, 46, 49, 53, 47, 51, 50, 32, 32, 32, 32, 32, 32, 32, 32, 109, 100, 53]"
  by (simp add: hostssl_line_def host_line_def fmt_left_def space_def ascii_def)

text \<open>
  Claim C3, as the code has it. The tool prints the generated \<open>pg_hba.conf\<close> text
  exactly when every SSL mode of every credential set fails with a driver error, and
  then the text is followed by the eleven lines of alternative workarounds (VPN or SSH
  tunnel, proxy, request for a firewall change), which end the output. The text is
  given in full by its code points: three comment lines, the rules, five comment lines.
  The rules are, for every database of the list \<open>orca\<close>, \<open>receipt\<close>, \<open>weborca\<close>,
  \<open>postgres\<close> with every user of the same list, a \<open>hostssl\<close> and a \<open>host\<close> line with
  the database and the user padded to twelve characters, the caller's address
  \<open>100.89.18.15/32\<close> and the method \<open>md5\<close>. So there are rules for all sixteen
  combinations, the four tried pairs among them.
\<close>

theorem pg_hba_suggestion:
  fixes server_reply :: server and d u :: ustr
  shows "(Print pg_hba_config \<in> set (fst (main server_reply))) = all_fail server_reply
       \<and> (all_fail server_reply \<longrightarrow>
            (\<exists>pre. fst (main server_reply)
                     = pre @ Print pg_hba_config # map Print
    [[10, 61, 61, 61, 61, 61, 61, 61, 61, 61, 61, 61, 61, 61, 61, 61, 61, 61, 61, 61, 61, 61, 61,
      61, 61, 61, 61, 61, 61, 61, 61, 61, 61, 61, 61, 61, 61, 61, 61, 61, 61, 61, 61, 61, 61, 61,
      61, 61, 61, 61, 61, 61, 61, 61, 61, 61, 61, 61, 61, 61, 61],
     [65, 76, 84, 69, 82, 78, 65, 84, 73, 86, 69, 32, 83, 79, 76, 85, 84, 73, 79, 78, 83],
     [61, 61, 61, 61, 61, 61, 61, 61, 61, 61, 61, 61, 61, 61, 61, 61, 61, 61, 61, 61, 61, 61, 61,
      61, 61, 61, 61, 61, 61, 61, 61, 61, 61, 61, 61, 61, 61, 61, 61, 61, 61, 61, 61, 61, 61, 61,
      61, 61, 61, 61, 61, 61, 61, 61, 61, 61, 61, 61, 61, 61],
     [49, 46, 32, 86, 80, 78, 47, 84, 117, 110, 110, 101, 108, 58, 32, 67, 111, 110, 110, 101,
      99, 116, 32, 116, 104, 114, 111, 117, 103, 104, 32, 97, 32, 86, 80, 78, 32, 116, 104, 97,
      116, 32, 114, 111, 117, 116, 101, 115, 32, 116, 104, 114, 111, 117, 103, 104, 32, 97, 110,
      32, 97, 108, 108, 111, 119, 101, 100, 32, 73, 80],
     [50, 46, 32, 83, 83, 72, 32, 84, 117, 110, 110, 101, 108, 58, 32, 67, 114, 101, 97, 116,
      101, 32, 97, 110, 32, 83, 83, 72, 32, 116, 117, 110, 110, 101, 108, 32, 116, 111, 32, 116,
      104, 101, 32, 100, 97, 116, 97, 98, 97, 115, 101, 32, 115, 101, 114, 118, 101, 114],
     [32, 32, 32, 69, 120, 97, 109, 112, 108, 101, 58, 32, 115, 115, 104, 32, 45, 76, 32, 53, 52,
      51, 50, 58, 108, 111, 99, 97, 108, 104, 111, 115, 116, 58, 53, 52, 51, 50, 32, 117, 115,
      101, 114, 64, 49, 48, 48, 46, 49, 50, 54, 46, 54, 54, 46, 57, 55],
     [32, 32, 32, 84, 104, 101, 110, 32, 99, 111, 110, 110, 101, 99, 116, 32, 116, 111, 32, 108,
      111, 99, 97, 108, 104, 111, 115, 116, 58, 53, 52, 51, 50, 32, 105, 110, 115, 116, 101, 97,
      100],
     [51, 46, 32, 80, 114, 111, 120, 121, 58, 32, 85, 115, 101, 32, 97, 32, 100, 97, 116, 97, 98,
      97, 115, 101, 32, 112, 114, 111, 120, 121, 32, 115, 101, 114, 118, 101, 114, 32, 108, 111,
      99, 97, 116, 101, 100, 32, 105, 110, 32, 97, 110, 32, 97, 108, 108, 111, 119, 101, 100, 32,
      110, 101, 116, 119, 111, 114, 107],
     [10, 52, 46, 32, 82, 101, 113, 117, 101, 115, 116, 32, 102, 105, 114, 101, 119, 97, 108,
      108, 47, 110, 101, 116, 119, 111, 114, 107, 32, 99, 104, 97, 110, 103, 101, 115, 32, 116,
      111, 32, 97, 108, 108, 111, 119, 32, 121, 111, 117, 114, 32, 73, 80, 58],
     [32, 32, 32, 89, 111, 117, 114, 32, 73, 80, 58, 32, 49, 48, 48, 46, 56, 57, 46, 49, 56, 46,
      49, 53],
     [32, 32, 32, 84, 97, 114, 103, 101, 116, 58, 32, 49, 48, 48, 46, 49, 50, 54, 46, 54, 54, 46,
      57, 55, 58, 53, 52, 51, 50]]))
       \<and> pg_hba_config =
     [35, 32, 65, 100, 100, 32, 116, 104, 101, 115, 101, 32, 108, 105, 110, 101, 115, 32, 116,
     111, 32, 112, 103, 95, 104, 98, 97, 46, 99, 111, 110, 102, 32, 111, 110, 32, 116, 104, 101,
     32, 80, 111, 115, 116, 103, 114, 101, 83, 81, 76, 32, 115, 101, 114, 118, 101, 114, 10, 35,
     32, 40, 82, 101, 112, 108, 97, 99, 101, 32, 47, 51, 50, 32, 119, 105, 116, 104, 32, 97, 112,
     112, 114, 111, 112, 114, 105, 97, 116, 101, 32, 115, 117, 98, 110, 101, 116, 32, 105, 102,
     32, 110, 101, 101, 100, 101, 100, 41, 10, 10, 104, 111, 115, 116, 115, 115, 108, 32, 32, 32,
     32, 111, 114, 99, 97, 32, 32, 32, 32, 32, 32, 32, 32, 32, 111, 114, 99, 97, 32, 32, 32, 32,
     32, 32, 32, 32, 32, 49, 48, 48, 46, 56, 57, 46, 49, 56, 46, 49, 53, 47, 51, 50, 32, 32, 32,
     32, 32, 32, 32, 32, 109, 100, 53, 10, 104, 111, 115, 116, 32, 32, 32, 32, 32, 32, 32, 111,
     114, 99, 97, 32, 32, 32, 32, 32, 32, 32, 32, 32, 111, 114, 99, 97, 32, 32, 32, 32, 32, 32,
     32, 32, 32, 49, 48, 48, 46, 56, 57, 46, 49, 56, 46, 49, 53, 47, 51, 50, 32, 32, 32, 32, 32,
     32, 32, 32, 109, 100, 53, 10, 104, 111, 115, 116, 115, 115, 108, 32, 32, 32, 32, 111, 114,
     99, 97, 32, 32, 32, 32, 32, 32, 32, 32, 32, 114, 101, 99, 101, 105, 112, 116, 32, 32, 32,
     32, 32, 32, 49, 48, 48, 46, 56, 57, 46, 49, 56, 46, 49, 53, 47, 51, 50, 32, 32, 32, 32, 32,
     32, 32, 32, 109, 100, 53, 10, 104, 111, 115, 116, 32, 32, 32, 32, 32, 32, 32, 111, 114, 99,
     97, 32, 32, 32, 32, 32, 32, 32, 32, 32, 114, 101, 99, 101, 105, 112, 116, 32, 32, 32, 32,
     32, 32, 49, 48, 48, 46, 56, 57, 46, 49, 56, 46, 49, 53, 47, 51, 50, 32, 32, 32, 32, 32, 32,
     32, 32, 109, 100, 53, 10, 104, 111, 115, 116, 115, 115, 108, 32, 32, 32, 32, 111, 114, 99,
     97, 32, 32, 32, 32, 32, 32, 32, 32, 32, 119, 101, 98, 111, 114, 99, 97, 32, 32, 32, 32, 32,
     32, 49, 48, 48, 46, 56, 57, 46, 49, 56, 46, 49, 53, 47, 51, 50, 32, 32, 32, 32, 32, 32, 32,
     32, 109, 100, 53, 10, 104, 111, 115, 116, 32, 32, 32, 32, 32, 32, 32, 111, 114, 99, 97, 32,
     32, 32, 32, 32, 32, 32, 32, 32, 119, 101, 98, 111, 114, 99, 97, 32, 32, 32, 32, 32, 32, 49,
     48, 48, 46, 56, 57, 46, 49, 56, 46, 49, 53, 47, 51, 50, 32, 32, 32, 32, 32, 32, 32, 32, 109,
     100, 53, 10, 104, 111, 115, 116, 115, 115, 108, 32, 32, 32, 32, 111, 114, 99, 97, 32, 32,
     32, 32, 32, 32, 32, 32, 32, 112, 111, 115, 116, 103, 114, 101, 115, 32, 32, 32, 32, 32, 49,
     48, 48, 46, 56, 57, 46, 49, 56, 46, 49, 53, 47, 51, 50, 32, 32, 32, 32, 32, 32, 32, 32, 109,
     100, 53, 10, 104, 111, 115, 116, 32, 32, 32, 32, 32, 32, 32, 111, 114, 99, 97, 32, 32, 32,
     32, 32, 32, 32, 32, 32, 112, 111, 115, 116, 103, 114, 101, 115, 32, 32, 32, 32, 32, 49, 48,
     48, 46, 56, 57, 46, 49, 56, 46, 49, 53, 47, 51, 50, 32, 32, 32, 32, 32, 32, 32, 32, 109,
     100, 53, 10, 104, 111, 115, 116, 115, 115, 108, 32, 32, 32, 32, 114, 101, 99, 101, 105, 112,
     116, 32, 32, 32, 32, 32, 32, 111, 114, 99, 97, 32, 32, 32, 32, 32, 32, 32, 32, 32, 49, 48,
     48, 46, 56, 57, 46, 49, 56, 46, 49, 53, 47, 51, 50, 32, 32, 32, 32, 32, 32, 32, 32, 109,
     100, 53, 10, 104, 111, 115, 116, 32, 32, 32, 32, 32, 32, 32, 114, 101, 99, 101, 105, 112,
     116, 32, 32, 32, 32, 32, 32, 111, 114, 99, 97, 32, 32, 32, 32, 32, 32, 32, 32, 32, 49, 48,
     48, 46, 56, 57, 46, 49, 56, 46, 49, 53, 47, 51, 50, 32, 32, 32, 32, 32, 32, 32, 32, 109,
     100, 53, 10, 104, 111, 115, 116, 115, 115, 108, 32, 32, 32, 32, 114, 101, 99, 101, 105, 112,
     116, 32, 32, 32, 32, 32, 32, 114, 101, 99, 101, 105, 112, 116, 32, 32, 32, 32, 32, 32, 49,
     48, 48, 46, 56, 57, 46, 49, 56, 46, 49, 53, 47, 51, 50, 32, 32, 32, 32, 32, 32, 32, 32, 109,
     100, 53, 10, 104, 111, 115, 116, 32, 32, 32, 32, 32, 32, 32, 114, 101, 99, 101, 105, 112,
     116, 32, 32, 32, 32, 32, 32, 114, 101, 99, 101, 105, 112, 116, 32, 32, 32, 32, 32, 32, 49,
     48, 48, 46, 56, 57, 46, 49, 56, 46, 49, 53, 47, 51, 50, 32, 32, 32, 32, 32, 32, 32, 32, 109,
     100, 53, 10, 104, 111, 115, 116, 115, 115, 108, 32, 32, 32, 32, 114, 101, 99, 101, 105, 112,
     116, 32, 32, 32, 32, 32, 32, 119, 101, 98, 111, 114, 99, 97, 32, 32, 32, 32, 32, 32, 49, 48,
     48, 46, 56, 57, 46, 49, 56, 46, 49, 53, 47, 51, 50, 32, 32, 32, 32, 32, 32, 32, 32, 109,
     100, 53, 10, 104, 111, 115, 116, 32, 32, 32, 32, 32, 32, 32, 114, 101, 99, 101, 105, 112,
     116, 32, 32, 32, 32, 32, 32, 119, 101, 98, 111, 114, 99, 97, 32, 32, 32, 32, 32, 32, 49, 48,
     48, 46, 56, 57, 46, 49, 56, 46, 49, 53, 47, 51, 50, 32, 32, 32, 32, 32, 32, 32, 32, 109,
     100, 53, 10, 104, 111, 115, 116, 115, 115, 108, 32, 32, 32, 32, 114, 101, 99, 101, 105, 112,
     116, 32, 32, 32, 32, 32, 32, 112, 111, 115, 116, 103, 114, 101, 115, 32, 32, 32, 32, 32, 49,
     48, 48, 46, 56, 57, 46, 49, 56, 46, 49, 53, 47, 51, 50, 32, 32, 32, 32, 32, 32, 32, 32, 109,
     100, 53, 10, 104, 111, 115, 116, 32, 32, 32, 32, 32, 32, 32, 114, 101, 99, 101, 105, 112,
     116, 32, 32, 32, 32, 32, 32, 112, 111, 115, 116, 103, 114, 101, 115, 32, 32, 32, 32, 32, 49,
     48, 48, 46, 56, 57, 46, 49, 56, 46, 49, 53, 47, 51, 50, 32, 32, 32, 32, 32, 32, 32, 32, 109,
     100, 53, 10, 104, 111, 115, 116, 115, 115, 108, 32, 32, 32, 32, 119, 101, 98, 111, 114, 99,
     97, 32, 32, 32, 32, 32, 32, 111, 114, 99, 97, 32, 32, 32, 32, 32, 32, 32, 32, 32, 49, 48,
     48, 46, 56, 57, 46, 49, 56, 46, 49, 53, 47, 51, 50, 32, 32, 32, 32, 32, 32, 32, 32, 109,
     100, 53, 10, 104, 111, 115, 116, 32, 32, 32, 32, 32, 32, 32, 119, 101, 98, 111, 114, 99, 97,
     32, 32, 32, 32, 32, 32, 111, 114, 99, 97, 32, 32, 32, 32, 32, 32, 32, 32, 32, 49, 48, 48,
     46, 56, 57, 46, 49, 56, 46, 49, 53, 47, 51, 50, 32, 32, 32, 32, 32, 32, 32, 32, 109, 100,
     53, 10, 104, 111, 115, 116, 115, 115, 108, 32, 32, 32, 32, 119, 101, 98, 111, 114, 99, 97,
     32, 32, 32, 32, 32, 32, 114, 101, 99, 101, 105, 112, 116, 32, 32, 32, 32, 32, 32, 49, 48,
     48, 46, 56, 57, 46, 49, 56, 46, 49, 53, 47, 51, 50, 32, 32, 32, 32, 32, 32, 32, 32, 109,
     100, 53, 10, 104, 111, 115, 116, 32, 32, 32, 32, 32, 32, 32, 119, 101, 98, 111, 114, 99, 97,
     32, 32, 32, 32, 32, 32, 114, 101, 99, 101, 105, 112, 116, 32, 32, 32, 32, 32, 32, 49, 48,
     48, 46, 56, 57, 46, 49, 56, 46, 49, 53, 47, 51, 50, 32, 32, 32, 32, 32, 32, 32, 32, 109,
     100, 53, 10, 104, 111, 115, 116, 115, 115, 108, 32, 32, 32, 32, 119, 101, 98, 111, 114, 99,
     97, 32, 32, 32, 32, 32, 32, 119, 101, 98, 111, 114, 99, 97, 32, 32, 32, 32, 32, 32, 49, 48,
     48, 46, 56, 57, 46, 49, 56, 46, 49, 53, 47, 51, 50, 32, 32, 32, 32, 32, 32, 32, 32, 109,
     100, 53, 10, 104, 111, 115, 116, 32, 32, 32, 32, 32, 32, 32, 119, 101, 98, 111, 114, 99, 97,
     32, 32, 32, 32, 32, 32, 119, 101, 98, 111, 114, 99, 97, 32, 32, 32, 32, 32, 32, 49, 48, 48,
     46, 56, 57, 46, 49, 56, 46, 49, 53, 47, 51, 50, 32, 32, 32, 32, 32, 32, 32, 32, 109, 100,
     53, 10, 104, 111, 115, 116, 115, 115, 108, 32, 32, 32, 32, 119, 101, 98, 111, 114, 99, 97,
     32, 32, 32, 32, 32, 32, 112, 111, 115, 116, 103, 114, 101, 115, 32, 32, 32, 32, 32, 49, 48,
     48, 46, 56, 57, 46, 49, 56, 46, 49, 53, 47, 51, 50, 32, 32, 32, 32, 32, 32, 32, 32, 109,
     100, 53, 10, 104, 111, 115, 116, 32, 32, 32, 32, 32, 32, 32, 119, 101, 98, 111, 114, 99, 97,
     32, 32, 32, 32, 32, 32, 112, 111, 115, 116, 103, 114, 101, 115, 32, 32, 32, 32, 32, 49, 48,
     48, 46, 56, 57, 46, 49, 56, 46, 49, 53, 47, 51, 50, 32, 32, 32, 32, 32, 32, 32, 32, 109,
     100, 53, 10, 104, 111, 115, 116, 115, 115, 108, 32, 32, 32, 32, 112, 111, 115, 116, 103,
     114, 101, 115, 32, 32, 32, 32, 32, 111, 114, 99, 97, 32, 32, 32, 32, 32, 32, 32, 32, 32, 49,
     48, 48, 46, 56, 57, 46, 49, 56, 46, 49, 53, 47, 51, 50, 32, 32, 32, 32, 32, 32, 32, 32, 109,
     100, 53, 10, 104, 111, 115, 116, 32, 32, 32, 32, 32, 32, 32, 112, 111, 115, 116, 103, 114,
     101, 115, 32, 32, 32, 32, 32, 111, 114, 99, 97, 32, 32, 32, 32, 32, 32, 32, 32, 32, 49, 48,
     48, 46, 56, 57, 46, 49, 56, 46, 49, 53, 47, 51, 50, 32, 32, 32, 32, 32, 32, 32, 32, 109,
     100, 53, 10, 104, 111, 115, 116, 115, 115, 108, 32, 32, 32, 32, 112, 111, 115, 116, 103,
     114, 101, 115, 32, 32, 32, 32, 32, 114, 101, 99, 101, 105, 112, 116, 32, 32, 32, 32, 32, 32,
     49, 48, 48, 46, 56, 57, 46, 49, 56, 46, 49, 53, 47, 51, 50, 32, 32, 32, 32, 32, 32, 32, 32,
     109, 100, 53, 10, 104, 111, 115, 116, 32, 32, 32, 32, 32, 32, 32, 112, 111, 115, 116, 103,
     114, 101, 115, 32, 32, 32, 32, 32, 114, 101, 99, 101, 105, 112, 116, 32, 32, 32, 32, 32, 32,
     49, 48, 48, 46, 56, 57, 46, 49, 56, 46, 49, 53, 47, 51, 50, 32, 32, 32, 32, 32, 32, 32, 32,
     109, 100, 53, 10, 104, 111, 115, 116, 115, 115, 108, 32, 32, 32, 32, 112, 111, 115, 116,
     103, 114, 101, 115, 32, 32, 32, 32, 32, 119, 101, 98, 111, 114, 99, 97, 32, 32, 32, 32, 32,
     32, 49, 48, 48, 46, 56, 57, 46, 49, 56, 46, 49, 53, 47, 51, 50, 32, 32, 32, 32, 32, 32, 32,
     32, 109, 100, 53, 10, 104, 111, 115, 116, 32, 32, 32, 32, 32, 32, 32, 112, 111, 115, 116,
     103, 114, 101, 115, 32, 32, 32, 32, 32, 119, 101, 98, 111, 114, 99, 97, 32, 32, 32, 32, 32,
     32, 49, 48, 48, 46, 56, 57, 46, 49, 56, 46, 49, 53, 47, 51, 50, 32, 32, 32, 32, 32, 32, 32,
     32, 109, 100, 53, 10, 104, 111, 115, 116, 115, 115, 108, 32, 32, 32, 32, 112, 111, 115, 116,
     103, 114, 101, 115, 32, 32, 32, 32, 32, 112, 111, 115, 116, 103, 114, 101, 115, 32, 32, 32,
     32, 32, 49, 48, 48, 46, 56, 57, 46, 49, 56, 46, 49, 53, 47, 51, 50, 32, 32, 32, 32, 32, 32,
     32, 32, 109, 100, 53, 10, 104, 111, 115, 116, 32, 32, 32, 32, 32, 32, 32, 112, 111, 115,
     116, 103, 114, 101, 115, 32, 32, 32, 32, 32, 112, 111, 115, 116, 103, 114, 101, 115, 32, 32,
     32, 32, 32, 49, 48, 48, 46, 56, 57, 46, 49, 56, 46, 49, 53, 47, 51, 50, 32, 32, 32, 32, 32,
     32, 32, 32, 109, 100, 53, 10, 10, 35, 32, 65, 102, 116, 101, 114, 32, 97, 100, 100, 105,
     110, 103, 32, 116, 104, 101, 115, 101, 32, 108, 105, 110, 101, 115, 58, 10, 35, 32, 49, 46,
     32, 83, 97, 118, 101, 32, 116, 104, 101, 32, 112, 103, 95, 104, 98, 97, 46, 99, 111, 110,
     102, 32, 102, 105, 108, 101, 10, 35, 32, 50, 46, 32, 82, 101, 115, 116, 97, 114, 116, 32,
     80, 111, 115, 116, 103, 114, 101, 83, 81, 76, 32, 111, 114, 32, 114, 117, 110, 58, 32, 83,
     69, 76, 69, 67, 84, 32, 112, 103, 95, 114, 101, 108, 111, 97, 100, 95, 99, 111, 110, 102,
     40, 41, 59, 10, 35, 32, 51, 46, 32, 84, 101, 115, 116, 32, 116, 104, 101, 32, 99, 111, 110,
     110, 101, 99, 116, 105, 111, 110, 32, 97, 103, 97, 105, 110]
       \<and> pg_hba_config
           = join [10] (entries (map database test_configs) (map user test_configs) default_client_ip)
       \<and> map database test_configs = [[111, 114, 99, 97], [114, 101, 99, 101, 105, 112, 116], [119, 101, 98, 111, 114, 99, 97], [112, 111, 115, 116, 103, 114, 101, 115]]
       \<and> map user test_configs = [[111, 114, 99, 97], [114, 101, 99, 101, 105, 112, 116], [119, 101, 98, 111, 114, 99, 97], [112, 111, 115, 116, 103, 114, 101, 115]]
       \<and> default_client_ip = [49, 48, 48, 46, 56, 57, 46, 49, 56, 46, 49, 53]
       \<and> set (entries (map database test_configs) (map user test_configs) default_client_ip)
           = set
    [[35, 32, 65, 100, 100, 32, 116, 104, 101, 115, 101, 32, 108, 105, 110, 101, 115, 32, 116, 111, 32, 112, 103, 95, 104, 98, 97, 46, 99, 111, 110, 102, 32, 111, 110, 32, 116, 104, 101, 32, 80, 111, 115, 116, 103, 114, 101, 83, 81, 76, 32, 115, 101, 114, 118, 101, 114],
     [35, 32, 40, 82, 101, 112, 108, 97, 99, 101, 32, 47, 51, 50, 32, 119, 105, 116, 104, 32, 97, 112, 112, 114, 111, 112, 114, 105, 97, 116, 101, 32, 115, 117, 98, 110, 101, 116, 32, 105, 102, 32, 110, 101, 101, 100, 101, 100, 41],
     [],
     [],
     [35, 32, 65, 102, 116, 101, 114, 32, 97, 100, 100, 105, 110, 103, 32, 116, 104, 101, 115, 101, 32, 108, 105, 110, 101, 115, 58],
     [35, 32, 49, 46, 32, 83, 97, 118, 101, 32, 116, 104, 101, 32, 112, 103, 95, 104, 98, 97, 46, 99, 111, 110, 102, 32, 102, 105, 108, 101],
     [35, 32, 50, 46, 32, 82, 101, 115, 116, 97, 114, 116, 32, 80, 111, 115, 116, 103, 114, 101, 83, 81, 76, 32, 111, 114, 32, 114, 117, 110, 58, 32, 83, 69, 76, 69, 67, 84, 32, 112, 103, 95, 114, 101, 108, 111, 97, 100, 95, 99, 111, 110, 102, 40, 41, 59],
     [35, 32, 51, 46, 32, 84, 101, 115, 116, 32, 116, 104, 101, 32, 99, 111, 110, 110, 101, 99, 116, 105, 111, 110, 32, 97, 103, 97, 105, 110]]
             \<union> (\<Union>d \<in> set (map database test_configs). \<Union>u \<in> set (map user test_configs).
                  {hostssl_line d u default_client_ip, host_line d u default_client_ip})
       \<and> hostssl_line d u [49, 48, 48, 46, 56, 57, 46, 49, 56, 46, 49, 53]
           = [104, 111, 115, 116, 115, 115, 108, 32, 32, 32, 32] @ d @ replicate (12 - length d) 32 @ [32] @ u
             @ replicate (12 - length u) 32 @ [32, 49, 48, 48, 46, 56, 57, 46, 49, 56, 46, 49, 53, 47, 51, 50, 32, 32, 32, 32, 32, 32, 32, 32, 109, 100, 53]
       \<and> host_line d u [49, 48, 48, 46, 56, 57, 46, 49, 56, 46, 49, 53]
           = [104, 111, 115, 116, 32, 32, 32, 32, 32, 32, 32] @ d @ replicate (12 - length d) 32 @ [32] @ u
             @ replicate (12 - length u) 32 @ [32, 49, 48, 48, 46, 56, 57, 46, 49, 56, 46, 49, 53, 47, 51, 50, 32, 32, 32, 32, 32, 32, 32, 32, 109, 100, 53]"
proof -
  let ?T = "test_all_configs server_reply test_configs []"
  let ?title = "map Print [ascii ''PostgreSQL Connection Troubleshooting Tool'', rule60]"
  have fwd: "all_fail server_reply" if mem: "Print pg_hba_config \<in> set (fst (main server_reply))"
  proof -
    from mem no_hash_title [of "Print pg_hba_config"]
      no_hash_test_all_configs [of "Print pg_hba_config" server_reply test_configs "[]"]
      starts_hash_pg_hba_config
    obtain sc where sc: "snd ?T = Inr sc"
      and in_sum: "Print pg_hba_config \<in> set (map Print (summary_header
                       @ (if sc \<noteq> [] then summary_success sc else summary_failure)))"
      unfolding main_out by (cases "snd ?T") auto
    have "sc = []"
    proof (rule ccontr)
      assume "sc \<noteq> []"
      with in_sum have "Print pg_hba_config \<in> set (map Print summary_header)
          \<or> Print pg_hba_config \<in> set (map Print (summary_success sc))"
        by auto
      with no_hash_summary_header no_hash_summary_success starts_hash_pg_hba_config
      show False by blast
    qed
    with test_all_configs_result [OF sc] show ?thesis by (simp add: all_fail_def)
  qed
  have bwd0: "\<exists>pre. fst (main server_reply) = pre @ Print pg_hba_config # map Print alternative_solutions"
    if af: "all_fail server_reply"
  proof -
    from af have "snd ?T = Inr []"
      by (simp add: all_fail_def test_all_configs_all_fail)
    then have "fst (main server_reply)
        = ?title @ fst ?T @ map Print (summary_header @ summary_failure)"
      by (simp add: main_out)
    also have "\<dots> = (?title @ fst ?T @ map Print (summary_header @ take 7 summary_failure))
        @ Print pg_hba_config # map Print alternative_solutions"
      by (subst summary_failure_split) simp
    finally show ?thesis by blast
  qed
  from bwd0 have mem: "Print pg_hba_config \<in> set (fst (main server_reply))" if "all_fail server_reply"
    using that by auto
  have c1: "(Print pg_hba_config \<in> set (fst (main server_reply))) = all_fail server_reply"
    using fwd mem by blast
  have c2: "all_fail server_reply \<longrightarrow>
            (\<exists>pre. fst (main server_reply)
                     = pre @ Print pg_hba_config # map Print
    [[10, 61, 61, 61, 61, 61, 61, 61, 61, 61, 61, 61, 61, 61, 61, 61, 61, 61, 61, 61, 61, 61, 61,
      61, 61, 61, 61, 61, 61, 61, 61, 61, 61, 61, 61, 61, 61, 61, 61, 61, 61, 61, 61, 61, 61, 61,
      61, 61, 61, 61, 61, 61, 61, 61, 61, 61, 61, 61, 61, 61, 61],
     [65, 76, 84, 69, 82, 78, 65, 84, 73, 86, 69, 32, 83, 79, 76, 85, 84, 73, 79, 78, 83],
     [61, 61, 61, 61, 61, 61, 61, 61, 61, 61, 61, 61, 61, 61, 61, 61, 61, 61, 61, 61, 61, 61, 61,
      61, 61, 61, 61, 61, 61, 61, 61, 61, 61, 61, 61, 61, 61, 61, 61, 61, 61, 61, 61, 61, 61, 61,
      61, 61, 61, 61, 61, 61, 61, 61, 61, 61, 61, 61, 61, 61],
     [49, 46, 32, 86, 80, 78, 47, 84, 117, 110, 110, 101, 108, 58, 32, 67, 111, 110, 110, 101,
      99, 116, 32, 116, 104, 114, 111, 117, 103, 104, 32, 97, 32, 86, 80, 78, 32, 116, 104, 97,
      116, 32, 114, 111, 117, 116, 101, 115, 32, 116, 104, 114, 111, 117, 103, 104, 32, 97, 110,
      32, 97, 108, 108, 111, 119, 101, 100, 32, 73, 80],
     [50, 46, 32, 83, 83, 72, 32, 84, 117, 110, 110, 101, 108, 58, 32, 67, 114, 101, 97, 116,
      101, 32, 97, 110, 32, 83, 83, 72, 32, 116, 117, 110, 110, 101, 108, 32, 116, 111, 32, 116,
      104, 101, 32, 100, 97, 116, 97, 98, 97, 115, 101, 32, 115, 101, 114, 118, 101, 114],
     [32, 32, 32, 69, 120, 97, 109, 112, 108, 101, 58, 32, 115, 115, 104, 32, 45, 76, 32, 53, 52,
      51, 50, 58, 108, 111, 99, 97, 108, 104, 111, 115, 116, 58, 53, 52, 51, 50, 32, 117, 115,
      101, 114, 64, 49, 48, 48, 46, 49, 50, 54, 46, 54, 54, 46, 57, 55],
     [32, 32, 32, 84, 104, 101, 110, 32, 99, 111, 110, 110, 101, 99, 116, 32, 116, 111, 32, 108,
      111, 99, 97, 108, 104, 111, 115, 116, 58, 53, 52, 51, 50, 32, 105, 110, 115, 116, 101, 97,
      100],
     [51, 46, 32, 80, 114, 111, 120, 121, 58, 32, 85, 115, 101, 32, 97, 32, 100, 97, 116, 97, 98,
      97, 115, 101, 32, 112, 114, 111, 120, 121, 32, 115, 101, 114, 118, 101, 114, 32, 108, 111,
      99, 97, 116, 101, 100, 32, 105, 110, 32, 97, 110, 32, 97, 108, 108, 111, 119, 101, 100, 32,
      110, 101, 116, 119, 111, 114, 107],
     [10, 52, 46, 32, 82, 101, 113, 117, 101, 115, 116, 32, 102, 105, 114, 101, 119, 97, 108,
      108, 47, 110, 101, 116, 119, 111, 114, 107, 32, 99, 104, 97, 110, 103, 101, 115, 32, 116,
      111, 32, 97, 108, 108, 111, 119, 32, 121, 111, 117, 114, 32, 73, 80, 58],
     [32, 32, 32, 89, 111, 117, 114, 32, 73, 80, 58, 32, 49, 48, 48, 46, 56, 57, 46, 49, 56, 46,
      49, 53],
     [32, 32, 32, 84, 97, 114, 103, 101, 116, 58, 32, 49, 48, 48, 46, 49, 50, 54, 46, 54, 54, 46,
      57, 55, 58, 53, 52, 51, 50]])"
    using bwd0 unfolding alternative_solutions_text by blast
  have c3: "pg_hba_config
           = join [10] (entries (map database test_configs) (map user test_configs) default_client_ip)"
    by (simp add: pg_hba_config_def generate_pg_hba_entries_def)
  have c4: "map database test_configs = [[111, 114, 99, 97], [114, 101, 99, 101, 105, 112, 116], [119, 101, 98, 111, 114, 99, 97], [112, 111, 115, 116, 103, 114, 101, 115]]"
    by (simp add: test_configs_def ascii_def)
  have c5: "map user test_configs = [[111, 114, 99, 97], [114, 101, 99, 101, 105, 112, 116], [119, 101, 98, 111, 114, 99, 97], [112, 111, 115, 116, 103, 114, 101, 115]]"
    by (simp add: test_configs_def ascii_def)
  have c6: "default_client_ip = [49, 48, 48, 46, 56, 57, 46, 49, 56, 46, 49, 53]"
    by (simp add: default_client_ip_def ascii_def)
  have c7: "set (entries (map database test_configs) (map user test_configs) default_client_ip)
           = set
    [[35, 32, 65, 100, 100, 32, 116, 104, 101, 115, 101, 32, 108, 105, 110, 101, 115, 32, 116, 111, 32, 112, 103, 95, 104, 98, 97, 46, 99, 111, 110, 102, 32, 111, 110, 32, 116, 104, 101, 32, 80, 111, 115, 116, 103, 114, 101, 83, 81, 76, 32, 115, 101, 114, 118, 101, 114],
     [35, 32, 40, 82, 101, 112, 108, 97, 99, 101, 32, 47, 51, 50, 32, 119, 105, 116, 104, 32, 97, 112, 112, 114, 111, 112, 114, 105, 97, 116, 101, 32, 115, 117, 98, 110, 101, 116, 32, 105, 102, 32, 110, 101, 101, 100, 101, 100, 41],
     [],
     [],
     [35, 32, 65, 102, 116, 101, 114, 32, 97, 100, 100, 105, 110, 103, 32, 116, 104, 101, 115, 101, 32, 108, 105, 110, 101, 115, 58],
     [35, 32, 49, 46, 32, 83, 97, 118, 101, 32, 116, 104, 101, 32, 112, 103, 95, 104, 98, 97, 46, 99, 111, 110, 102, 32, 102, 105, 108, 101],
     [35, 32, 50, 46, 32, 82, 101, 115, 116, 97, 114, 116, 32, 80, 111, 115, 116, 103, 114, 101, 83, 81, 76, 32, 111, 114, 32, 114, 117, 110, 58, 32, 83, 69, 76, 69, 67, 84, 32, 112, 103, 95, 114, 101, 108, 111, 97, 100, 95, 99, 111, 110, 102, 40, 41, 59],
     [35, 32, 51, 46, 32, 84, 101, 115, 116, 32, 116, 104, 101, 32, 99, 111, 110, 110, 101, 99, 116, 105, 111, 110, 32, 97, 103, 97, 105, 110]]
             \<union> (\<Union>d \<in> set (map database test_configs). \<Union>u \<in> set (map user test_configs).
                  {hostssl_line d u default_client_ip, host_line d u default_client_ip})"
    by (subst set_entries) (simp only: comment_lines_text)
  from c1 c2 pg_hba_text c3 c4 c5 c6 c7 rule_lines_text [of d u] show ?thesis by blast
qed

text \<open>
  A server that refuses every connection for want of a \<open>pg_hba.conf\<close> entry: every
  credential set fails, and the output ends with the generated text and the workarounds.
\<close>

theorem pg_hba_suggestion_witness:
  "all_fail (\<lambda>cs. Inl (PyodbcError [70, 65, 84, 65, 76, 58, 32, 110, 111, 32, 112, 103, 95, 104, 98, 97, 46, 99, 111, 110, 102, 32, 101, 110, 116, 114, 121, 32, 102, 111, 114, 32, 104, 111, 115, 116]))
   \<and> Print pg_hba_config \<in> set (fst (main (\<lambda>cs. Inl (PyodbcError [70, 65, 84, 65, 76, 58, 32, 110, 111, 32, 112, 103, 95, 104, 98, 97, 46, 99, 111, 110, 102, 32, 101, 110, 116, 114, 121, 32, 102, 111, 114, 32, 104, 111, 115, 116]))))
   \<and> (\<exists>pre. fst (main (\<lambda>cs. Inl (PyodbcError [70, 65, 84, 65, 76, 58, 32, 110, 111, 32, 112, 103, 95, 104, 98, 97, 46, 99, 111, 110, 102, 32, 101, 110, 116, 114, 121, 32, 102, 111, 114, 32, 104, 111, 115, 116])))
              = pre @ Print pg_hba_config # map Print
    [[10, 61, 61, 61, 61, 61, 61, 61, 61, 61, 61, 61, 61, 61, 61, 61, 61, 61, 61, 61, 61, 61, 61,
      61, 61, 61, 61, 61, 61, 61, 61, 61, 61, 61, 61, 61, 61, 61, 61, 61, 61, 61, 61, 61, 61, 61,
      61, 61, 61, 61, 61, 61, 61, 61, 61, 61, 61, 61, 61, 61, 61],
     [65, 76, 84, 69, 82, 78, 65, 84, 73, 86, 69, 32, 83, 79, 76, 85, 84, 73, 79, 78, 83],
     [61, 61, 61, 61, 61, 61, 61, 61, 61, 61, 61, 61, 61, 61, 61, 61, 61, 61, 61, 61, 61, 61, 61,
      61, 61, 61, 61, 61, 61, 61, 61, 61, 61, 61, 61, 61, 61, 61, 61, 61, 61, 61, 61, 61, 61, 61,
      61, 61, 61, 61, 61, 61, 61, 61, 61, 61, 61, 61, 61, 61],
     [49, 46, 32, 86, 80, 78, 47, 84, 117, 110, 110, 101, 108, 58, 32, 67, 111, 110, 110, 101,
      99, 116, 32, 116, 104, 114, 111, 117, 103, 104, 32, 97, 32, 86, 80, 78, 32, 116, 104, 97,
      116, 32, 114, 111, 117, 116, 101, 115, 32, 116, 104, 114, 111, 117, 103, 104, 32, 97, 110,
      32, 97, 108, 108, 111, 119, 101, 100, 32, 73, 80],
     [50, 46, 32, 83, 83, 72, 32, 84, 117, 110, 110, 101, 108, 58, 32, 67, 114, 101, 97, 116,
      101, 32, 97, 110, 32, 83, 83, 72, 32, 116, 117, 110, 110, 101, 108, 32, 116, 111, 32, 116,
      104, 101, 32, 100, 97, 116, 97, 98, 97, 115, 101, 32, 115, 101, 114, 118, 101, 114],
     [32, 32, 32, 69, 120, 97, 109, 112, 108, 101, 58, 32, 115, 115, 104, 32, 45, 76, 32, 53, 52,
      51, 50, 58, 108, 111, 99, 97, 108, 104, 111, 115, 116, 58, 53, 52, 51, 50, 32, 117, 115,
      101, 114, 64, 49, 48, 48, 46, 49, 50, 54, 46, 54, 54, 46, 57, 55],
     [32, 32, 32, 84, 104, 101, 110, 32, 99, 111, 110, 110, 101, 99, 116, 32, 116, 111, 32, 108,
      111, 99, 97, 108, 104, 111, 115, 116, 58, 53, 52, 51, 50, 32, 105, 110, 115, 116, 101, 97,
      100],
     [51, 46, 32, 80, 114, 111, 120, 121, 58, 32, 85, 115, 101, 32, 97, 32, 100, 97, 116, 97, 98,
      97, 115, 101, 32, 112, 114, 111, 120, 121, 32, 115, 101, 114, 118, 101, 114, 32, 108, 111,
      99, 97, 116, 101, 100, 32, 105, 110, 32, 97, 110, 32, 97, 108, 108, 111, 119, 101, 100, 32,
      110, 101, 116, 119, 111, 114, 107],
     [10, 52, 46, 32, 82, 101, 113, 117, 101, 115, 116, 32, 102, 105, 114, 101, 119, 97, 108,
      108, 47, 110, 101, 116, 119, 111, 114, 107, 32, 99, 104, 97, 110, 103, 101, 115, 32, 116,
      111, 32, 97, 108, 108, 111, 119, 32, 121, 111, 117, 114, 32, 73, 80, 58],
     [32, 32, 32, 89, 111, 117, 114, 32, 73, 80, 58, 32, 49, 48, 48, 46, 56, 57, 46, 49, 56, 46,
      49, 53],
     [32, 32, 32, 84, 97, 114, 103, 101, 116, 58, 32, 49, 48, 48, 46, 49, 50, 54, 46, 54, 54, 46,
      57, 55, 58, 53, 52, 51, 50]])"
proof -
  have h: "all_fail (\<lambda>cs. Inl (PyodbcError [70, 65, 84, 65, 76, 58, 32, 110, 111, 32, 112, 103, 95, 104, 98, 97, 46, 99, 111, 110, 102, 32, 101, 110, 116, 114, 121, 32, 102, 111, 114, 32, 104, 111, 115, 116]))"
    by (simp add: all_fail_def all_modes_fail_def driver_failure_def test_configs_def
        mode_names_def)
  with pg_hba_suggestion [of "(\<lambda>cs. Inl (PyodbcError [70, 65, 84, 65, 76, 58, 32, 110, 111, 32, 112, 103, 95, 104, 98, 97, 46, 99, 111, 110, 102, 32, 101, 110, 116, 114, 121, 32, 102, 111, 114, 32, 104, 111, 115, 116]))"]
  show ?thesis by blast
qed

text \<open>
  Claim C3 as stated asks for rules exactly for the tried pairs. The generated lines hold
  the rule \<open>hostssl    orca         receipt      100.89.18.15/32        md5\<close>, for
  database \<open>orca\<close> with user \<open>receipt\<close>, a pair that is not among the four tried ones.
\<close>

theorem pg_hba_pairs_counterexample:
  "[104, 111, 115, 116, 115, 115, 108, 32, 32, 32, 32, 111, 114, 99, 97, 32, 32, 32, 32, 32, 32, 32, 32, 32, 114, 101, 99, 101, 105, 112, 116, 32, 32, 32, 32, 32, 32, 49, 48, 48, 46, 56, 57, 46, 49, 56, 46, 49, 53, 47, 51, 50, 32, 32, 32, 32, 32, 32, 32, 32, 109, 100, 53]
     \<in> set (entries (map database test_configs) (map user test_configs) default_client_ip)
   \<and> hostssl_line [111, 114, 99, 97] [114, 101, 99, 101, 105, 112, 116] default_client_ip
       = [104, 111, 115, 116, 115, 115, 108, 32, 32, 32, 32, 111, 114, 99, 97, 32, 32, 32, 32, 32, 32, 32, 32, 32, 114, 101, 99, 101, 105, 112, 116, 32, 32, 32, 32, 32, 32, 49, 48, 48, 46, 56, 57, 46, 49, 56, 46, 49, 53, 47, 51, 50, 32, 32, 32, 32, 32, 32, 32, 32, 109, 100, 53]
   \<and> zip (map database test_configs) (map user test_configs)
       = [([111, 114, 99, 97], [111, 114, 99, 97]), ([114, 101, 99, 101, 105, 112, 116], [114, 101, 99, 101, 105, 112, 116]), ([119, 101, 98, 111, 114, 99, 97], [119, 101, 98, 111, 114, 99, 97]),
          ([112, 111, 115, 116, 103, 114, 101, 115], [112, 111, 115, 116, 103, 114, 101, 115])]
   \<and> ([111, 114, 99, 97], [114, 101, 99, 101, 105, 112, 116])
       \<notin> set (zip (map database test_configs) (map user test_configs))"
proof -
  have a: "[104, 111, 115, 116, 115, 115, 108, 32, 32, 32, 32, 111, 114, 99, 97, 32, 32, 32, 32, 32, 32, 32, 32, 32, 114, 101, 99, 101, 105, 112, 116, 32, 32, 32, 32, 32, 32, 49, 48, 48, 46, 56, 57, 46, 49, 56, 46, 49, 53, 47, 51, 50, 32, 32, 32, 32, 32, 32, 32, 32, 109, 100, 53]
     \<in> set (entries (map database test_configs) (map user test_configs) default_client_ip)"
    unfolding pg_hba_lines by simp
  have b: "hostssl_line [111, 114, 99, 97] [114, 101, 99, 101, 105, 112, 116] default_client_ip
       = [104, 111, 115, 116, 115, 115, 108, 32, 32, 32, 32, 111, 114, 99, 97, 32, 32, 32, 32, 32, 32, 32, 32, 32, 114, 101, 99, 101, 105, 112, 116, 32, 32, 32, 32, 32, 32, 49, 48, 48, 46, 56, 57, 46, 49, 56, 46, 49, 53, 47, 51, 50, 32, 32, 32, 32, 32, 32, 32, 32, 109, 100, 53]"
    by (simp add: hostssl_line_def fmt_left_def space_def ascii_def default_client_ip_def
        replicate_numeral_Cons)
  have c: "zip (map database test_configs) (map user test_configs)
       = [([111, 114, 99, 97], [111, 114, 99, 97]), ([114, 101, 99, 101, 105, 112, 116], [114, 101, 99, 101, 105, 112, 116]), ([119, 101, 98, 111, 114, 99, 97], [119, 101, 98, 111, 114, 99, 97]),
          ([112, 111, 115, 116, 103, 114, 101, 115], [112, 111, 115, 116, 103, 114, 101, 115])]"
    by (simp add: test_configs_def ascii_def)
  have d: "([111, 114, 99, 97], [114, 101, 99, 101, 105, 112, 116])
       \<notin> set (zip (map database test_configs) (map user test_configs))"
    unfolding c by simp
  from a b c d show ?thesis by blast
qed

subsection \<open>Empty results\<close>

lemma contains_Nil: "contains xs []"
  by (cases xs) auto

lemma contains_self_prefix: "contains (p @ ys) p"
  by (cases p) (auto simp: contains_Nil)

lemma contains_append_right: "contains ys p \<Longrightarrow> contains (xs @ ys) p"
  by (induction xs) auto

lemma hd_headers: "hd lp_header = 32 \<and> hd sp_header = 32 \<and> hd tv_header = 32"
  by (simp add: lp_header_def sp_header_def tv_header_def fmt_right_def fmt_center_def
      ascii_def space_def Let_def replicate_numeral_Cons)

lemma neq_by_hd: "hd xs \<noteq> hd ys \<Longrightarrow> xs \<noteq> ys"
  by auto

lemma lp_header_not_message:
  "lp_header \<noteq> 10 # ascii ''=== Patient List ==='' \<and> lp_header \<noteq> lp_no_data"
  by (intro conjI neq_by_hd) (simp_all add: hd_headers lp_no_data_def)

lemma list_patients_empty:
  assumes "connect_reply w local_orca = None" and "patients_reply w = Inr []"
  shows "list_patients w
         = ([Print (10 # ascii ''=== Patient List ===''), Connect local_orca, Print lp_no_data], Inr ())"
  using assms
  by (simp add: list_patients_def bind_def prints_def try_except_def connect_def ask_def)


lemma search_patients_empty:
  assumes "connect_reply w local_orca = None" and "close_reply w = None"
    and "input_reply w sp_prompt = Inr answer" and "strip answer \<noteq> []"
    and "search_reply w (ascii ''%'' @ strip answer @ ascii ''%'') = Inr []"
  shows "search_patients w
         = ([Print ([10] @ ascii ''=== '' @ [24739, 32773, 26908, 32034] @ ascii '' ===''), Prompt sp_prompt, Connect local_orca,
             Print (sp_no_match (strip answer))], Inr ())"
  using assms
  by (simp add: search_patients_def bind_def prints_def try_except_def connect_def ask_def
      input_def may_raise_def Let_def)

lemma show_todays_visits_empty:
  assumes "connect_reply w local_orca = None"
    and "today_reply w = Inr today" and "visits_reply w today = Inr []"
  shows "show_todays_visits w
         = ([Print ([10] @ ascii ''=== '' @ [26412, 26085, 12398, 26469, 38498, 24739, 32773] @ ascii '' ===''), Connect local_orca, Print (tv_no_visits today)], Inr ())"
  using assms
  by (simp add: show_todays_visits_def bind_def prints_def try_except_def connect_def ask_def)

lemma sp_header_not_message:
  "sp_header \<noteq> ([10] @ ascii ''=== '' @ [24739, 32773, 26908, 32034] @ ascii '' ==='') \<and> sp_header \<noteq> sp_no_match t"
  by (intro conjI neq_by_hd) (simp_all add: hd_headers sp_no_match_def)

lemma tv_header_not_message:
  "tv_header \<noteq> ([10] @ ascii ''=== '' @ [26412, 26085, 12398, 26469, 38498, 24739, 32773] @ ascii '' ==='') \<and> tv_header \<noteq> tv_no_visits t"
  by (intro conjI neq_by_hd) (simp_all add: hd_headers tv_no_visits_def tv_date_def)

lemma headers_text:
  "lp_header = [32, 32, 73, 68, 32, 124, 32, 32, 32, 32, 32, 32, 32, 32, 32, 24739, 32773, 21517, 32, 32, 32, 32, 32, 32, 32, 32, 32, 32, 124, 32, 32, 32, 32, 32, 32, 32, 32, 32, 12501, 12522, 12460, 12490, 32, 32, 32, 32, 32, 32, 32, 32, 32, 124, 32, 32, 32, 24615, 21029, 32, 32, 32, 124, 32, 32, 32, 32, 32, 29983, 24180, 26376, 26085, 32, 32, 32, 32, 32, 124, 32, 32, 32, 29366, 24907, 32, 32]
   \<and> sp_header = [32, 32, 73, 68, 32, 124, 32, 32, 32, 32, 32, 32, 32, 24739, 32773, 21517, 32, 32, 32, 32, 32, 32, 32, 124, 32, 32, 32, 32, 32, 32, 12501, 12522, 12460, 12490, 32, 32, 32, 32, 32, 32, 32, 124, 32, 32, 32, 24615, 21029, 32, 32, 32, 124, 32, 32, 32, 32, 32, 29983, 24180, 26376, 26085, 32, 32, 32, 32, 32, 124, 32, 32, 32, 32, 32, 32, 38651, 35441, 30058, 21495, 32, 32, 32, 32, 32, 32]
   \<and> tv_header = [32, 32, 32, 32, 26469, 38498, 26178, 21051, 32, 32, 32, 32, 32, 124, 32, 32, 32, 24739, 32773, 73, 68, 32, 32, 32, 124, 32, 32, 32, 32, 32, 32, 32, 32, 32, 24739, 32773, 21517, 32, 32, 32, 32, 32, 32, 32, 32, 32, 32, 124, 32, 32, 32, 32, 32, 32, 32, 32, 12501, 12522, 12460, 12490, 32, 32, 32, 32, 32, 32, 32, 32, 124, 32, 32, 32, 35386, 30274, 31185, 32, 32, 32]"
  by (simp add: lp_header_def sp_header_def tv_header_def fmt_right_def fmt_center_def
      bar_def ascii_def space_def Let_def replicate_numeral_Cons)


text \<open>
  Claim C8, as the code has it. When the database accepts the connection and the query
  returns no row, each routine prints its title first: the patient list then prints its
  no-data message, the search its prompt and the no-match message, which holds the
  search term between corner brackets, and today's visits the message that nobody came
  on the date; the routine returns, and the header of its table is not printed. The
  texts are given by their code points, the three headers as Python lays them out.
\<close>

theorem empty_result_messages:
  fixes w :: world and answer today :: ustr
  assumes "connect_reply w local_orca = None" and "close_reply w = None"
  shows "(patients_reply w = Inr [] \<longrightarrow>
            list_patients w
              = ([Print [10, 61, 61, 61, 32, 80, 97, 116, 105, 101, 110, 116, 32, 76, 105, 115, 116, 32, 61, 61, 61], Connect local_orca,
                  Print [24739, 32773, 12487, 12540, 12479, 12364, 35211, 12388, 12363, 12426, 12414, 12379, 12435, 12391, 12375, 12383, 12290]], Inr ())
            \<and> Print lp_header \<notin> set (fst (list_patients w)))
       \<and> (input_reply w [24739, 32773, 21517, 12414, 12383, 12399, 12501, 12522, 12460, 12490, 12434, 20837, 21147, 12375, 12390, 12367, 12384, 12373, 12356, 58, 32] = Inr answer
            \<and> strip answer \<noteq> []
            \<and> search_reply w ([37] @ strip answer @ [37]) = Inr [] \<longrightarrow>
            search_patients w
              = ([Print [10, 61, 61, 61, 32, 24739, 32773, 26908, 32034, 32, 61, 61, 61],
                  Prompt [24739, 32773, 21517, 12414, 12383, 12399, 12501, 12522, 12460, 12490, 12434, 20837, 21147, 12375, 12390, 12367, 12384, 12373, 12356, 58, 32],
                  Connect local_orca,
                  Print ([12300] @ strip answer @ [12301, 12395, 19968, 33268, 12377, 12427, 24739, 32773, 12364, 35211, 12388, 12363, 12426, 12414, 12379, 12435, 12391, 12375, 12383, 12290])],
                 Inr ())
            \<and> contains ([12300] @ strip answer @ [12301, 12395, 19968, 33268, 12377, 12427, 24739, 32773, 12364, 35211, 12388, 12363, 12426, 12414, 12379, 12435, 12391, 12375, 12383, 12290])
                 (strip answer)
            \<and> Print sp_header \<notin> set (fst (search_patients w)))
       \<and> (today_reply w = Inr today \<and> visits_reply w today = Inr [] \<longrightarrow>
            show_todays_visits w
              = ([Print [10, 61, 61, 61, 32, 26412, 26085, 12398, 26469, 38498, 24739, 32773, 32, 61, 61, 61], Connect local_orca,
                  Print ([26412, 26085, 65288] @ take 4 today @ [24180] @ take 2 (drop 4 today) @ [26376]
                         @ take 2 (drop 6 today) @ [26085] @ [65289, 12398, 26469, 38498, 24739, 32773, 12399, 12356, 12414, 12379, 12435, 12290])],
                 Inr ())
            \<and> Print tv_header \<notin> set (fst (show_todays_visits w)))
       \<and> lp_header = [32, 32, 73, 68, 32, 124, 32, 32, 32, 32, 32, 32, 32, 32, 32, 24739, 32773, 21517, 32, 32, 32, 32, 32, 32, 32, 32, 32, 32, 124, 32, 32, 32, 32, 32, 32, 32, 32, 32, 12501, 12522, 12460, 12490, 32, 32, 32, 32, 32, 32, 32, 32, 32, 124, 32, 32, 32, 24615, 21029, 32, 32, 32, 124, 32, 32, 32, 32, 32, 29983, 24180, 26376, 26085, 32, 32, 32, 32, 32, 124, 32, 32, 32, 29366, 24907, 32, 32]
       \<and> sp_header = [32, 32, 73, 68, 32, 124, 32, 32, 32, 32, 32, 32, 32, 24739, 32773, 21517, 32, 32, 32, 32, 32, 32, 32, 124, 32, 32, 32, 32, 32, 32, 12501, 12522, 12460, 12490, 32, 32, 32, 32, 32, 32, 32, 124, 32, 32, 32, 24615, 21029, 32, 32, 32, 124, 32, 32, 32, 32, 32, 29983, 24180, 26376, 26085, 32, 32, 32, 32, 32, 124, 32, 32, 32, 32, 32, 32, 38651, 35441, 30058, 21495, 32, 32, 32, 32, 32, 32]
       \<and> tv_header = [32, 32, 32, 32, 26469, 38498, 26178, 21051, 32, 32, 32, 32, 32, 124, 32, 32, 32, 24739, 32773, 73, 68, 32, 32, 32, 124, 32, 32, 32, 32, 32, 32, 32, 32, 32, 24739, 32773, 21517, 32, 32, 32, 32, 32, 32, 32, 32, 32, 32, 124, 32, 32, 32, 32, 32, 32, 32, 32, 12501, 12522, 12460, 12490, 32, 32, 32, 32, 32, 32, 32, 32, 124, 32, 32, 32, 35386, 30274, 31185, 32, 32, 32]"
proof -
  have lp: "list_patients w
              = ([Print [10, 61, 61, 61, 32, 80, 97, 116, 105, 101, 110, 116, 32, 76, 105, 115, 116, 32, 61, 61, 61], Connect local_orca,
                  Print [24739, 32773, 12487, 12540, 12479, 12364, 35211, 12388, 12363, 12426, 12414, 12379, 12435, 12391, 12375, 12383, 12290]], Inr ())
            \<and> Print lp_header \<notin> set (fst (list_patients w))"
    if "patients_reply w = Inr []"
  proof -
    note run = list_patients_empty [OF assms(1) that]
    have eq: "list_patients w
              = ([Print [10, 61, 61, 61, 32, 80, 97, 116, 105, 101, 110, 116, 32, 76, 105, 115, 116, 32, 61, 61, 61], Connect local_orca,
                  Print [24739, 32773, 12487, 12540, 12479, 12364, 35211, 12388, 12363, 12426, 12414, 12379, 12435, 12391, 12375, 12383, 12290]], Inr ())"
      unfolding run by (simp add: lp_no_data_def ascii_def)
    have notin: "Print lp_header \<notin> set (fst (list_patients w))"
      unfolding run using lp_header_not_message by simp
    from eq notin show ?thesis by blast
  qed
  have ref: "contains ([12300] @ strip answer @ [12301, 12395, 19968, 33268, 12377, 12427, 24739, 32773, 12364, 35211, 12388, 12363, 12426, 12414, 12379, 12435, 12391, 12375, 12383, 12290])
                 (strip answer)"
    by (intro contains_append_right contains_self_prefix)
  have sp: "search_patients w
              = ([Print [10, 61, 61, 61, 32, 24739, 32773, 26908, 32034, 32, 61, 61, 61],
                  Prompt [24739, 32773, 21517, 12414, 12383, 12399, 12501, 12522, 12460, 12490, 12434, 20837, 21147, 12375, 12390, 12367, 12384, 12373, 12356, 58, 32],
                  Connect local_orca,
                  Print ([12300] @ strip answer @ [12301, 12395, 19968, 33268, 12377, 12427, 24739, 32773, 12364, 35211, 12388, 12363, 12426, 12414, 12379, 12435, 12391, 12375, 12383, 12290])],
                 Inr ())
            \<and> Print sp_header \<notin> set (fst (search_patients w))"
    if a: "input_reply w [24739, 32773, 21517, 12414, 12383, 12399, 12501, 12522, 12460, 12490, 12434, 20837, 21147, 12375, 12390, 12367, 12384, 12373, 12356, 58, 32] = Inr answer"
      and b: "strip answer \<noteq> []"
      and c: "search_reply w ([37] @ strip answer @ [37]) = Inr []"
  proof -
    from a have a': "input_reply w sp_prompt = Inr answer"
      by (simp add: sp_prompt_def ascii_def)
    from c have c': "search_reply w (ascii ''%'' @ strip answer @ ascii ''%'') = Inr []"
      by (simp add: ascii_def)
    note run = search_patients_empty [OF assms(1,2) a' b c']
    have eq: "search_patients w
              = ([Print [10, 61, 61, 61, 32, 24739, 32773, 26908, 32034, 32, 61, 61, 61],
                  Prompt [24739, 32773, 21517, 12414, 12383, 12399, 12501, 12522, 12460, 12490, 12434, 20837, 21147, 12375, 12390, 12367, 12384, 12373, 12356, 58, 32],
                  Connect local_orca,
                  Print ([12300] @ strip answer @ [12301, 12395, 19968, 33268, 12377, 12427, 24739, 32773, 12364, 35211, 12388, 12363, 12426, 12414, 12379, 12435, 12391, 12375, 12383, 12290])],
                 Inr ())"
      unfolding run by (simp add: sp_prompt_def sp_no_match_def ascii_def)
    have notin: "Print sp_header \<notin> set (fst (search_patients w))"
      unfolding run using sp_header_not_message by simp
    from eq notin show ?thesis by blast
  qed
  have tv: "show_todays_visits w
              = ([Print [10, 61, 61, 61, 32, 26412, 26085, 12398, 26469, 38498, 24739, 32773, 32, 61, 61, 61], Connect local_orca,
                  Print ([26412, 26085, 65288] @ take 4 today @ [24180] @ take 2 (drop 4 today) @ [26376]
                         @ take 2 (drop 6 today) @ [26085] @ [65289, 12398, 26469, 38498, 24739, 32773, 12399, 12356, 12414, 12379, 12435, 12290])],
                 Inr ())
            \<and> Print tv_header \<notin> set (fst (show_todays_visits w))"
    if "today_reply w = Inr today" and "visits_reply w today = Inr []"
  proof -
    note run = show_todays_visits_empty [OF assms(1) that]
    have eq: "show_todays_visits w
              = ([Print [10, 61, 61, 61, 32, 26412, 26085, 12398, 26469, 38498, 24739, 32773, 32, 61, 61, 61], Connect local_orca,
                  Print ([26412, 26085, 65288] @ take 4 today @ [24180] @ take 2 (drop 4 today) @ [26376]
                         @ take 2 (drop 6 today) @ [26085] @ [65289, 12398, 26469, 38498, 24739, 32773, 12399, 12356, 12414, 12379, 12435, 12290])],
                 Inr ())"
      unfolding run
      by (simp add: tv_no_visits_def tv_date_def slice_def nen_def gatsu_def nichi_def ascii_def)
    have notin: "Print tv_header \<notin> set (fst (show_todays_visits w))"
      unfolding run using tv_header_not_message by simp
    from eq notin show ?thesis by blast
  qed
  from lp sp ref tv headers_text show ?thesis by blast
qed


text \<open>
  The search for \<open>Sato\<close> in a database without a matching patient: the title, the
  prompt and the message with \<open>Sato\<close> between the corner brackets, and nothing else.
\<close>

theorem empty_result_messages_witness:
  "list_patients empty_world
     = ([Print [10, 61, 61, 61, 32, 80, 97, 116, 105, 101, 110, 116, 32, 76, 105, 115, 116, 32, 61, 61, 61], Connect local_orca,
         Print [24739, 32773, 12487, 12540, 12479, 12364, 35211, 12388, 12363, 12426, 12414, 12379, 12435, 12391, 12375, 12383, 12290]], Inr ())
   \<and> search_patients empty_world
     = ([Print [10, 61, 61, 61, 32, 24739, 32773, 26908, 32034, 32, 61, 61, 61],
         Prompt [24739, 32773, 21517, 12414, 12383, 12399, 12501, 12522, 12460, 12490, 12434, 20837, 21147, 12375, 12390, 12367, 12384, 12373, 12356, 58, 32],
         Connect local_orca,
         Print [12300, 83, 97, 116, 111, 12301, 12395, 19968, 33268, 12377, 12427, 24739, 32773, 12364, 35211, 12388, 12363, 12426, 12414, 12379, 12435, 12391, 12375, 12383, 12290]], Inr ())
   \<and> Print sp_header \<notin> set (fst (search_patients empty_world))
   \<and> show_todays_visits empty_world
     = ([Print [10, 61, 61, 61, 32, 26412, 26085, 12398, 26469, 38498, 24739, 32773, 32, 61, 61, 61], Connect local_orca,
         Print [26412, 26085, 65288, 50, 48, 50, 52, 24180, 48, 49, 26376, 49, 53, 26085, 65289, 12398, 26469, 38498, 24739, 32773, 12399, 12356, 12414, 12379, 12435, 12290]], Inr ())"
proof -
  have h1: "connect_reply empty_world local_orca = None" by (simp add: empty_world_def)
  have h2: "close_reply empty_world = None" by (simp add: empty_world_def)
  have h3: "patients_reply empty_world = Inr []" by (simp add: empty_world_def)
  have st: "strip [83, 97, 116, 111] = [83, 97, 116, 111]"
    by (simp add: strip_def isspace_def)
  have h4: "input_reply empty_world [24739, 32773, 21517, 12414, 12383, 12399, 12501, 12522, 12460, 12490, 12434, 20837, 21147, 12375, 12390, 12367, 12384, 12373, 12356, 58, 32] = Inr [83, 97, 116, 111]
            \<and> strip [83, 97, 116, 111] \<noteq> []
            \<and> search_reply empty_world ([37] @ strip [83, 97, 116, 111] @ [37]) = Inr []"
    by (simp add: empty_world_def st ascii_def)
  have h5: "today_reply empty_world = Inr [50, 48, 50, 52, 48, 49, 49, 53]
            \<and> visits_reply empty_world [50, 48, 50, 52, 48, 49, 49, 53] = Inr []"
    by (simp add: empty_world_def ascii_def)
  from empty_result_messages [OF h1 h2, of "[83, 97, 116, 111]" "[50, 48, 50, 52, 48, 49, 49, 53]"] h3 h4 h5
  have a: "list_patients empty_world
     = ([Print [10, 61, 61, 61, 32, 80, 97, 116, 105, 101, 110, 116, 32, 76, 105, 115, 116, 32, 61, 61, 61], Connect local_orca,
         Print [24739, 32773, 12487, 12540, 12479, 12364, 35211, 12388, 12363, 12426, 12414, 12379, 12435, 12391, 12375, 12383, 12290]], Inr ())"
    and b: "search_patients empty_world
     = ([Print [10, 61, 61, 61, 32, 24739, 32773, 26908, 32034, 32, 61, 61, 61],
         Prompt [24739, 32773, 21517, 12414, 12383, 12399, 12501, 12522, 12460, 12490, 12434, 20837, 21147, 12375, 12390, 12367, 12384, 12373, 12356, 58, 32],
         Connect local_orca,
         Print ([12300] @ strip [83, 97, 116, 111] @ [12301, 12395, 19968, 33268, 12377, 12427, 24739, 32773, 12364, 35211, 12388, 12363, 12426, 12414, 12379, 12435, 12391, 12375, 12383, 12290])], Inr ())"
    and c: "Print sp_header \<notin> set (fst (search_patients empty_world))"
    and d: "show_todays_visits empty_world
     = ([Print [10, 61, 61, 61, 32, 26412, 26085, 12398, 26469, 38498, 24739, 32773, 32, 61, 61, 61], Connect local_orca,
         Print ([26412, 26085, 65288] @ take 4 [50, 48, 50, 52, 48, 49, 49, 53] @ [24180] @ take 2 (drop 4 [50, 48, 50, 52, 48, 49, 49, 53]) @ [26376]
                         @ take 2 (drop 6 [50, 48, 50, 52, 48, 49, 49, 53]) @ [26085] @ [65289, 12398, 26469, 38498, 24739, 32773, 12399, 12356, 12414, 12379, 12435, 12290])],
        Inr ())"
    by blast+
  have b': "search_patients empty_world
     = ([Print [10, 61, 61, 61, 32, 24739, 32773, 26908, 32034, 32, 61, 61, 61],
         Prompt [24739, 32773, 21517, 12414, 12383, 12399, 12501, 12522, 12460, 12490, 12434, 20837, 21147, 12375, 12390, 12367, 12384, 12373, 12356, 58, 32],
         Connect local_orca,
         Print [12300, 83, 97, 116, 111, 12301, 12395, 19968, 33268, 12377, 12427, 24739, 32773, 12364, 35211, 12388, 12363, 12426, 12414, 12379, 12435, 12391, 12375, 12383, 12290]], Inr ())"
    unfolding b by (simp add: st)
  have d': "show_todays_visits empty_world
     = ([Print [10, 61, 61, 61, 32, 26412, 26085, 12398, 26469, 38498, 24739, 32773, 32, 61, 61, 61], Connect local_orca,
         Print [26412, 26085, 65288, 50, 48, 50, 52, 24180, 48, 49, 26376, 49, 53, 26085, 65289, 12398, 26469, 38498, 24739, 32773, 12399, 12356, 12414, 12379, 12435, 12290]], Inr ())"
    unfolding d by simp
  from a b' c d' show ?thesis by blast
qed

text \<open>
  Claim C8 as stated has the search print exactly the no-match message. In the search
  for \<open>Sato\<close> with no matching row the output is not the message alone: the title of
  the routine is printed first, and the prompt before the message.
\<close>

theorem search_prints_title_counterexample:
  "input_reply empty_world [24739, 32773, 21517, 12414, 12383, 12399, 12501, 12522, 12460, 12490, 12434, 20837, 21147, 12375, 12390, 12367, 12384, 12373, 12356, 58, 32] = Inr [83, 97, 116, 111]
   \<and> search_reply empty_world [37, 83, 97, 116, 111, 37] = Inr []
   \<and> fst (search_patients empty_world)
       \<noteq> [Print [12300, 83, 97, 116, 111, 12301, 12395, 19968, 33268, 12377, 12427, 24739, 32773, 12364, 35211, 12388, 12363, 12426, 12414, 12379, 12435, 12391, 12375, 12383, 12290]]
   \<and> hd (fst (search_patients empty_world)) = Print [10, 61, 61, 61, 32, 24739, 32773, 26908, 32034, 32, 61, 61, 61]
   \<and> Print [10, 61, 61, 61, 32, 24739, 32773, 26908, 32034, 32, 61, 61, 61] \<noteq> Print [12300, 83, 97, 116, 111, 12301, 12395, 19968, 33268, 12377, 12427, 24739, 32773, 12364, 35211, 12388, 12363, 12426, 12414, 12379, 12435, 12391, 12375, 12383, 12290]
   \<and> last (fst (search_patients empty_world))
       = Print [12300, 83, 97, 116, 111, 12301, 12395, 19968, 33268, 12377, 12427, 24739, 32773, 12364, 35211, 12388, 12363, 12426, 12414, 12379, 12435, 12391, 12375, 12383, 12290]"
proof -
  have h1: "connect_reply empty_world local_orca = None" by (simp add: empty_world_def)
  have h2: "close_reply empty_world = None" by (simp add: empty_world_def)
  have st: "strip [83, 97, 116, 111] = [83, 97, 116, 111]"
    by (simp add: strip_def isspace_def)
  have a: "input_reply empty_world sp_prompt = Inr [83, 97, 116, 111]"
    by (simp add: empty_world_def ascii_def)
  have b: "strip [83, 97, 116, 111] \<noteq> []" by (simp add: st)
  have c: "search_reply empty_world (ascii ''%'' @ strip [83, 97, 116, 111] @ ascii ''%'') = Inr []"
    by (simp add: empty_world_def)
  note run = search_patients_empty [OF h1 h2 a b c]
  have i: "input_reply empty_world [24739, 32773, 21517, 12414, 12383, 12399, 12501, 12522, 12460, 12490, 12434, 20837, 21147, 12375, 12390, 12367, 12384, 12373, 12356, 58, 32] = Inr [83, 97, 116, 111]"
    by (simp add: empty_world_def ascii_def)
  have q: "search_reply empty_world [37, 83, 97, 116, 111, 37] = Inr []"
    by (simp add: empty_world_def)
  have n: "fst (search_patients empty_world)
       \<noteq> [Print [12300, 83, 97, 116, 111, 12301, 12395, 19968, 33268, 12377, 12427, 24739, 32773, 12364, 35211, 12388, 12363, 12426, 12414, 12379, 12435, 12391, 12375, 12383, 12290]]"
    unfolding run by simp
  have h: "hd (fst (search_patients empty_world)) = Print [10, 61, 61, 61, 32, 24739, 32773, 26908, 32034, 32, 61, 61, 61]"
    unfolding run by (simp add: ascii_def)
  have l: "last (fst (search_patients empty_world))
       = Print [12300, 83, 97, 116, 111, 12301, 12395, 19968, 33268, 12377, 12427, 24739, 32773, 12364, 35211, 12388, 12363, 12426, 12414, 12379, 12435, 12391, 12375, 12383, 12290]"
    unfolding run by (simp add: st sp_no_match_def ascii_def)
  from i q n h l show ?thesis by simp
qed

subsection \<open>A visit without a department\<close>

lemma show_todays_visits_rows:
  assumes "connect_reply w local_orca = None" and "close_reply w = None"
    and "today_reply w = Inr today" and "visits_reply w today = Inr visits" and "visits \<noteq> []"
    and "dept_stats_reply w today = Inr dept_stats"
  shows "show_todays_visits w
         = ([Print [10, 61, 61, 61, 32, 26412, 26085, 12398, 26469, 38498, 24739, 32773, 32, 61, 61, 61], Connect local_orca,
             Print (tv_date today @ [65289, 12398, 26469, 38498, 24739, 32773, 25968, 58, 32] @ str_nat (length visits) @ mei @ [10]),
             Print (replicate 90 61), Print tv_header, Print (replicate 90 61)]
            @ map Print (map tv_line visits)
            @ [Print (replicate 90 61), Print [10, 61, 61, 61, 32, 35386, 30274, 31185, 21029, 32113, 35336, 32, 61, 61, 61]]
            @ map Print (map tv_stat_line dept_stats), Inr ())"
  using assms
  by (simp add: show_todays_visits_def bind_def prints_def try_except_def connect_def ask_def
      may_raise_def ascii_def)

lemma missing_dept_names:
  "k = None \<or> k = Some [] \<Longrightarrow>
     dept_name k = [26410, 35373, 23450] \<and> stat_dept_name k = [19981, 26126]"
  by (auto simp: dept_name_def stat_dept_name_def dict_get_def py_or_def dept_map_def ascii_def
      misettei_def fumei_def)

lemma center_missing_dept: "fmt_center 8 [26410, 35373, 23450] = [32, 32, 26410, 35373, 23450, 32, 32, 32]"
  by (simp add: fmt_center_def Let_def space_def replicate_numeral_Cons)

text \<open>
  Claim C10. In one run of today's visits, with the connection accepted, a visit whose
  department code is null or empty has a line in the table that ends with the cell of
  the sentinel U+672A U+8A2D U+5B9A (26410, 35373, 23450) centred in eight characters,
  and a row of the count per department whose code is null or empty is printed as the
  other sentinel U+4E0D U+660E (19981, 26126), a colon, the count and the counter
  U+540D (21517). Both lines are in the same output, and the two sentinels differ.
\<close>

theorem missing_department_two_sentinels:
  fixes w :: world and v :: visit and n :: int
  assumes "connect_reply w local_orca = None" and "close_reply w = None"
    and "today_reply w = Inr today" and "visits_reply w today = Inr visits"
    and "v \<in> set visits" and "sryka v = None \<or> sryka v = Some []"
    and "dept_stats_reply w today = Inr dept_stats"
    and "(dept, n) \<in> set dept_stats" and "dept = None \<or> dept = Some []"
  shows "Print (tv_line v) \<in> set (fst (show_todays_visits w))
       \<and> (\<exists>cells. tv_line v = cells @ [32, 124, 32] @ [32, 32, 26410, 35373, 23450, 32, 32, 32])
       \<and> dept_name (sryka v) = [26410, 35373, 23450]
       \<and> Print ([19981, 26126, 58, 32] @ str_int n @ [21517]) \<in> set (fst (show_todays_visits w))
       \<and> stat_dept_name dept = [19981, 26126]
       \<and> dept_name (sryka v) \<noteq> stat_dept_name dept"
proof -
  from assms(5) have ne: "visits \<noteq> []" by auto
  note run = show_todays_visits_rows [OF assms(1,2,3,4) ne assms(7)]
  from assms(5) have a: "Print (tv_line v) \<in> set (fst (show_todays_visits w))"
    unfolding run by simp
  note names = missing_dept_names [OF assms(6)] missing_dept_names [OF assms(9)]
  have "tv_line v = (fmt_center 12 (visit_time_str (uketime v)) @ bar
     @ fmt_center 8 (str_int (visit_ptid v)) @ bar
     @ fmt_center 20 (tv_truncate_name
         (py_or (visit_name v) (py_or (full_name v) namae_nashi))) @ bar
     @ fmt_center 18 (tv_truncate_kana (py_or (visit_kananame v) furigana_nashi)))
     @ [32, 124, 32] @ [32, 32, 26410, 35373, 23450, 32, 32, 32]"
    using names by (simp add: tv_line_def center_missing_dept bar_def ascii_def)
  then have b: "\<exists>cells. tv_line v = cells @ [32, 124, 32] @ [32, 32, 26410, 35373, 23450, 32, 32, 32]" by blast
  have "tv_stat_line (dept, n) = [19981, 26126, 58, 32] @ str_int n @ [21517]"
    using names by (simp add: tv_stat_line_def mei_def ascii_def)
  with assms(8) have c: "Print ([19981, 26126, 58, 32] @ str_int n @ [21517]) \<in> set (fst (show_todays_visits w))"
    unfolding run by force
  from names have d: "dept_name (sryka v) \<noteq> stat_dept_name dept" by simp
  from a b c d names show ?thesis by blast
qed

text \<open>
  One visit today, of patient 7, Tanaka, at 09:30:00, without a department code, and the
  count of one visit without a department: the line of the table and the line of the
  count, as printed.
\<close>

theorem missing_department_two_sentinels_witness:
  "Print [32, 32, 48, 57, 58, 51, 48, 58, 48, 48, 32, 32, 32, 124, 32, 32, 32, 32, 55, 32, 32, 32, 32, 32, 124, 32, 32, 32, 32, 32, 32, 32, 32, 84, 97, 110, 97, 107, 97, 32, 32, 32, 32, 32, 32, 32, 32, 124, 32, 32, 32, 32, 32, 32, 12479, 12490, 12459, 32, 12479, 12525, 12454, 32, 32, 32, 32, 32, 32, 32, 124, 32, 32, 32, 26410, 35373, 23450, 32, 32, 32]
     \<in> set (fst (show_todays_visits one_visit_world))
   \<and> Print [19981, 26126, 58, 32, 49, 21517] \<in> set (fst (show_todays_visits one_visit_world))
   \<and> dept_name (sryka tanaka) = [26410, 35373, 23450]"
proof -
  have h1: "connect_reply one_visit_world local_orca = None"
    by (simp add: one_visit_world_def empty_world_def)
  have h2: "close_reply one_visit_world = None"
    by (simp add: one_visit_world_def empty_world_def)
  have h3: "today_reply one_visit_world = Inr [50, 48, 50, 52, 48, 49, 49, 53]"
    by (simp add: one_visit_world_def empty_world_def ascii_def)
  have h4: "visits_reply one_visit_world [50, 48, 50, 52, 48, 49, 49, 53] = Inr [tanaka]"
    by (simp add: one_visit_world_def empty_world_def)
  have h5: "tanaka \<in> set [tanaka]" by simp
  have h6: "sryka tanaka = None \<or> sryka tanaka = Some []" by (simp add: tanaka_def)
  have h7: "dept_stats_reply one_visit_world [50, 48, 50, 52, 48, 49, 49, 53] = Inr [(None, 1)]"
    by (simp add: one_visit_world_def empty_world_def)
  have h8: "(None, 1) \<in> set [(None :: ustr option, 1 :: int)]" by simp
  have h9: "(None :: ustr option) = None \<or> (None :: ustr option) = Some []" by simp
  have line: "tv_line tanaka
    = [32, 32, 48, 57, 58, 51, 48, 58, 48, 48, 32, 32, 32, 124, 32, 32, 32, 32, 55, 32, 32, 32, 32, 32, 124, 32, 32, 32, 32, 32, 32, 32, 32, 84, 97, 110, 97, 107, 97, 32, 32, 32, 32, 32, 32, 32, 32, 124, 32, 32, 32, 32, 32, 32, 12479, 12490, 12459, 32, 12479, 12525, 12454, 32, 32, 32, 32, 32, 32, 32, 124, 32, 32, 32, 26410, 35373, 23450, 32, 32, 32]"
    by (simp add: tv_line_def tanaka_def visit_time_str_def slice_def colon_def fmt_center_def
        Let_def space_def bar_def str_int_def tv_truncate_name_def tv_truncate_kana_def
        py_or_def dept_name_def dict_get_def misettei_def ascii_def replicate_numeral_Cons)
  have one: "str_int 1 = [49]" by (simp add: str_int_def)
  from missing_department_two_sentinels [OF h1 h2 h3 h4 h5 h6 h7 h8 h9]
  have "Print (tv_line tanaka) \<in> set (fst (show_todays_visits one_visit_world))"
    and "Print ([19981, 26126, 58, 32] @ str_int 1 @ [21517]) \<in> set (fst (show_todays_visits one_visit_world))"
    and "dept_name (sryka tanaka) = [26410, 35373, 23450]"
    by blast+
  then show ?thesis unfolding line one by simp
qed

subsection \<open>Exit status\<close>

lemma bind_raise: "bind (out, Inl e) f = (out, Inl e)"
  by (simp add: bind_def)

lemma bind_value: "bind (out, Inr a) f = (out @ fst (f a), snd (f a))"
  by (simp add: bind_def split: prod.splits)

lemma first_attempt_raises:
  assumes "server_reply (connection_string s p d u pw (ascii ''disable'')) = Inl e"
    and "\<not> is_pyodbc_error e"
  shows "test_connection_with_ssl_modes server_reply s p d u pw
         = ([Print ((10 # ascii ''=== Testing connection to '') @ d @ ascii ''@'' @ s @ ascii '' as '' @ u @ ascii '' ===''),
             Print (ascii ''Your client IP appears to be: 100.89.18.15''),
             Print ((10 # ascii ''Trying SSL Mode: disable (No SSL encryption)'')),
             Print (ascii ''Connection string: '' @ connection_string s p d u pw (ascii ''disable'')),
             Connect (connection_string s p d u pw (ascii ''disable''))], Inl e)"
  using assms
  by (simp add: test_connection_with_ssl_modes_def ssl_modes_def prints_def bind_def Let_def ascii_def)

lemma main_first_attempt_raises:
  assumes "server_reply (connection_string main_server main_port (ascii ''orca'') (ascii ''orca'')
             (ascii ''orca'') (ascii ''disable'')) = Inl e"
    and "\<not> is_pyodbc_error e"
  shows "main server_reply
         = ([Print (ascii ''PostgreSQL Connection Troubleshooting Tool''), Print rule60]
            @ fst (test_connection_with_ssl_modes server_reply main_server main_port
                     (ascii ''orca'') (ascii ''orca'') (ascii ''orca'')), Inl e)"
proof -
  note t = first_attempt_raises [of server_reply main_server main_port "ascii ''orca''"
      "ascii ''orca''" "ascii ''orca''" e, OF assms]
  have "test_all_configs server_reply test_configs [] 
        = (fst (test_connection_with_ssl_modes server_reply main_server main_port
                     (ascii ''orca'') (ascii ''orca'') (ascii ''orca'')), Inl e)"
    by (simp add: test_configs_def t bind_raise)
  then show ?thesis
    by (simp add: main_def prints_def bind_value bind_raise)
qed

lemma main_returns:
  "snd (test_all_configs server_reply test_configs []) = Inr sc \<Longrightarrow> snd (main server_reply) = Inr ()"
  by (simp add: main_def snd_bind prints_def)

lemma refusing_server_all_fail: "all_fail refusing_server"
  by (simp add: all_fail_def all_modes_fail_def driver_failure_def test_configs_def
      mode_names_def refusing_server_def)

lemma dispatch_patients: "dispatch w prog [[45, 45, 112, 97, 116, 105, 101, 110, 116, 115]] = list_patients w"
  by (simp add: dispatch_def ascii_def)

lemma dispatch_search: "dispatch w prog [[45, 45, 115, 101, 97, 114, 99, 104]] = search_patients w"
  by (simp add: dispatch_def ascii_def)

lemma search_patients_input_raises:
  "input_reply w sp_prompt = Inl e \<Longrightarrow>
     search_patients w
       = ([Print [10, 61, 61, 61, 32, 24739, 32773, 26908, 32034, 32, 61, 61, 61], Prompt [24739, 32773, 21517, 12414, 12383, 12399, 12501, 12522, 12460, 12490, 12434, 20837, 21147, 12375, 12390, 12367, 12384, 12373, 12356, 58, 32]], Inl e)"
  by (simp add: search_patients_def bind_def prints_def input_def sp_prompt_def ascii_def)

text \<open>
  Claim C9. When the module \<open>pyodbc\<close> is missing both scripts end with status 1. When
  it is present, the report script ends with status 0 if the selected mode returns,
  with status 0 after printing that the test was interrupted if a
  \<open>KeyboardInterrupt\<close> reaches the top level, and with status 1 after printing the
  error if any other exception does; the troubleshooting tool does the same around
  \<open>main\<close>.
\<close>

theorem exit_status:
  fixes w :: world and prog :: ustr and args :: "ustr list" and server_reply :: server
    and e :: exn
  shows "snd (orca_script False w prog args) = 1
       \<and> snd (troubleshoot_script False server_reply) = 1
       \<and> (snd (dispatch w prog args) = Inr () \<longrightarrow>
            orca_script True w prog args = (fst (dispatch w prog args), 0))
       \<and> (snd (dispatch w prog args) = Inl KeyboardInterrupt \<longrightarrow>
            orca_script True w prog args
              = (fst (dispatch w prog args) @ [Print [10, 84, 101, 115, 116, 32, 105, 110, 116, 101, 114, 114, 117, 112, 116, 101, 100, 32, 98, 121, 32, 117, 115, 101, 114, 46]], 0))
       \<and> (snd (dispatch w prog args) = Inl e \<and> e \<noteq> KeyboardInterrupt \<longrightarrow>
            orca_script True w prog args
              = (fst (dispatch w prog args)
                 @ (case e of
                      ImportError m \<Rightarrow>
                        [Print [69, 114, 114, 111, 114, 58, 32, 112, 121, 111, 100, 98, 99, 32, 109, 111, 100, 117, 108, 101, 32, 105, 115, 32, 110, 111, 116, 32, 105, 110, 115, 116, 97, 108, 108, 101, 100, 46],
                         Print [80, 108, 101, 97, 115, 101, 32, 105, 110, 115, 116, 97, 108, 108, 32, 105, 116, 32, 117, 115, 105, 110, 103, 58, 32, 112, 105, 112, 32, 105, 110, 115, 116, 97, 108, 108, 32, 112, 121, 111, 100, 98, 99]]
                    | PyodbcError m \<Rightarrow> [Print ([85, 110, 101, 120, 112, 101, 99, 116, 101, 100, 32, 101, 114, 114, 111, 114, 58, 32] @ m)]
                    | OtherException m \<Rightarrow> [Print ([85, 110, 101, 120, 112, 101, 99, 116, 101, 100, 32, 101, 114, 114, 111, 114, 58, 32] @ m)]
                    | KeyboardInterrupt \<Rightarrow> []), 1))
       \<and> (snd (main server_reply) = Inr () \<longrightarrow>
            troubleshoot_script True server_reply = (fst (main server_reply), 0))
       \<and> (snd (main server_reply) = Inl KeyboardInterrupt \<longrightarrow>
            troubleshoot_script True server_reply
              = (fst (main server_reply) @ [Print [10, 84, 114, 111, 117, 98, 108, 101, 115, 104, 111, 111, 116, 105, 110, 103, 32, 105, 110, 116, 101, 114, 114, 117, 112, 116, 101, 100, 32, 98, 121, 32, 117, 115, 101, 114, 46]], 0))
       \<and> (snd (main server_reply) = Inl e \<and> e \<noteq> KeyboardInterrupt \<longrightarrow>
            troubleshoot_script True server_reply
              = (fst (main server_reply) @ [Print ([85, 110, 101, 120, 112, 101, 99, 116, 101, 100, 32, 101, 114, 114, 111, 114, 58, 32] @ exn_str e)], 1))"
proof -
  have a: "snd (orca_script False w prog args) = 1"
    by (simp add: orca_script_def)
  have b: "snd (troubleshoot_script False server_reply) = 1"
    by (simp add: troubleshoot_script_def)
  obtain out r where d: "dispatch w prog args = (out, r)" by (cases "dispatch w prog args")
  have c1: "snd (dispatch w prog args) = Inr () \<longrightarrow>
            orca_script True w prog args = (fst (dispatch w prog args), 0)"
    by (simp add: orca_script_def d)
  have c2: "snd (dispatch w prog args) = Inl KeyboardInterrupt \<longrightarrow>
            orca_script True w prog args
              = (fst (dispatch w prog args) @ [Print [10, 84, 101, 115, 116, 32, 105, 110, 116, 101, 114, 114, 117, 112, 116, 101, 100, 32, 98, 121, 32, 117, 115, 101, 114, 46]], 0)"
    by (simp add: orca_script_def d ascii_def)
  have c3: "snd (dispatch w prog args) = Inl e \<and> e \<noteq> KeyboardInterrupt \<longrightarrow>
            orca_script True w prog args
              = (fst (dispatch w prog args)
                 @ (case e of
                      ImportError m \<Rightarrow>
                        [Print [69, 114, 114, 111, 114, 58, 32, 112, 121, 111, 100, 98, 99, 32, 109, 111, 100, 117, 108, 101, 32, 105, 115, 32, 110, 111, 116, 32, 105, 110, 115, 116, 97, 108, 108, 101, 100, 46],
                         Print [80, 108, 101, 97, 115, 101, 32, 105, 110, 115, 116, 97, 108, 108, 32, 105, 116, 32, 117, 115, 105, 110, 103, 58, 32, 112, 105, 112, 32, 105, 110, 115, 116, 97, 108, 108, 32, 112, 121, 111, 100, 98, 99]]
                    | PyodbcError m \<Rightarrow> [Print ([85, 110, 101, 120, 112, 101, 99, 116, 101, 100, 32, 101, 114, 114, 111, 114, 58, 32] @ m)]
                    | OtherException m \<Rightarrow> [Print ([85, 110, 101, 120, 112, 101, 99, 116, 101, 100, 32, 101, 114, 114, 111, 114, 58, 32] @ m)]
                    | KeyboardInterrupt \<Rightarrow> []), 1)"
    by (cases e) (simp_all add: orca_script_def d ascii_def)
  obtain out' r' where m: "main server_reply = (out', r')" by (cases "main server_reply")
  have t1: "snd (main server_reply) = Inr () \<longrightarrow>
            troubleshoot_script True server_reply = (fst (main server_reply), 0)"
    by (simp add: troubleshoot_script_def m)
  have t2: "snd (main server_reply) = Inl KeyboardInterrupt \<longrightarrow>
            troubleshoot_script True server_reply
              = (fst (main server_reply) @ [Print [10, 84, 114, 111, 117, 98, 108, 101, 115, 104, 111, 111, 116, 105, 110, 103, 32, 105, 110, 116, 101, 114, 114, 117, 112, 116, 101, 100, 32, 98, 121, 32, 117, 115, 101, 114, 46]], 0)"
    by (simp add: troubleshoot_script_def m ascii_def)
  have t3: "snd (main server_reply) = Inl e \<and> e \<noteq> KeyboardInterrupt \<longrightarrow>
            troubleshoot_script True server_reply
              = (fst (main server_reply) @ [Print ([85, 110, 101, 120, 112, 101, 99, 116, 101, 100, 32, 101, 114, 114, 111, 114, 58, 32] @ exn_str e)], 1)"
    by (simp add: troubleshoot_script_def m ascii_def)
  from a b c1 c2 c3 t1 t2 t3 show ?thesis by blast
qed


text \<open>
  Runs of both scripts: the patient list on an empty database, the search interrupted
  at its prompt, the search whose input ends at the prompt, the missing module, and the
  troubleshooting tool against a server that refuses every connection, a server whose
  first attempt raises another exception, and an operator who interrupts.
\<close>

theorem exit_status_witness:
  "orca_script True empty_world [116, 101, 115, 116, 95, 111, 114, 99, 97, 95, 111, 100, 98, 99, 46, 112, 121] [[45, 45, 112, 97, 116, 105, 101, 110, 116, 115]]
     = ([Print [10, 61, 61, 61, 32, 80, 97, 116, 105, 101, 110, 116, 32, 76, 105, 115, 116, 32, 61, 61, 61], Connect local_orca,
         Print [24739, 32773, 12487, 12540, 12479, 12364, 35211, 12388, 12363, 12426, 12414, 12379, 12435, 12391, 12375, 12383, 12290]], 0)
   \<and> orca_script True interrupted_world [116, 101, 115, 116, 95, 111, 114, 99, 97, 95, 111, 100, 98, 99, 46, 112, 121] [[45, 45, 115, 101, 97, 114, 99, 104]]
     = ([Print [10, 61, 61, 61, 32, 24739, 32773, 26908, 32034, 32, 61, 61, 61], Prompt [24739, 32773, 21517, 12414, 12383, 12399, 12501, 12522, 12460, 12490, 12434, 20837, 21147, 12375, 12390, 12367, 12384, 12373, 12356, 58, 32],
         Print [10, 84, 101, 115, 116, 32, 105, 110, 116, 101, 114, 114, 117, 112, 116, 101, 100, 32, 98, 121, 32, 117, 115, 101, 114, 46]], 0)
   \<and> orca_script True eof_world [116, 101, 115, 116, 95, 111, 114, 99, 97, 95, 111, 100, 98, 99, 46, 112, 121] [[45, 45, 115, 101, 97, 114, 99, 104]]
     = ([Print [10, 61, 61, 61, 32, 24739, 32773, 26908, 32034, 32, 61, 61, 61], Prompt [24739, 32773, 21517, 12414, 12383, 12399, 12501, 12522, 12460, 12490, 12434, 20837, 21147, 12375, 12390, 12367, 12384, 12373, 12356, 58, 32],
         Print [85, 110, 101, 120, 112, 101, 99, 116, 101, 100, 32, 101, 114, 114, 111, 114, 58, 32, 69, 79, 70, 32, 119, 104, 101, 110, 32, 114, 101, 97, 100, 105, 110, 103, 32, 97, 32, 108, 105, 110, 101]], 1)
   \<and> snd (orca_script False empty_world [116, 101, 115, 116, 95, 111, 114, 99, 97, 95, 111, 100, 98, 99, 46, 112, 121] [[45, 45, 112, 97, 116, 105, 101, 110, 116, 115]]) = 1
   \<and> snd (troubleshoot_script True refusing_server) = 0
   \<and> snd (troubleshoot_script True broken_server) = 1
   \<and> snd (troubleshoot_script True interrupted_server) = 0
   \<and> snd (troubleshoot_script False refusing_server) = 1"
proof -
  let ?A = "[116, 101, 115, 116, 95, 111, 114, 99, 97, 95, 111, 100, 98, 99, 46, 112, 121] :: ustr"
  have lp: "list_patients empty_world
     = ([Print (10 # ascii ''=== Patient List ===''), Connect local_orca, Print lp_no_data], Inr ())"
    by (rule list_patients_empty) (simp_all add: empty_world_def)
  have d1: "dispatch empty_world ?A [[45, 45, 112, 97, 116, 105, 101, 110, 116, 115]]
     = ([Print [10, 61, 61, 61, 32, 80, 97, 116, 105, 101, 110, 116, 32, 76, 105, 115, 116, 32, 61, 61, 61], Connect local_orca,
         Print [24739, 32773, 12487, 12540, 12479, 12364, 35211, 12388, 12363, 12426, 12414, 12379, 12435, 12391, 12375, 12383, 12290]], Inr ())"
    unfolding dispatch_patients lp by (simp add: lp_no_data_def ascii_def)
  have d2: "dispatch interrupted_world ?A [[45, 45, 115, 101, 97, 114, 99, 104]]
     = ([Print [10, 61, 61, 61, 32, 24739, 32773, 26908, 32034, 32, 61, 61, 61], Prompt [24739, 32773, 21517, 12414, 12383, 12399, 12501, 12522, 12460, 12490, 12434, 20837, 21147, 12375, 12390, 12367, 12384, 12373, 12356, 58, 32]],
        Inl KeyboardInterrupt)"
    unfolding dispatch_search
    by (rule search_patients_input_raises) (simp add: interrupted_world_def empty_world_def)
  have d3: "dispatch eof_world ?A [[45, 45, 115, 101, 97, 114, 99, 104]]
     = ([Print [10, 61, 61, 61, 32, 24739, 32773, 26908, 32034, 32, 61, 61, 61], Prompt [24739, 32773, 21517, 12414, 12383, 12399, 12501, 12522, 12460, 12490, 12434, 20837, 21147, 12375, 12390, 12367, 12384, 12373, 12356, 58, 32]],
        Inl (OtherException [69, 79, 70, 32, 119, 104, 101, 110, 32, 114, 101, 97, 100, 105, 110, 103, 32, 97, 32, 108, 105, 110, 101]))"
    unfolding dispatch_search
    by (rule search_patients_input_raises) (simp add: eof_world_def empty_world_def ascii_def)
  have m1: "snd (main refusing_server) = Inr ()"
    using test_all_configs_all_fail [of refusing_server test_configs "[]"] refusing_server_all_fail
    by (simp add: all_fail_def main_returns)
  have m2: "snd (main broken_server) = Inl (OtherException [99, 111, 100, 101, 99, 32, 99, 97, 110, 110, 111, 116, 32, 100, 101, 99, 111, 100, 101])"
    by (subst main_first_attempt_raises [where e = "OtherException [99, 111, 100, 101, 99, 32, 99, 97, 110, 110, 111, 116, 32, 100, 101, 99, 111, 100, 101]"])
       (simp_all add: broken_server_def ascii_def)
  have m3: "snd (main interrupted_server) = Inl KeyboardInterrupt"
    by (subst main_first_attempt_raises [where e = KeyboardInterrupt])
       (simp_all add: interrupted_server_def)
  note e1 = exit_status [where w = empty_world and prog = ?A and args = "[[45, 45, 112, 97, 116, 105, 101, 110, 116, 115]]"
      and server_reply = refusing_server and e = KeyboardInterrupt]
  note e2 = exit_status [where w = interrupted_world and prog = ?A and args = "[[45, 45, 115, 101, 97, 114, 99, 104]]"
      and server_reply = interrupted_server and e = KeyboardInterrupt]
  note e3 = exit_status [where w = eof_world and prog = ?A and args = "[[45, 45, 115, 101, 97, 114, 99, 104]]"
      and server_reply = broken_server and e = "OtherException [99, 111, 100, 101, 99, 32, 99, 97, 110, 110, 111, 116, 32, 100, 101, 99, 111, 100, 101]"]
  note e4 = exit_status [where w = eof_world and prog = ?A and args = "[[45, 45, 115, 101, 97, 114, 99, 104]]"
      and server_reply = broken_server and e = "OtherException [69, 79, 70, 32, 119, 104, 101, 110, 32, 114, 101, 97, 100, 105, 110, 103, 32, 97, 32, 108, 105, 110, 101]"]
  from e1 d1 m1 have r1: "orca_script True empty_world ?A [[45, 45, 112, 97, 116, 105, 101, 110, 116, 115]]
     = ([Print [10, 61, 61, 61, 32, 80, 97, 116, 105, 101, 110, 116, 32, 76, 105, 115, 116, 32, 61, 61, 61], Connect local_orca,
         Print [24739, 32773, 12487, 12540, 12479, 12364, 35211, 12388, 12363, 12426, 12414, 12379, 12435, 12391, 12375, 12383, 12290]], 0)"
    and r4: "snd (orca_script False empty_world ?A [[45, 45, 112, 97, 116, 105, 101, 110, 116, 115]]) = 1"
    and r5: "snd (troubleshoot_script True refusing_server) = 0"
    and r8: "snd (troubleshoot_script False refusing_server) = 1"
    by simp_all
  from e2 d2 m3 have r2: "orca_script True interrupted_world ?A [[45, 45, 115, 101, 97, 114, 99, 104]]
     = ([Print [10, 61, 61, 61, 32, 24739, 32773, 26908, 32034, 32, 61, 61, 61], Prompt [24739, 32773, 21517, 12414, 12383, 12399, 12501, 12522, 12460, 12490, 12434, 20837, 21147, 12375, 12390, 12367, 12384, 12373, 12356, 58, 32],
         Print [10, 84, 101, 115, 116, 32, 105, 110, 116, 101, 114, 114, 117, 112, 116, 101, 100, 32, 98, 121, 32, 117, 115, 101, 114, 46]], 0)"
    and r7: "snd (troubleshoot_script True interrupted_server) = 0"
    by simp_all
  from e3 m2 have r6: "snd (troubleshoot_script True broken_server) = 1"
    by simp
  from e4 d3 have r3: "orca_script True eof_world ?A [[45, 45, 115, 101, 97, 114, 99, 104]]
     = ([Print [10, 61, 61, 61, 32, 24739, 32773, 26908, 32034, 32, 61, 61, 61], Prompt [24739, 32773, 21517, 12414, 12383, 12399, 12501, 12522, 12460, 12490, 12434, 20837, 21147, 12375, 12390, 12367, 12384, 12373, 12356, 58, 32],
         Print [85, 110, 101, 120, 112, 101, 99, 116, 101, 100, 32, 101, 114, 114, 111, 114, 58, 32, 69, 79, 70, 32, 119, 104, 101, 110, 32, 114, 101, 97, 100, 105, 110, 103, 32, 97, 32, 108, 105, 110, 101]], 1)"
    by simp
  from r1 r2 r3 r4 r5 r6 r7 r8 show ?thesis by blast
qed

subsection \<open>Errors at the boundary of a routine\<close>



















end
